(* ===== verification/Prelude.thy ===== *)
theory Prelude
  imports Complex_Main "HOL-Library.AList" "HOL-Library.List_Lexorder" "HOL-Library.Char_ord"
    "HOL-Library.Sublist"
begin

text \<open>
  Shared vocabulary of the development.  Python code raises exceptions; the model returns
  them as the left side of a sum \<open>pyexn + 'a\<close>.  \<open>bindE\<close> sequences two steps and stops at
  the first exception, as Python does; \<open>mapE\<close> is a \<^verbatim>\<open>for\<close> loop that builds a list and
  \<open>foldE\<close> a \<^verbatim>\<open>for\<close> loop that threads a state.  Their congruence rules let
  \<^theory_text>\<open>function\<close> see that a recursive call inside a loop body is made only on elements of
  the list the loop walks, which the termination proofs of the serializer need.
\<close>

named_theorems size_facts "facts bounding the size of values a Python operation returns"
named_theorems loop_simps "evaluation rules of the loop combinators"

datatype pyexn = TypeError | AttributeError | KeyError | ValueError | OSError | UnicodeDecodeError

type_synonym 'a result = "pyexn + 'a"

definition bindE :: "'e + 'a \<Rightarrow> ('a \<Rightarrow> 'e + 'b) \<Rightarrow> 'e + 'b" where
  "bindE m f = (case m of Inl e \<Rightarrow> Inl e | Inr a \<Rightarrow> f a)"

fun mapE :: "('a \<Rightarrow> 'e + 'b) \<Rightarrow> 'a list \<Rightarrow> 'e + 'b list" where
  "mapE f [] = Inr []"
| "mapE f (x # xs) = bindE (f x) (\<lambda>y. bindE (mapE f xs) (\<lambda>ys. Inr (y # ys)))"

fun foldE :: "('a \<Rightarrow> 's \<Rightarrow> 'e + 's) \<Rightarrow> 'a list \<Rightarrow> 's \<Rightarrow> 'e + 's" where
  "foldE f [] s = Inr s"
| "foldE f (x # xs) s = bindE (f x s) (foldE f xs)"

text \<open>\<open>allE\<close> is a loop that stops at the first test that fails, as \<^verbatim>\<open>all\<close> and
  \<^verbatim>\<open>for ... break\<close> do; \<open>filterE\<close> keeps the elements a raising test accepts and
  \<open>findE\<close> returns the first one.\<close>

fun allE :: "('a \<Rightarrow> bool result) \<Rightarrow> 'a list \<Rightarrow> bool result" where
  "allE p [] = Inr True"
| "allE p (x # xs) = bindE (p x) (\<lambda>b. if b then allE p xs else Inr False)"

fun filterE :: "('a \<Rightarrow> bool result) \<Rightarrow> 'a list \<Rightarrow> 'a list result" where
  "filterE p [] = Inr []"
| "filterE p (x # xs) = bindE (p x) (\<lambda>b. bindE (filterE p xs) (\<lambda>ys. Inr (if b then x # ys else ys)))"

fun findE :: "('a \<Rightarrow> bool result) \<Rightarrow> 'a list \<Rightarrow> 'a option result" where
  "findE p [] = Inr None"
| "findE p (x # xs) = bindE (p x) (\<lambda>b. if b then Inr (Some x) else findE p xs)"

subsection \<open>The error monad\<close>

lemma bindE_Inl [simp, loop_simps]: "bindE (Inl e) f = Inl e"
  by (simp add: bindE_def)

lemma bindE_Inr [simp, loop_simps]: "bindE (Inr a) f = f a"
  by (simp add: bindE_def)

lemma bindE_cong [fundef_cong]:
  "m = m' \<Longrightarrow> (\<And>a. m' = Inr a \<Longrightarrow> f a = g a) \<Longrightarrow> bindE m f = bindE m' g"
  by (cases m') simp_all

lemma bindE_eq_Inr: "bindE m f = Inr b \<longleftrightarrow> (\<exists>a. m = Inr a \<and> f a = Inr b)"
  by (cases m) simp_all

lemma bindE_eq_Inl: "bindE m f = Inl e \<longleftrightarrow> m = Inl e \<or> (\<exists>a. m = Inr a \<and> f a = Inl e)"
  by (cases m) simp_all

lemma mapE_cong [fundef_cong]:
  "xs = ys \<Longrightarrow> (\<And>x. x \<in> set ys \<Longrightarrow> f x = g x) \<Longrightarrow> mapE f xs = mapE g ys"
  by (induction ys arbitrary: xs) auto

lemma foldE_cong [fundef_cong]:
  "xs = ys \<Longrightarrow> s = t \<Longrightarrow> (\<And>x u. x \<in> set ys \<Longrightarrow> f x u = g x u) \<Longrightarrow> foldE f xs s = foldE g ys t"
  by (induction ys arbitrary: xs s t) (auto intro: bindE_cong)

lemma allE_cong [fundef_cong]:
  "xs = ys \<Longrightarrow> (\<And>x. x \<in> set ys \<Longrightarrow> p x = q x) \<Longrightarrow> allE p xs = allE q ys"
  by (induction ys arbitrary: xs) (auto intro: bindE_cong)

text \<open>Weak congruence rules: the simplifier rewrites the argument a loop runs over, and
  enters the loop body only once the loop has been unfolded on a concrete element.  This
  keeps the evaluation of a recursive serializer on a closed value from unfolding the
  recursive calls inside the body of a loop that has not run yet.\<close>

lemma bindE_weak_cong [cong]: "m = m' \<Longrightarrow> bindE m f = bindE m' f" by simp
lemma mapE_weak_cong [cong]: "xs = ys \<Longrightarrow> mapE f xs = mapE f ys" by simp
lemma foldE_weak_cong [cong]: "xs = ys \<Longrightarrow> s = t \<Longrightarrow> foldE f xs s = foldE f ys t" by simp
lemma allE_weak_cong [cong]: "xs = ys \<Longrightarrow> allE f xs = allE f ys" by simp
lemma filterE_weak_cong [cong]: "xs = ys \<Longrightarrow> filterE f xs = filterE f ys" by simp
lemma findE_weak_cong [cong]: "xs = ys \<Longrightarrow> findE f xs = findE f ys" by simp

text \<open>Loops whose body never raises compute the ordinary list functions.\<close>

lemma filterE_Inr_filter: "(\<And>x. x \<in> set xs \<Longrightarrow> p x = Inr (q x)) \<Longrightarrow> filterE p xs = Inr (filter q xs)"
  by (induction xs) simp_all

lemma findE_Inr_find: "(\<And>x. x \<in> set xs \<Longrightarrow> p x = Inr (q x)) \<Longrightarrow> findE p xs = Inr (find q xs)"
  by (induction xs) simp_all

lemma allE_Inr_list_all: "(\<And>x. x \<in> set xs \<Longrightarrow> p x = Inr (q x)) \<Longrightarrow> allE p xs = Inr (list_all q xs)"
  by (induction xs) simp_all

text \<open>A loop whose body never raises computes the ordinary \<open>map\<close>.\<close>

lemma mapE_Inr_map: "(\<And>x. x \<in> set xs \<Longrightarrow> f x = Inr (g x)) \<Longrightarrow> mapE f xs = Inr (map g xs)"
  by (induction xs) simp_all

lemma mapE_Inr_length: "mapE f xs = Inr ys \<Longrightarrow> length ys = length xs"
  by (induction xs arbitrary: ys) (auto simp: bindE_eq_Inr)

lemma mapE_Inr_nth:
  "mapE f xs = Inr ys \<Longrightarrow> i < length xs \<Longrightarrow> f (xs ! i) = Inr (ys ! i)"
proof (induction xs arbitrary: ys i)
  case Nil
  then show ?case by simp
next
  case (Cons x xs)
  then obtain y ys' where "f x = Inr y" "mapE f xs = Inr ys'" "ys = y # ys'"
    by (auto simp: bindE_eq_Inr)
  with Cons show ?case by (cases i) auto
qed

lemma foldE_Inr_fold: "(\<And>x s. x \<in> set xs \<Longrightarrow> f x s = Inr (g x s)) \<Longrightarrow> foldE f xs s = Inr (fold g xs s)"
  by (induction xs arbitrary: s) simp_all

lemma mapE_exists_Inr: "(\<And>x. x \<in> set xs \<Longrightarrow> \<exists>y. f x = Inr y) \<Longrightarrow> \<exists>ys. mapE f xs = Inr ys"
  by (induction xs) (auto simp: bindE_eq_Inr)

text \<open>A loop that undoes another: if \<open>g\<close> inverts \<open>f\<close> on every element, mapping \<open>g\<close>
  over the outputs of \<open>f\<close> gives the inputs back.\<close>

lemma mapE_inverse:
  "mapE f xs = Inr ys \<Longrightarrow> (\<And>x y. x \<in> set xs \<Longrightarrow> f x = Inr y \<Longrightarrow> g y = Inr x) \<Longrightarrow> mapE g ys = Inr xs"
  by (induction xs arbitrary: ys) (auto simp: bindE_eq_Inr)

lemma foldE_append: "foldE f (xs @ ys) s = bindE (foldE f xs s) (foldE f ys)"
  by (induction xs arbitrary: s) (auto simp: bindE_def split: sum.splits)

subsection \<open>Association lists as Python dictionaries\<close>

text \<open>
  A Python \<^verbatim>\<open>dict\<close> (and an object's \<^verbatim>\<open>__dict__\<close>) keeps its keys in insertion order;
  \<^verbatim>\<open>d[k] = v\<close> overwrites an existing key in place and appends a new one.  That is
  exactly \<open>AList.update\<close>; lookup is \<open>map_of\<close>.
\<close>

lemma map_of_update_same [simp]: "map_of (AList.update k v al) k = Some v"
  by (simp add: update_conv')

lemma map_of_update_other [simp]: "k' \<noteq> k \<Longrightarrow> map_of (AList.update k v al) k' = map_of al k'"
  by (simp add: update_conv')

lemma update_existing_keys:
  "k \<in> set (map fst al) \<Longrightarrow> map fst (AList.update k v al) = map fst al"
  by (simp add: update_keys)

lemma update_of_lookup: "map_of al k = Some v \<Longrightarrow> distinct (map fst al) \<Longrightarrow> AList.update k v al = al"
  by (induction al) (auto split: if_splits)

text \<open>A loop of assignments whose value depends only on the key writes that value at every
  key it visits and leaves the others alone; with distinct keys each write survives.\<close>

lemma map_of_fold_update:
  "(\<And>m. m \<in> set ms \<Longrightarrow> h m = H (g m)) \<Longrightarrow>
   map_of (fold (\<lambda>m al. AList.update (g m) (h m) al) ms al) k =
     (if k \<in> g ` set ms then Some (H k) else map_of al k)"
  by (induction ms arbitrary: al) (auto simp: update_conv')

lemma map_of_fold_update_notin:
  "k \<notin> g ` set ms \<Longrightarrow> map_of (fold (\<lambda>m al. AList.update (g m) (h m) al) ms al) k = map_of al k"
  by (induction ms arbitrary: al) (auto simp: update_conv')

lemma map_of_fold_update_distinct:
  "distinct (map g ms) \<Longrightarrow> m \<in> set ms \<Longrightarrow>
   map_of (fold (\<lambda>m al. AList.update (g m) (h m) al) ms al) (g m) = Some (h m)"
  by (induction ms arbitrary: al) (auto simp: map_of_fold_update_notin)

lemma keys_fold_update:
  "g ` set ms \<subseteq> set (map fst al) \<Longrightarrow> map fst (fold (\<lambda>m al. AList.update (g m) (h m) al) ms al) = map fst al"
proof (induction ms arbitrary: al)
  case Nil
  then show ?case by simp
next
  case (Cons m ms)
  then have eq: "map fst (AList.update (g m) (h m) al) = map fst al"
    by (simp add: update_existing_keys)
  with Cons.prems have "g ` set ms \<subseteq> set (map fst (AList.update (g m) (h m) al))"
    by simp
  then have "map fst (fold (\<lambda>m al. AList.update (g m) (h m) al) ms (AList.update (g m) (h m) al))
      = map fst (AList.update (g m) (h m) al)"
    by (rule Cons.IH)
  with eq show ?case by simp
qed

text \<open>Two association lists with the same distinct keys in the same order and the same
  lookups are equal.\<close>

lemma alist_eqI:
  "distinct (map fst xs) \<Longrightarrow> map fst xs = map fst ys \<Longrightarrow> map_of xs = map_of ys \<Longrightarrow> xs = ys"
proof (induction xs arbitrary: ys)
  case Nil
  then show ?case by simp
next
  case (Cons p xs)
  then obtain q ys' where ys: "ys = q # ys'" by (cases ys) auto
  with Cons.prems have k: "fst q = fst p" and ks: "map fst xs = map fst ys'" by auto
  from Cons.prems ys k have "snd q = snd p"
    by (metis (no_types) fun_upd_same map_of_Cons_code(2) option.inject prod.collapse)
  with k have pq: "q = p" by (simp add: prod_eq_iff)
  have "map_of xs = map_of ys'"
  proof
    fix k'
    show "map_of xs k' = map_of ys' k'"
    proof (cases "k' = fst p")
      case True
      from Cons.prems(1) have "fst p \<notin> set (map fst xs)" by simp
      moreover have "set (map fst xs) = set (map fst ys')" by (simp only: ks)
      ultimately have "map_of xs k' = None" "map_of ys' k' = None"
        using True by (simp_all add: map_of_eq_None_iff)
      then show ?thesis by simp
    next
      case False
      with Cons.prems(3) ys pq show ?thesis by (cases p) (auto dest: fun_cong [of _ _ k'])
    qed
  qed
  with Cons.IH Cons.prems(1) ks have "xs = ys'" by simp
  with ys pq show ?case by simp
qed

lemma map_of_SomeD_set: "map_of al k = Some v \<Longrightarrow> (k, v) \<in> set al"
  by (rule map_of_SomeD)

subsection \<open>Strings\<close>

definition is_private :: "string \<Rightarrow> bool" where
  "is_private n \<longleftrightarrow> prefix ''_'' n"

lemma is_private_Cons [simp]: "is_private (c # n) \<longleftrightarrow> c = CHR ''_''"
  by (auto simp: is_private_def)

lemma is_private_Nil [simp]: "\<not> is_private []"
  by (simp add: is_private_def)

end
