(* ===== verification/PyValue.thy ===== *)
theory PyValue
  imports Prelude
begin

text \<open>
  The values the serializer of \<^verbatim>\<open>src/roguewarapi/data/basejsonobject.py\<close> handles: what
  \<^verbatim>\<open>json.loads\<close> returns (\<^verbatim>\<open>None\<close>, booleans, integers, floats, strings, lists,
  dictionaries), tuples (a default attribute value of \<^verbatim>\<open>StarSystem\<close> is one) and instances
  of the data classes.  An instance \<open>PObj c attrs\<close> is its class \<open>c\<close> and its instance
  dictionary \<^verbatim>\<open>__dict__\<close>, in insertion order.  The class type \<open>'c\<close> is a parameter:
  the generic serializer is stated over any class table, the entities theory instantiates it.
  Python integers are unbounded (\<open>int\<close>); floats are modelled as reals (no rounding).

  The Python operations the serializer applies to such values are modelled with the
  exception CPython raises: membership \<^verbatim>\<open>k in v\<close>, subscription \<^verbatim>\<open>v[k]\<close> by a string,
  iteration \<^verbatim>\<open>for x in v\<close>, and attribute access on an instance.
\<close>

datatype 'c pval =
    PNone
  | PBool bool
  | PInt int
  | PFloat real
  | PStr string
  | PList "'c pval list"
  | PTuple "'c pval list"
  | PDict "(string \<times> 'c pval) list"
  | PObj 'c "(string \<times> 'c pval) list"

type_synonym 'c attrs = "(string \<times> 'c pval) list"

text \<open>\<^verbatim>\<open>k in v\<close> for a string \<^verbatim>\<open>k\<close>: a key test on a dict, an element test on a list or
  tuple (a string equals only a string), a substring test on a string, and
  \<^verbatim>\<open>TypeError\<close> (argument is not iterable) on everything else.\<close>

fun py_in :: "string \<Rightarrow> 'c pval \<Rightarrow> bool result" where
  "py_in k (PDict kvs) = Inr (k \<in> set (map fst kvs))"
| "py_in k (PList xs) = Inr (PStr k \<in> set xs)"
| "py_in k (PTuple xs) = Inr (PStr k \<in> set xs)"
| "py_in k (PStr s) = Inr (sublist k s)"
| "py_in k _ = Inl TypeError"

text \<open>\<^verbatim>\<open>v[k]\<close> for a string \<^verbatim>\<open>k\<close>: only a dict accepts a string index.\<close>

fun py_getitem :: "'c pval \<Rightarrow> string \<Rightarrow> 'c pval result" where
  "py_getitem (PDict kvs) k = (case map_of kvs k of None \<Rightarrow> Inl KeyError | Some v \<Rightarrow> Inr v)"
| "py_getitem _ k = Inl TypeError"

text \<open>\<^verbatim>\<open>for x in v\<close>: a list or tuple yields its elements, a dict its keys, a string its
  one-character strings.\<close>

fun py_iter :: "'c pval \<Rightarrow> 'c pval list result" where
  "py_iter (PList xs) = Inr xs"
| "py_iter (PTuple xs) = Inr xs"
| "py_iter (PDict kvs) = Inr (map (\<lambda>kv. PStr (fst kv)) kvs)"
| "py_iter (PStr s) = Inr (map (\<lambda>ch. PStr [ch]) s)"
| "py_iter _ = Inl TypeError"

text \<open>Instance attributes: \<^verbatim>\<open>getattr\<close> raises \<^verbatim>\<open>AttributeError\<close> on a missing name,
  \<^verbatim>\<open>setattr\<close> writes the instance dictionary.\<close>

definition getattr :: "'c attrs \<Rightarrow> string \<Rightarrow> 'c pval result" where
  "getattr a n = (case map_of a n of None \<Rightarrow> Inl AttributeError | Some v \<Rightarrow> Inr v)"

definition setattr :: "'c attrs \<Rightarrow> string \<Rightarrow> 'c pval \<Rightarrow> 'c attrs" where
  "setattr a n v = AList.update n v a"

text \<open>A number in Python's numeric tower: \<^verbatim>\<open>bool\<close> is a subclass of \<^verbatim>\<open>int\<close>.\<close>

fun num_of :: "'c pval \<Rightarrow> real option" where
  "num_of (PBool b) = Some (if b then 1 else 0)"
| "num_of (PInt i) = Some (real_of_int i)"
| "num_of (PFloat r) = Some r"
| "num_of _ = None"

subsection \<open>Sizes\<close>

text \<open>What the operations return is no larger than their argument; these facts carry the
  termination proofs of the recursive serializer.\<close>

lemma size_map_of_lt [size_facts]: "map_of kvs k = Some v \<Longrightarrow> size v < Suc (size_list (\<lambda>p. Suc (size (snd p))) kvs)"
proof (induction kvs)
  case Nil
  then show ?case by simp
next
  case (Cons kv kvs)
  then show ?case by (cases kv) (auto split: if_splits)
qed

lemma size_py_getitem [size_facts]: "py_getitem d k = Inr v \<Longrightarrow> size v < size d"
  by (cases d) (auto simp: size_prod_simp dest: size_map_of_lt split: option.splits)

lemma size_list_elem: "x \<in> set xs \<Longrightarrow> size x < Suc (size_list size xs)"
  by (induction xs) auto

lemma size_py_iter [size_facts]: "py_iter v = Inr xs \<Longrightarrow> x \<in> set xs \<Longrightarrow> size x \<le> size v"
  by (cases v) (auto dest: size_list_elem)

lemma size_attr_member [size_facts]: "(n, v) \<in> set a \<Longrightarrow> size v < size (PObj c a)"
  by (auto simp: size_prod_simp dest!: split_list)

lemma size_getattr [size_facts]:
  assumes "getattr a n = Inr v"
  shows "size v < size (PObj c a)"
proof -
  from assms have "(n, v) \<in> set a"
    by (auto simp: getattr_def dest: map_of_SomeD split: option.splits)
  then show ?thesis by (rule size_attr_member)
qed

lemma size_list_member [size_facts]: "x \<in> set xs \<Longrightarrow> size x < size (PList xs)"
  by (auto dest: size_list_elem)

lemma size_alist_elem: "(k, v) \<in> set kvs \<Longrightarrow> size v < Suc (size_list (size_prod (\<lambda>x. 0) size) kvs)"
  by (induction kvs) auto

lemma size_alist_map_of: "map_of kvs k = Some v \<Longrightarrow> size v < Suc (size_list (size_prod (\<lambda>x. 0) size) kvs)"
  by (auto dest: map_of_SomeD size_alist_elem)

lemma size_zip_elem:
  assumes "p \<in> set (zip xs ys)"
  shows "(case p of (x, y) \<Rightarrow> size x + size y) < Suc (Suc (size_list size xs + size_list size ys))"
proof (cases p)
  case (Pair x y)
  with assms have "x \<in> set xs" "y \<in> set ys" by (auto dest: set_zip_leftD set_zip_rightD)
  then have "size x < Suc (size_list size xs)" "size y < Suc (size_list size ys)"
    by (auto dest: size_list_elem)
  with Pair show ?thesis by simp
qed

subsection \<open>Attribute access\<close>

lemma getattr_Inr [simp]: "getattr a n = Inr v \<longleftrightarrow> map_of a n = Some v"
  by (auto simp: getattr_def split: option.splits)

lemma getattr_Some [simp]: "map_of a n = Some v \<Longrightarrow> getattr a n = Inr v"
  by (simp add: getattr_def)

lemma py_in_dict_Some [simp]: "map_of kvs k = Some v \<Longrightarrow> py_in k (PDict kvs) = Inr True"
  by (force dest: map_of_SomeD)

lemma py_getitem_dict_Some [simp]: "map_of kvs k = Some v \<Longrightarrow> py_getitem (PDict kvs) k = Inr v"
  by simp

lemma getattr_setattr_same [simp]: "getattr (setattr a n v) n = Inr v"
  by (simp add: getattr_def setattr_def)

lemma map_of_setattr: "map_of (setattr a n v) = (map_of a)(n \<mapsto> v)"
  by (simp add: setattr_def update_conv')

lemma keys_setattr: "n \<in> set (map fst a) \<Longrightarrow> map fst (setattr a n v) = map fst a"
  by (simp add: setattr_def update_existing_keys)

lemma setattr_lookup: "map_of a n = Some v \<Longrightarrow> distinct (map fst a) \<Longrightarrow> setattr a n v = a"
  by (simp add: setattr_def update_of_lookup)

lemma distinct_setattr: "distinct (map fst a) \<Longrightarrow> distinct (map fst (setattr a n v))"
  by (simp add: setattr_def distinct_update)

end
