(* ===== verification/BaseJson.thy ===== *)
theory BaseJson
  imports PyValue "HOL-Library.Word"
begin

text \<open>
  The generic (de)serializer of \<^verbatim>\<open>src/roguewarapi/data/basejsonobject.py\<close>.
  A class is described by a \<open>classinfo\<close>: its \<^verbatim>\<open>JSON_Type\<close>, the instance dictionary
  its \<^verbatim>\<open>__init__\<close> builds, its \<^verbatim>\<open>_SubObjectMapping\<close>, \<^verbatim>\<open>_B64Memebers\<close>,
  \<^verbatim>\<open>_ExcludeFromMemebers\<close> and its properties (a getter each, which may raise).
  A \<open>runtime\<close> bundles the class table with the base64 codec the code calls.
  \<open>get_members\<close> is \<^verbatim>\<open>_get_members\<close>, \<open>to_json\<close> is \<^verbatim>\<open>_toJson\<close>,
  \<open>from_json\<close> is \<^verbatim>\<open>_fromJson\<close> (its member loop is \<open>load_members\<close>, the
  container it reads a sub-object from is \<open>sub_source\<close>) and \<open>from_json_top\<close> is
  \<^verbatim>\<open>fromJson\<close>.  Each returns the exception the Python code lets escape as \<open>Inl\<close>.
\<close>

record 'c submap =
  sub_class :: 'c
  container :: string
  json_container :: string
  is_list :: bool

record 'c classinfo =
  json_type :: string
  cinit :: "'c attrs"
  csubmap :: "'c submap list"
  cb64 :: "string list"
  cexclude :: "string list"
  cprops :: "(string \<times> ('c attrs \<Rightarrow> 'c pval result)) list"

record 'c runtime =
  classes :: "'c \<Rightarrow> 'c classinfo"
  b64_encode :: "'c pval \<Rightarrow> 'c pval result"
  b64_decode :: "'c pval \<Rightarrow> 'c pval result"

text \<open>\<^verbatim>\<open>SubObjectMap.__init__\<close>: the JSON container defaults to the sub-class's tag.\<close>

definition mk_submap :: "('c \<Rightarrow> string) \<Rightarrow> 'c \<Rightarrow> string \<Rightarrow> string option \<Rightarrow> bool \<Rightarrow> 'c submap" where
  "mk_submap tag sub cont jc lst =
     \<lparr>sub_class = sub, container = cont,
      json_container = (case jc of None \<Rightarrow> tag sub | Some t \<Rightarrow> t), is_list = lst\<rparr>"

text \<open>\<^verbatim>\<open>_get_members\<close>: \<^verbatim>\<open>inspect.getmembers\<close> reads every attribute, properties
  included (so a property getter that raises makes the whole call raise), in order of name;
  the method keeps the attributes that are not private, not callable, not properties, not
  \<^verbatim>\<open>JSON_Type\<close> and not excluded.  Instance attributes hold data, never callables, and
  the only public data attribute of the classes themselves is \<^verbatim>\<open>JSON_Type\<close>.  A getter
  raising \<^verbatim>\<open>AttributeError\<close> is caught by \<^verbatim>\<open>inspect.getmembers\<close>, which lists the
  property object instead, but the \<^verbatim>\<open>callable(getattr(self, member[0]))\<close> test of line 80
  runs the getter again for every public name and the exception escapes there: for the public
  properties of the repository every getter exception escapes, as \<open>eval_props\<close> has it.\<close>

definition public_member :: "'c classinfo \<Rightarrow> string \<Rightarrow> bool" where
  "public_member ci n \<longleftrightarrow> \<not> is_private n \<and> n \<notin> set (map fst (cprops ci))
     \<and> n \<noteq> ''JSON_Type'' \<and> n \<notin> set (cexclude ci)"

definition eval_props :: "'c classinfo \<Rightarrow> 'c attrs \<Rightarrow> unit result" where
  "eval_props ci a = foldE (\<lambda>p _. bindE (snd p a) (\<lambda>_. Inr ())) (sort_key fst (cprops ci)) ()"

definition get_members :: "'c runtime \<Rightarrow> 'c \<Rightarrow> 'c attrs \<Rightarrow> 'c attrs result" where
  "get_members rt c a = (let ci = classes rt c in
     bindE (eval_props ci a) (\<lambda>_. Inr (sort_key fst (filter (\<lambda>p. public_member ci (fst p)) a))))"

lemma get_members_subset: "get_members rt c a = Inr ms \<Longrightarrow> set ms \<subseteq> set a"
  by (auto simp: get_members_def Let_def bindE_eq_Inr)

text \<open>\<^verbatim>\<open>_toJson\<close>: members that are \<^verbatim>\<open>None\<close> are left out, base64 members are
  encoded; then every sub-object mapping writes its container key.  Calling
  \<^verbatim>\<open>_toJson\<close> on a value that is not an instance raises \<^verbatim>\<open>AttributeError\<close>.\<close>

definition put_member :: "'c runtime \<Rightarrow> 'c classinfo \<Rightarrow> string \<times> 'c pval \<Rightarrow> 'c attrs \<Rightarrow> 'c attrs result" where
  "put_member rt ci m d = (if snd m = PNone then Inr d
     else if fst m \<in> set (cb64 ci) then bindE (b64_encode rt (snd m)) (\<lambda>e. Inr (AList.update (fst m) e d))
     else Inr (AList.update (fst m) (snd m) d))"

function (sequential) to_json :: "'c runtime \<Rightarrow> 'c pval \<Rightarrow> 'c pval result" where
  "to_json rt (PObj c a) =
     bindE (get_members rt c a) (\<lambda>ms.
     bindE (foldE (put_member rt (classes rt c)) ms []) (\<lambda>d0.
     bindE (foldE (\<lambda>it d.
         bindE (getattr a (container it)) (\<lambda>m.
           if is_list it then
             bindE (py_iter m) (\<lambda>objs.
             bindE (mapE (to_json rt) objs) (\<lambda>js.
             Inr (AList.update (json_container it) (PList js) d)))
           else if m = PNone then Inr (AList.update (json_container it) (PList []) d)
           else bindE (to_json rt m) (\<lambda>j. Inr (AList.update (json_container it) j d))))
       (csubmap (classes rt c)) d0) (\<lambda>d. Inr (PDict d))))"
| "to_json rt v = Inl AttributeError"
  by pat_completeness auto
termination
proof (relation "measure (\<lambda>(rt, v). size v)")
  show "wf (measure (\<lambda>(rt, v). size v))" by simp
next
  fix rt c a ms d0 it d m objs x
  assume "getattr a (container it) = Inr m" "py_iter m = Inr objs" "x \<in> set objs"
  then have "size x < size (PObj c a)"
    using size_getattr size_py_iter by (metis le_less_trans)
  then show "((rt, x), rt, PObj c a) \<in> measure (\<lambda>(rt, v). size v)" by simp
next
  fix rt c a ms d0 it d m
  assume "getattr a (container it) = Inr m"
  then have "size m < size (PObj c a)" by (rule size_getattr)
  then show "((rt, m), rt, PObj c a) \<in> measure (\<lambda>(rt, v). size v)" by simp
qed

text \<open>\<^verbatim>\<open>_fromJson\<close>, lines 151--160: each member present in the input is assigned;
  an exception while reading or decoding it returns \<^verbatim>\<open>False\<close> at once, with the members
  assigned so far kept.  The membership test itself is outside the \<^verbatim>\<open>try\<close>.\<close>

definition read_member :: "'c runtime \<Rightarrow> 'c classinfo \<Rightarrow> 'c pval \<Rightarrow> string \<Rightarrow> 'c pval result" where
  "read_member rt ci d n =
     (if n \<in> set (cb64 ci) then bindE (py_getitem d n) (b64_decode rt) else py_getitem d n)"

fun load_members :: "'c runtime \<Rightarrow> 'c classinfo \<Rightarrow> 'c attrs \<Rightarrow> 'c attrs \<Rightarrow> 'c pval \<Rightarrow> (bool \<times> 'c attrs) result" where
  "load_members rt ci [] a d = Inr (True, a)"
| "load_members rt ci (m # ms) a d =
     bindE (py_in (fst m) d) (\<lambda>b.
       if \<not> b then load_members rt ci ms a d
       else (case read_member rt ci d (fst m) of
               Inl _ \<Rightarrow> Inr (False, a)
             | Inr v \<Rightarrow> load_members rt ci ms (setattr a (fst m) v) d))"

text \<open>Lines 164--169: where a mapping reads its sub-objects from.\<close>

definition sub_source :: "'c submap \<Rightarrow> 'c pval \<Rightarrow> 'c pval result" where
  "sub_source it d = bindE (py_in (json_container it) d) (\<lambda>b.
     if b then py_getitem d (json_container it) else Inr (if is_list it then PNone else d))"

lemma sub_source_dict: "map_of D (json_container it) = Some v \<Longrightarrow> sub_source it (PDict D) = Inr v"
  by (force simp: sub_source_def dest: map_of_SomeD)

lemma size_sub_source [size_facts]: "sub_source it d = Inr v \<Longrightarrow> size v \<le> size d"
  by (auto simp: sub_source_def bindE_eq_Inr split: if_splits dest: size_py_getitem)

text \<open>\<^verbatim>\<open>_fromJson\<close>: a list mapping replaces the container by fresh instances of the
  sub-class, each filled by a recursive call whose result is ignored (only its exceptions
  escape); a singleton mapping reads the sub-class's tag inside the source.\<close>

function from_json :: "'c runtime \<Rightarrow> 'c \<Rightarrow> 'c attrs \<Rightarrow> 'c pval \<Rightarrow> (bool \<times> 'c attrs) result" where
  "from_json rt c a d =
     bindE (get_members rt c a) (\<lambda>ms.
     bindE (load_members rt (classes rt c) ms a d) (\<lambda>r.
     if \<not> fst r then Inr r else
     bindE (foldE (\<lambda>it a1.
         bindE (sub_source it d) (\<lambda>src.
           if is_list it then
             (if src = PNone then Inr (setattr a1 (container it) (PList []))
              else bindE (py_iter src) (\<lambda>tags.
                   bindE (mapE (\<lambda>t. bindE (from_json rt (sub_class it) (cinit (classes rt (sub_class it))) t)
                                        (\<lambda>r'. Inr (PObj (sub_class it) (snd r')))) tags) (\<lambda>objs.
                   Inr (setattr a1 (container it) (PList objs)))))
           else
             bindE (py_in (json_type (classes rt (sub_class it))) src) (\<lambda>b.
               if b then
                 bindE (py_getitem src (json_type (classes rt (sub_class it)))) (\<lambda>v.
                 bindE (from_json rt (sub_class it) (cinit (classes rt (sub_class it))) v) (\<lambda>r'.
                 Inr (setattr a1 (container it) (PObj (sub_class it) (snd r')))))
               else Inr (setattr a1 (container it) (PObj (sub_class it) (cinit (classes rt (sub_class it))))))))
       (csubmap (classes rt c)) (snd r)) (\<lambda>a2. Inr (True, a2))))"
  by pat_completeness auto
termination
proof (relation "measure (\<lambda>(rt, c, a, d). size d)")
  show "wf (measure (\<lambda>(rt, c, a, d). size d))" by simp
next
  fix rt c a d ms r it a1 src tags t
  assume src: "sub_source it d = Inr src" and ne: "src \<noteq> PNone"
    and it: "py_iter src = Inr tags" and t: "t \<in> set tags" and l: "is_list it"
  have "size t < size d"
  proof (cases "py_in (json_container it) d")
    case (Inl e)
    with src show ?thesis by (simp add: sub_source_def)
  next
    case (Inr b)
    with src ne l have "py_getitem d (json_container it) = Inr src"
      by (auto simp: sub_source_def split: if_splits)
    then have "size src < size d" by (rule size_py_getitem)
    moreover from it t have "size t \<le> size src" by (rule size_py_iter)
    ultimately show ?thesis by simp
  qed
  then show "((rt, sub_class it, cinit (classes rt (sub_class it)), t), rt, c, a, d)
             \<in> measure (\<lambda>(rt, c, a, d). size d)" by simp
next
  fix rt c a d ms r it a1 src b v
  assume "sub_source it d = Inr src" "py_getitem src (json_type (classes rt (sub_class it))) = Inr v"
  then have "size v < size d"
    using size_sub_source size_py_getitem by (metis less_le_trans)
  then show "((rt, sub_class it, cinit (classes rt (sub_class it)), v), rt, c, a, d)
             \<in> measure (\<lambda>(rt, c, a, d). size d)" by simp
qed

declare from_json.simps [simp del]

text \<open>Python's \<^verbatim>\<open>==\<close>.  A comparison with an instance runs
  \<^verbatim>\<open>BaseDataObject.__eq__\<close> (directly, or reflected when the instance is on the right), which
  first calls \<^verbatim>\<open>_get_members\<close> and so may raise; it then compares the tags and, for each
  member of the left instance, the right instance's attribute of that name, stopping at the
  first difference (lines 116--136).  Numbers compare across \<^verbatim>\<open>bool\<close>, \<^verbatim>\<open>int\<close> and
  \<^verbatim>\<open>float\<close>; a list never equals a tuple; lists, tuples and dicts compare element by
  element after their lengths.  \<^verbatim>\<open>x != y\<close> is its negation (\<^verbatim>\<open>__ne__\<close>,
  lines 138--139).\<close>

function (sequential) py_eq :: "'c runtime \<Rightarrow> 'c pval \<Rightarrow> 'c pval \<Rightarrow> bool result" where
  "py_eq rt (PObj c a) y =
     bindE (get_members rt c a) (\<lambda>ms.
       case y of
         PObj c' a' \<Rightarrow>
           if json_type (classes rt c) \<noteq> json_type (classes rt c') then Inr False
           else allE (\<lambda>m. case map_of a' (fst m) of None \<Rightarrow> Inr False | Some w \<Rightarrow> py_eq rt w (snd m)) ms
       | _ \<Rightarrow> Inr False)"
| "py_eq rt x (PObj c a) = bindE (get_members rt c a) (\<lambda>_. Inr False)"
| "py_eq rt PNone PNone = Inr True"
| "py_eq rt (PStr s) (PStr t) = Inr (s = t)"
| "py_eq rt (PList xs) (PList ys) =
     (if length xs \<noteq> length ys then Inr False else allE (\<lambda>p. py_eq rt (fst p) (snd p)) (zip xs ys))"
| "py_eq rt (PTuple xs) (PTuple ys) =
     (if length xs \<noteq> length ys then Inr False else allE (\<lambda>p. py_eq rt (fst p) (snd p)) (zip xs ys))"
| "py_eq rt (PDict kvs) (PDict kvs') =
     (if length kvs \<noteq> length kvs' then Inr False
      else allE (\<lambda>p. case map_of kvs' (fst p) of None \<Rightarrow> Inr False | Some w \<Rightarrow> py_eq rt (snd p) w) kvs)"
| "py_eq rt x y = Inr (case (num_of x, num_of y) of (Some p, Some q) \<Rightarrow> p = q | _ \<Rightarrow> False)"
  by pat_completeness auto
termination
  apply (relation "measure (\<lambda>(rt, x, y). size x + size y)")
  apply (simp_all add: size_zip_elem)
  subgoal premises p for rt c a y ms c' a' m w
  proof -
    from p(1,4) have "(fst m, snd m) \<in> set a" using get_members_subset by fastforce
    then have "size (snd m) < Suc (size_list (size_prod (\<lambda>x. 0) size) a)" by (rule size_alist_elem)
    moreover from p(5) have "size w < Suc (size_list (size_prod (\<lambda>x. 0) size) a')" by (rule size_alist_map_of)
    ultimately show ?thesis by simp
  qed
  subgoal premises p for kvs kvs' m w
  proof -
    from p(2) have "(fst m, snd m) \<in> set kvs" by simp
    then have "size (snd m) < Suc (size_list (size_prod (\<lambda>x. 0) size) kvs)" by (rule size_alist_elem)
    moreover from p(3) have "size w < Suc (size_list (size_prod (\<lambda>x. 0) size) kvs')" by (rule size_alist_map_of)
    ultimately show ?thesis by simp
  qed
  done

text \<open>\<^verbatim>\<open>fromJson\<close>: a dict is used as it is, anything else goes through
  \<^verbatim>\<open>json.loads\<close> (the parameter \<open>loads\<close>; \<open>None\<close> is a parse error).  A parse error,
  an argument \<^verbatim>\<open>json.loads\<close> rejects (it takes only text) and a \<^verbatim>\<open>null\<close> document
  return \<^verbatim>\<open>False\<close>; every other value goes to \<^verbatim>\<open>_fromJson\<close>.\<close>

definition from_json_top :: "(string \<Rightarrow> 'c pval option) \<Rightarrow> 'c runtime \<Rightarrow> 'c \<Rightarrow> 'c attrs \<Rightarrow> 'c pval
    \<Rightarrow> (bool \<times> 'c attrs) result" where
  "from_json_top loads rt c a inp = (case inp of
      PDict _ \<Rightarrow> from_json rt c a inp
    | PStr s \<Rightarrow> (case loads s of
          None \<Rightarrow> Inr (False, a)
        | Some PNone \<Rightarrow> Inr (False, a)
        | Some v \<Rightarrow> from_json rt c a v)
    | _ \<Rightarrow> Inr (False, a))"

text \<open>\<^verbatim>\<open>isOfType\<close>: an instance of any data class has a \<^verbatim>\<open>JSON_Type\<close>; other values
  have none.\<close>

fun is_of_type :: "'c runtime \<Rightarrow> 'c \<Rightarrow> 'c pval \<Rightarrow> bool" where
  "is_of_type rt c (PObj c' _) = (json_type (classes rt c) = json_type (classes rt c'))"
| "is_of_type rt c _ = False"

text \<open>\<^verbatim>\<open>_getUtfEncoding\<close>: the byte-order mark decides the codec, the UTF-32 marks
  tested first (the UTF-32 little-endian mark begins with the UTF-16 one).\<close>

datatype utf_codec = UTF8 | UTF16 | UTF32

definition BOM_UTF32_BE :: "8 word list" where "BOM_UTF32_BE = [0, 0, 0xFE, 0xFF]"
definition BOM_UTF32_LE :: "8 word list" where "BOM_UTF32_LE = [0xFF, 0xFE, 0, 0]"
definition BOM_UTF16_BE :: "8 word list" where "BOM_UTF16_BE = [0xFE, 0xFF]"
definition BOM_UTF16_LE :: "8 word list" where "BOM_UTF16_LE = [0xFF, 0xFE]"

definition get_utf_encoding :: "8 word list \<Rightarrow> utf_codec" where
  "get_utf_encoding bs =
     (if prefix BOM_UTF32_BE bs \<or> prefix BOM_UTF32_LE bs then UTF32
      else if prefix BOM_UTF16_LE bs \<or> prefix BOM_UTF16_BE bs then UTF16
      else UTF8)"


text \<open>The UTF-32 little-endian byte-order mark is recognised as UTF-32 although the
  UTF-16 little-endian mark is a prefix of it: the UTF-32 tests come first.\<close>

theorem utf32_le_before_utf16:
  "get_utf_encoding (BOM_UTF32_LE @ rest) = UTF32 \<and> prefix BOM_UTF16_LE (BOM_UTF32_LE @ rest)"
  by (simp add: get_utf_encoding_def BOM_UTF32_LE_def BOM_UTF16_LE_def)

end
