(* ===== verification/RoundTrip.thy ===== *)
theory RoundTrip
  imports BaseJson
begin

text \<open>
  The round trip of the serializer: for an instance that is well formed
  (\<open>wf_obj\<close>), \<^verbatim>\<open>_fromJson\<close> on a fresh instance of its class, applied to what
  \<^verbatim>\<open>_toJson\<close> produced, returns \<^verbatim>\<open>True\<close> and rebuilds the instance exactly, its
  nested sub-objects included (C1).  Well formed means: the class
  table entry is usable (\<open>class_ok\<close>: every mapping is a list mapping with a private
  container and a JSON key that is no member name, the keys are distinct, the properties of a
  fresh instance do not raise); the instance has its class's attributes in \<^verbatim>\<open>__init__\<close>
  order, no member is \<^verbatim>\<open>None\<close>, base64 members survive the codec, attributes that
  are neither members nor containers still hold their initial value (\<open>obj_ok\<close>); and
  each container holds a list of well-formed instances of the mapped class.

  The proof names the two loop bodies (\<open>to_json_sub\<close>, \<open>from_json_sub\<close>), describes
  the dictionary \<^verbatim>\<open>_toJson\<close> builds (\<open>json_dict\<close>), and shows that
  \<^verbatim>\<open>_fromJson\<close> reads every member and every container back from it
  (\<open>from_json_obj\<close>, \<open>restore_attrs\<close>); the induction over \<open>wf_obj\<close> supplies
  the round trip of the children.
\<close>

subsection \<open>The loop bodies\<close>

definition to_json_sub :: "'c runtime \<Rightarrow> 'c attrs \<Rightarrow> 'c submap \<Rightarrow> 'c attrs \<Rightarrow> 'c attrs result" where
  "to_json_sub rt a it d =
     bindE (getattr a (container it)) (\<lambda>m.
       if is_list it then
         bindE (py_iter m) (\<lambda>objs.
         bindE (mapE (to_json rt) objs) (\<lambda>js.
         Inr (AList.update (json_container it) (PList js) d)))
       else if m = PNone then Inr (AList.update (json_container it) (PList []) d)
       else bindE (to_json rt m) (\<lambda>j. Inr (AList.update (json_container it) j d)))"

lemma to_json_PObj:
  "to_json rt (PObj c a) =
     bindE (get_members rt c a) (\<lambda>ms.
     bindE (foldE (put_member rt (classes rt c)) ms []) (\<lambda>d0.
     bindE (foldE (to_json_sub rt a) (csubmap (classes rt c)) d0) (\<lambda>d. Inr (PDict d))))"
  unfolding to_json_sub_def [abs_def] by (rule to_json.simps(1))

definition load_child :: "'c runtime \<Rightarrow> 'c \<Rightarrow> 'c pval \<Rightarrow> 'c pval result" where
  "load_child rt s t = bindE (from_json rt s (cinit (classes rt s)) t) (\<lambda>r. Inr (PObj s (snd r)))"

definition from_json_sub :: "'c runtime \<Rightarrow> 'c pval \<Rightarrow> 'c submap \<Rightarrow> 'c attrs \<Rightarrow> 'c attrs result" where
  "from_json_sub rt d it a1 =
     bindE (sub_source it d) (\<lambda>src.
       if is_list it then
         (if src = PNone then Inr (setattr a1 (container it) (PList []))
          else bindE (py_iter src) (\<lambda>tags.
               bindE (mapE (load_child rt (sub_class it)) tags) (\<lambda>objs.
               Inr (setattr a1 (container it) (PList objs)))))
       else
         bindE (py_in (json_type (classes rt (sub_class it))) src) (\<lambda>b.
           if b then
             bindE (py_getitem src (json_type (classes rt (sub_class it)))) (\<lambda>v.
             bindE (from_json rt (sub_class it) (cinit (classes rt (sub_class it))) v) (\<lambda>r'.
             Inr (setattr a1 (container it) (PObj (sub_class it) (snd r')))))
           else Inr (setattr a1 (container it) (PObj (sub_class it) (cinit (classes rt (sub_class it)))))))"

lemma from_json_unfold:
  "from_json rt c a d =
     bindE (get_members rt c a) (\<lambda>ms.
     bindE (load_members rt (classes rt c) ms a d) (\<lambda>r.
     if \<not> fst r then Inr r else
     bindE (foldE (from_json_sub rt d) (csubmap (classes rt c)) (snd r)) (\<lambda>a2. Inr (True, a2))))"
  unfolding from_json_sub_def [abs_def] load_child_def [abs_def] by (rule from_json.simps)

subsection \<open>Well-formed instances\<close>

text \<open>The names of a class's members: the public data attributes \<^verbatim>\<open>__init__\<close> creates.\<close>

definition member_names :: "'c classinfo \<Rightarrow> string list" where
  "member_names ci = filter (public_member ci) (map fst (cinit ci))"

definition class_ok :: "'c runtime \<Rightarrow> 'c \<Rightarrow> bool" where
  "class_ok rt c \<longleftrightarrow> (let ci = classes rt c in
     distinct (map fst (cinit ci)) \<and> eval_props ci (cinit ci) = Inr () \<and>
     distinct (map json_container (csubmap ci)) \<and>
     (\<forall>it \<in> set (csubmap ci). is_list it \<and> \<not> public_member ci (container it)
        \<and> json_container it \<notin> set (member_names ci)))"

definition obj_ok :: "'c runtime \<Rightarrow> 'c \<Rightarrow> 'c attrs \<Rightarrow> bool" where
  "obj_ok rt c a \<longleftrightarrow> (let ci = classes rt c in
     class_ok rt c \<and> map fst a = map fst (cinit ci) \<and> eval_props ci a = Inr () \<and>
     (\<forall>p \<in> set a. public_member ci (fst p) \<longrightarrow> snd p \<noteq> PNone \<and>
        (fst p \<in> set (cb64 ci) \<longrightarrow> (\<exists>e. b64_encode rt (snd p) = Inr e \<and> b64_decode rt e = Inr (snd p)))) \<and>
     (\<forall>p \<in> set a. \<not> public_member ci (fst p) \<and> fst p \<notin> container ` set (csubmap ci)
        \<longrightarrow> map_of (cinit ci) (fst p) = Some (snd p)))"

inductive wf_obj :: "'c runtime \<Rightarrow> 'c pval \<Rightarrow> bool" for rt where
  wf_objI: "obj_ok rt c a \<Longrightarrow>
   (\<forall>it \<in> set (csubmap (classes rt c)). \<exists>objs. map_of a (container it) = Some (PList objs) \<and>
       (\<forall>x \<in> set objs. (\<exists>a'. x = PObj (sub_class it) a') \<and> wf_obj rt x)) \<Longrightarrow>
   wf_obj rt (PObj c a)"

inductive_simps wf_obj_PObj: "wf_obj rt (PObj c a)"

subsection \<open>The two halves\<close>

text \<open>The value \<^verbatim>\<open>_toJson\<close> stores for a member.\<close>

definition enc_member :: "'c runtime \<Rightarrow> 'c classinfo \<Rightarrow> string \<times> 'c pval \<Rightarrow> 'c pval" where
  "enc_member rt ci p = (if fst p \<in> set (cb64 ci) then projr (b64_encode rt (snd p)) else snd p)"

lemma get_members_ok:
  "eval_props (classes rt c) a = Inr () \<Longrightarrow>
   get_members rt c a = Inr (sort_key fst (filter (\<lambda>p. public_member (classes rt c) (fst p)) a))"
  by (simp add: get_members_def)

lemma put_members_ok:
  assumes "\<forall>p \<in> set ms. snd p \<noteq> PNone \<and> (fst p \<in> set (cb64 ci) \<longrightarrow> (\<exists>e. b64_encode rt (snd p) = Inr e))"
  shows "foldE (put_member rt ci) ms d = Inr (fold (\<lambda>p d. AList.update (fst p) (enc_member rt ci p) d) ms d)"
proof (rule foldE_Inr_fold)
  fix p d'
  assume "p \<in> set ms"
  with assms show "put_member rt ci p d' = Inr (AList.update (fst p) (enc_member rt ci p) d')"
    by (auto simp: put_member_def enc_member_def)
qed

lemma to_json_sub_list:
  "is_list it \<Longrightarrow> map_of a (container it) = Some (PList objs) \<Longrightarrow> mapE (to_json rt) objs = Inr js \<Longrightarrow>
   to_json_sub rt a it d = Inr (AList.update (json_container it) (PList js) d)"
  by (simp add: to_json_sub_def)

lemma from_json_sub_list:
  "is_list it \<Longrightarrow> map_of D (json_container it) = Some (PList js) \<Longrightarrow>
   mapE (load_child rt (sub_class it)) js = Inr objs \<Longrightarrow>
   from_json_sub rt (PDict D) it a1 = Inr (setattr a1 (container it) (PList objs))"
  by (simp add: from_json_sub_def sub_source_dict)

lemma load_members_present:
  "(\<And>m. m \<in> set ms \<Longrightarrow> py_in (fst m) d = Inr True \<and> read_member rt ci d (fst m) = Inr (f (fst m))) \<Longrightarrow>
   load_members rt ci ms a d = Inr (True, fold (\<lambda>m a. setattr a (fst m) (f (fst m))) ms a)"
  by (induction ms arbitrary: a) simp_all

text \<open>The dictionary \<^verbatim>\<open>_toJson\<close> returns, given the JSON lists \<open>js\<close> it built for
  the containers.\<close>

definition json_dict :: "'c runtime \<Rightarrow> 'c classinfo \<Rightarrow> 'c attrs \<Rightarrow> ('c submap \<Rightarrow> 'c pval list) \<Rightarrow> 'c attrs" where
  "json_dict rt ci a js =
     fold (\<lambda>it d. AList.update (json_container it) (PList (js it)) d) (csubmap ci)
       (fold (\<lambda>p d. AList.update (fst p) (enc_member rt ci p) d)
          (sort_key fst (filter (\<lambda>p. public_member ci (fst p)) a)) [])"

lemma obj_ok_distinct: "obj_ok rt c a \<Longrightarrow> distinct (map fst a)"
  by (simp add: obj_ok_def class_ok_def Let_def)

lemma obj_ok_lookup: "obj_ok rt c a \<Longrightarrow> p \<in> set a \<Longrightarrow> map_of a (fst p) = Some (snd p)"
  by (cases p) (simp add: obj_ok_distinct)

lemma to_json_obj:
  assumes ok: "obj_ok rt c a"
    and subs: "\<forall>it \<in> set (csubmap (classes rt c)). is_list it \<and>
                 (\<exists>objs. map_of a (container it) = Some (PList objs) \<and> mapE (to_json rt) objs = Inr (js it))"
  shows "to_json rt (PObj c a) = Inr (PDict (json_dict rt (classes rt c) a js))"
proof -
  let ?ci = "classes rt c"
  let ?ms = "sort_key fst (filter (\<lambda>p. public_member ?ci (fst p)) a)"
  from ok have gm: "get_members rt c a = Inr ?ms"
    by (simp add: obj_ok_def Let_def get_members_ok)
  from ok have "\<forall>p \<in> set ?ms. snd p \<noteq> PNone \<and> (fst p \<in> set (cb64 ?ci) \<longrightarrow> (\<exists>e. b64_encode rt (snd p) = Inr e))"
    by (auto simp: obj_ok_def Let_def)
  then have pm: "foldE (put_member rt ?ci) ?ms [] =
      Inr (fold (\<lambda>p d. AList.update (fst p) (enc_member rt ?ci p) d) ?ms [])"
    by (rule put_members_ok)
  have "foldE (to_json_sub rt a) (csubmap ?ci) d0 =
      Inr (fold (\<lambda>it d. AList.update (json_container it) (PList (js it)) d) (csubmap ?ci) d0)" for d0
    using subs by (intro foldE_Inr_fold) (auto intro: to_json_sub_list)
  with gm pm show ?thesis unfolding to_json_PObj by (simp add: json_dict_def)
qed

lemma json_dict_container:
  "obj_ok rt c a \<Longrightarrow> it \<in> set (csubmap (classes rt c)) \<Longrightarrow>
   map_of (json_dict rt (classes rt c) a js) (json_container it) = Some (PList (js it))"
proof -
  assume ok: "obj_ok rt c a" and it: "it \<in> set (csubmap (classes rt c))"
  from ok have "distinct (map json_container (csubmap (classes rt c)))"
    by (simp add: obj_ok_def class_ok_def Let_def)
  then show ?thesis using it unfolding json_dict_def by (rule map_of_fold_update_distinct)
qed

lemma member_names_in_ms:
  assumes ok: "obj_ok rt c a" and n: "n \<in> set (member_names (classes rt c))"
  shows "n \<in> fst ` set (sort_key fst (filter (\<lambda>p. public_member (classes rt c) (fst p)) a))"
proof -
  from ok n have "n \<in> set (map fst a)" "public_member (classes rt c) n"
    by (auto simp: member_names_def obj_ok_def Let_def)
  then show ?thesis by force
qed

lemma json_dict_member:
  assumes ok: "obj_ok rt c a" and n: "n \<in> set (member_names (classes rt c))"
  shows "map_of (json_dict rt (classes rt c) a js) n = Some (enc_member rt (classes rt c) (n, the (map_of a n)))"
proof -
  let ?ci = "classes rt c"
  let ?ms = "sort_key fst (filter (\<lambda>p. public_member ?ci (fst p)) a)"
  from ok n have "n \<notin> json_container ` set (csubmap ?ci)"
    by (auto simp: obj_ok_def class_ok_def Let_def)
  then have "map_of (json_dict rt ?ci a js) n
      = map_of (fold (\<lambda>p d. AList.update (fst p) (enc_member rt ?ci p) d) ?ms []) n"
    by (simp add: json_dict_def map_of_fold_update_notin)
  also have "\<dots> = Some (enc_member rt ?ci (n, the (map_of a n)))"
  proof (subst map_of_fold_update [where H = "\<lambda>k. enc_member rt ?ci (k, the (map_of a k))"])
    fix p assume "p \<in> set ?ms"
    then have "map_of a (fst p) = Some (snd p)" using ok by (auto intro: obj_ok_lookup)
    then show "enc_member rt ?ci p = enc_member rt ?ci (fst p, the (map_of a (fst p)))" by simp
  next
    from ok n show "(if n \<in> fst ` set ?ms then Some (enc_member rt ?ci (n, the (map_of a n))) else map_of [] n)
        = Some (enc_member rt ?ci (n, the (map_of a n)))"
      using member_names_in_ms by simp
  qed
  finally show ?thesis .
qed

lemma read_member_json_dict:
  assumes ok: "obj_ok rt c a" and n: "n \<in> set (member_names (classes rt c))"
  shows "read_member rt (classes rt c) (PDict (json_dict rt (classes rt c) a js)) n = Inr (the (map_of a n))"
proof -
  let ?ci = "classes rt c"
  from ok n have "n \<in> set (map fst a)" and pub: "public_member ?ci n"
    by (auto simp: member_names_def obj_ok_def Let_def)
  then obtain v where "map_of a n = Some v"
    by (metis map_of_eq_None_iff not_Some_eq set_map)
  then have v: "map_of a n = Some v" "(n, v) \<in> set a" "public_member ?ci n"
    using pub by (auto dest: map_of_SomeD)
  from ok v have codec: "n \<in> set (cb64 ?ci) \<Longrightarrow> \<exists>e. b64_encode rt v = Inr e \<and> b64_decode rt e = Inr v"
    by (fastforce simp: obj_ok_def Let_def)
  from json_dict_member [OF ok n] v codec show ?thesis
    by (auto simp: read_member_def enc_member_def)
qed

lemma restore_attrs:
  assumes ok: "obj_ok rt c a"
    and subs: "\<forall>it \<in> set (csubmap (classes rt c)). map_of a (container it) \<noteq> None"
  shows "fold (\<lambda>it a'. setattr a' (container it) (the (map_of a (container it)))) (csubmap (classes rt c))
           (fold (\<lambda>m a'. setattr a' (fst m) (the (map_of a (fst m))))
              (sort_key fst (filter (\<lambda>p. public_member (classes rt c) (fst p)) (cinit (classes rt c))))
              (cinit (classes rt c))) = a"
    (is "?a2 = a")
proof -
  let ?ci = "classes rt c"
  let ?ms0 = "sort_key fst (filter (\<lambda>p. public_member ?ci (fst p)) (cinit ?ci))"
  let ?a1 = "fold (\<lambda>m a'. setattr a' (fst m) (the (map_of a (fst m)))) ?ms0 (cinit ?ci)"
  from ok have keys: "map fst a = map fst (cinit ?ci)"
    by (simp add: obj_ok_def Let_def)
  from ok have dist: "distinct (map fst a)" by (rule obj_ok_distinct)
  have keyset: "fst ` set a = fst ` set (cinit ?ci)" by (metis keys list.set_map)
  have k1: "map fst ?a1 = map fst (cinit ?ci)"
    unfolding setattr_def by (rule keys_fold_update) force
  have "set (map fst ?a1) = set (map fst a)" using k1 keys by simp
  moreover have "container ` set (csubmap ?ci) \<subseteq> set (map fst a)"
    using subs by (auto simp: map_of_eq_None_iff)
  ultimately have "container ` set (csubmap ?ci) \<subseteq> set (map fst ?a1)" by simp
  then have k2: "map fst ?a2 = map fst ?a1"
    unfolding setattr_def by (rule keys_fold_update)
  have "map_of ?a2 k = map_of a k" for k
  proof -
    have a2: "map_of ?a2 k = (if k \<in> container ` set (csubmap ?ci) then Some (the (map_of a k)) else map_of ?a1 k)"
      unfolding setattr_def by (rule map_of_fold_update) simp
    have a1: "map_of ?a1 k = (if k \<in> fst ` set ?ms0 then Some (the (map_of a k)) else map_of (cinit ?ci) k)"
      unfolding setattr_def by (rule map_of_fold_update) simp
    show ?thesis
    proof (cases "k \<in> set (map fst a)")
      case False
      then have nk: "k \<notin> fst ` set a" by simp
      with keyset have nk0: "k \<notin> fst ` set (cinit ?ci)" by simp
      from subs nk have c: "k \<notin> container ` set (csubmap ?ci)"
        by (force simp: map_of_eq_None_iff)
      from nk0 have m: "k \<notin> fst ` set ?ms0" by force
      from a2 c have "map_of ?a2 k = map_of ?a1 k" by (simp only: if_False)
      also from a1 m have "\<dots> = map_of (cinit ?ci) k" by (simp only: if_False)
      also from nk0 have "\<dots> = None" by (simp add: map_of_eq_None_iff)
      also from nk have "None = map_of a k" by (simp add: map_of_eq_None_iff [symmetric])
      finally show ?thesis .
    next
      case True
      then obtain v where v: "map_of a k = Some v" by (metis map_of_eq_None_iff not_Some_eq set_map)
      then have kv: "(k, v) \<in> set a" by (rule map_of_SomeD)
      show ?thesis
      proof (cases "k \<in> container ` set (csubmap ?ci) \<or> k \<in> fst ` set ?ms0")
        case True
        with a1 a2 v show ?thesis by auto
      next
        case False
        with True keys have "\<not> public_member ?ci k" by force
        with False kv ok have "map_of (cinit ?ci) k = Some v"
          by (fastforce simp: obj_ok_def Let_def)
        with False a1 a2 v show ?thesis by simp
      qed
    qed
  qed
  then have "map_of ?a2 = map_of a" by (rule ext)
  with dist keys k1 k2 show ?thesis by (intro alist_eqI) simp_all
qed

lemma from_json_obj:
  assumes ok: "obj_ok rt c a"
    and subs: "\<forall>it \<in> set (csubmap (classes rt c)). is_list it \<and>
       (\<exists>objs. map_of a (container it) = Some (PList objs) \<and> mapE (load_child rt (sub_class it)) (js it) = Inr objs)"
  shows "from_json rt c (cinit (classes rt c)) (PDict (json_dict rt (classes rt c) a js)) = Inr (True, a)"
proof -
  let ?ci = "classes rt c"
  let ?D = "PDict (json_dict rt ?ci a js)"
  let ?ms0 = "sort_key fst (filter (\<lambda>p. public_member ?ci (fst p)) (cinit ?ci))"
  let ?val = "\<lambda>n. the (map_of a n)"
  let ?a1 = "fold (\<lambda>m a'. setattr a' (fst m) (?val (fst m))) ?ms0 (cinit ?ci)"
  let ?a2 = "fold (\<lambda>it a'. setattr a' (container it) (?val (container it))) (csubmap ?ci) ?a1"
  from ok have gm: "get_members rt c (cinit ?ci) = Inr ?ms0"
    by (simp add: obj_ok_def class_ok_def Let_def get_members_ok)
  have names: "fst m \<in> set (member_names ?ci)" if "m \<in> set ?ms0" for m
    using that by (auto simp: member_names_def)
  have lm: "load_members rt ?ci ?ms0 (cinit ?ci) ?D = Inr (True, ?a1)"
  proof (rule load_members_present)
    fix m assume "m \<in> set ?ms0"
    then have n: "fst m \<in> set (member_names ?ci)" by (rule names)
    from json_dict_member [OF ok n, of js] have "py_in (fst m) ?D = Inr True"
      by (rule py_in_dict_Some)
    with read_member_json_dict [OF ok n] show "py_in (fst m) ?D = Inr True \<and>
        read_member rt ?ci ?D (fst m) = Inr (?val (fst m))" by simp
  qed
  have sb: "foldE (from_json_sub rt ?D) (csubmap ?ci) ?a1 = Inr ?a2"
  proof (rule foldE_Inr_fold)
    fix it a' assume it: "it \<in> set (csubmap ?ci)"
    with subs obtain objs where "is_list it" "map_of a (container it) = Some (PList objs)"
      "mapE (load_child rt (sub_class it)) (js it) = Inr objs" by blast
    with json_dict_container [OF ok it] show "from_json_sub rt ?D it a' =
        Inr (setattr a' (container it) (?val (container it)))"
      by (simp add: from_json_sub_list)
  qed
  from subs have "\<forall>it \<in> set (csubmap ?ci). map_of a (container it) \<noteq> None" by blast
  with ok have "?a2 = a" by (rule restore_attrs)
  with gm lm sb show ?thesis by (simp add: from_json_unfold)
qed

subsection \<open>The round trip\<close>

lemma wf_obj_roundtrip:
  "wf_obj rt x \<Longrightarrow> \<forall>c a. x = PObj c a \<longrightarrow>
     (\<exists>j. to_json rt x = Inr j \<and> from_json rt c (cinit (classes rt c)) j = Inr (True, a))"
proof (induction rule: wf_obj.induct)
  case (wf_objI c a)
  let ?ci = "classes rt c"
  have "\<forall>it \<in> set (csubmap ?ci). \<exists>js objs. map_of a (container it) = Some (PList objs) \<and>
      mapE (to_json rt) objs = Inr js \<and> mapE (load_child rt (sub_class it)) js = Inr objs"
  proof
    fix it assume it: "it \<in> set (csubmap ?ci)"
    with wf_objI obtain objs where o: "map_of a (container it) = Some (PList objs)"
      and xs: "\<forall>x \<in> set objs. \<exists>a'. x = PObj (sub_class it) a' \<and>
          (\<exists>j. to_json rt x = Inr j \<and> from_json rt (sub_class it) (cinit (classes rt (sub_class it))) j = Inr (True, a'))"
      by fastforce
    then obtain js where js: "mapE (to_json rt) objs = Inr js"
      using mapE_exists_Inr [of objs "to_json rt"] by fastforce
    have "mapE (load_child rt (sub_class it)) js = Inr objs"
      using js by (rule mapE_inverse) (use xs in \<open>fastforce simp: load_child_def\<close>)
    with o js show "\<exists>js objs. map_of a (container it) = Some (PList objs) \<and>
      mapE (to_json rt) objs = Inr js \<and> mapE (load_child rt (sub_class it)) js = Inr objs" by blast
  qed
  then obtain js where js: "\<forall>it \<in> set (csubmap ?ci). \<exists>objs. map_of a (container it) = Some (PList objs) \<and>
      mapE (to_json rt) objs = Inr (js it) \<and> mapE (load_child rt (sub_class it)) (js it) = Inr objs"
    by (auto dest: bchoice)
  from wf_objI have lists: "\<forall>it \<in> set (csubmap ?ci). is_list it"
    by (simp add: obj_ok_def class_ok_def Let_def)
  from wf_objI js lists have "to_json rt (PObj c a) = Inr (PDict (json_dict rt ?ci a js))"
    by (intro to_json_obj) blast+
  moreover from wf_objI js lists
  have "from_json rt c (cinit ?ci) (PDict (json_dict rt ?ci a js)) = Inr (True, a)"
    by (intro from_json_obj) blast+
  ultimately show ?case by blast
qed

text \<open>C1: \<^verbatim>\<open>_toJson\<close> of a well-formed instance succeeds, and \<^verbatim>\<open>_fromJson\<close> of
  its result on a fresh instance of the same class returns \<^verbatim>\<open>True\<close> and rebuilds the
  instance's attributes exactly.\<close>

theorem to_json_from_json:
  "wf_obj rt (PObj c a) \<Longrightarrow> bindE (to_json rt (PObj c a)) (from_json rt c (cinit (classes rt c))) = Inr (True, a)"
  by (auto dest!: wf_obj_roundtrip)

subsection \<open>A member that fails to decode\<close>

lemma load_members_absent_prefix:
  "\<forall>x \<in> set ms1. py_in (fst x) d = Inr False \<Longrightarrow> load_members rt ci (ms1 @ ms2) a d = load_members rt ci ms2 a d"
  by (induction ms1) auto

text \<open>C31: a member whose value fails to decode makes \<^verbatim>\<open>_fromJson\<close> return \<^verbatim>\<open>False\<close>
  at once: the members after it are not assigned and no sub-object is built, so the instance
  keeps what it had.  The specification (sections 4.1 and 7(c)) says the decoder gives up on
  that field only and continues with the rest.\<close>

theorem from_json_member_failure:
  assumes "get_members rt c a = Inr (ms1 @ m # ms2)"
    and "\<forall>x \<in> set ms1. py_in (fst x) d = Inr False"
    and "py_in (fst m) d = Inr True" and "read_member rt (classes rt c) d (fst m) = Inl e"
  shows "from_json rt c a d = Inr (False, a)"
  using assms by (simp add: from_json_unfold load_members_absent_prefix)

end
