(* ===== verification/Entities.thy ===== *)
theory Entities
  imports RoundTrip
begin

text \<open>
  The data classes of \<^verbatim>\<open>src/roguewarapi/data/\<close>: each is a \<open>classinfo\<close> of the generic
  serializer, built from its \<^verbatim>\<open>JSON_Type\<close>, its \<^verbatim>\<open>__init__\<close>, its
  \<^verbatim>\<open>_SubObjectMapping\<close> and its properties; \<open>repo_classes\<close> is the class table and
  \<open>repo_rt\<close> the runtime over it (no class declares a base64 member, so the codec is a
  parameter that is never called).  The domain queries \<^verbatim>\<open>FactionControl.prettyName\<close>,
  \<^verbatim>\<open>StarMap.findSystemsByOwner\<close> and \<^verbatim>\<open>StarMapConstants.findSystem\<close> work on the
  instance dictionary, with the exceptions Python raises on values of the wrong kind.
\<close>

datatype cls = BaseDataObject | FactionControl | StarSystem | StarMap | StarSystemConst
  | StarMapConstants | GlobalData

fun json_tag :: "cls \<Rightarrow> string" where
  "json_tag BaseDataObject = ''BaseDataObject''"
| "json_tag FactionControl = ''fctControl''"
| "json_tag StarSystem = ''StarSystem''"
| "json_tag StarMap = ''StarMap''"
| "json_tag StarSystemConst = ''StarSystemConst''"
| "json_tag StarMapConstants = ''StarMapConst''"
| "json_tag GlobalData = ''GlobalData''"

subsection \<open>\<^verbatim>\<open>FactionControl.prettyName\<close>\<close>

text \<open>\<^verbatim>\<open>re.sub('([a-z])([A-Z])', r'\1 \2', Name)\<close>: the scan runs left to right and a
  match consumes both letters, so the search resumes after the upper-case one.\<close>

definition is_lower :: "char \<Rightarrow> bool" where
  "is_lower ch \<longleftrightarrow> CHR ''a'' \<le> ch \<and> ch \<le> CHR ''z''"

definition is_upper :: "char \<Rightarrow> bool" where
  "is_upper ch \<longleftrightarrow> CHR ''A'' \<le> ch \<and> ch \<le> CHR ''Z''"

fun pretty_name :: "string \<Rightarrow> string" where
  "pretty_name (a # b # rest) =
     (if is_lower a \<and> is_upper b then a # CHR '' '' # b # pretty_name rest
      else a # pretty_name (b # rest))"
| "pretty_name s = s"

text \<open>A name in which no lower-case letter is directly followed by an upper-case one.\<close>

fun lower_upper_free :: "string \<Rightarrow> bool" where
  "lower_upper_free (a # b # rest) = (\<not> (is_lower a \<and> is_upper b) \<and> lower_upper_free (b # rest))"
| "lower_upper_free s = True"

text \<open>The property getter: \<^verbatim>\<open>re.sub\<close> raises \<^verbatim>\<open>TypeError\<close> on a name that is not a string.\<close>

definition prop_pretty_name :: "cls attrs \<Rightarrow> cls pval result" where
  "prop_pretty_name a = bindE (getattr a ''Name'') (\<lambda>v.
     case v of PStr s \<Rightarrow> Inr (PStr (pretty_name s)) | _ \<Rightarrow> Inl TypeError)"

subsection \<open>The class table\<close>

definition fctcontrol_info :: "cls classinfo" where
  "fctcontrol_info = \<lparr>json_type = json_tag FactionControl,
     cinit = [(''Name'', PStr ''''), (''control'', PStr ''''), (''ActivePlayers'', PInt 0)],
     csubmap = [], cb64 = [], cexclude = [],
     cprops = [(''prettyName'', prop_pretty_name)]\<rparr>"

text \<open>\<^verbatim>\<open>self.Players = 0,\<close>: the trailing comma makes the default a one-element tuple.\<close>

definition starsystem_info :: "cls classinfo" where
  "starsystem_info = \<lparr>json_type = json_tag StarSystem,
     cinit = [(''Players'', PTuple [PInt 0]), (''_fctCtl'', PList []), (''immuneFromWar'', PBool False),
              (''markerType'', PInt 0), (''name'', PStr ''''), (''owner'', PStr '''')],
     csubmap = [mk_submap json_tag FactionControl ''_fctCtl'' (Some ''factions'') True],
     cb64 = [], cexclude = [],
     cprops = [(''availableFactions'', \<lambda>a. getattr a ''_fctCtl'')]\<rparr>"

definition starmap_info :: "cls classinfo" where
  "starmap_info = \<lparr>json_type = json_tag StarMap,
     cinit = [(''_systems'', PList [])],
     csubmap = [mk_submap json_tag StarSystem ''_systems'' (Some ''starsystems'') True],
     cb64 = [], cexclude = [],
     cprops = [(''systems'', \<lambda>a. getattr a ''_systems'')]\<rparr>"

definition starsystemconst_info :: "cls classinfo" where
  "starsystemconst_info = \<lparr>json_type = json_tag StarSystemConst,
     cinit = [(''name'', PStr ''''), (''posx'', PInt 0), (''posy'', PInt 0),
              (''originalOwner'', PStr ''''), (''_adjacent'', PList [])],
     csubmap = [], cb64 = [], cexclude = [],
     cprops = [(''adjacentSystems'', \<lambda>a. getattr a ''_adjacent'')]\<rparr>"

definition starmapconstants_info :: "cls classinfo" where
  "starmapconstants_info = \<lparr>json_type = json_tag StarMapConstants,
     cinit = [(''_consts'', PList [])],
     csubmap = [mk_submap json_tag StarSystemConst ''_consts'' (Some ''Coordinates'') True],
     cb64 = [], cexclude = [],
     cprops = [(''systemConstants'', \<lambda>a. getattr a ''_consts'')]\<rparr>"

definition globaldata_info :: "cls classinfo" where
  "globaldata_info = \<lparr>json_type = json_tag GlobalData,
     cinit = [(''SupportRadius'', PInt 0)],
     csubmap = [], cb64 = [], cexclude = [], cprops = []\<rparr>"

definition basedataobject_info :: "cls classinfo" where
  "basedataobject_info = \<lparr>json_type = json_tag BaseDataObject,
     cinit = [], csubmap = [], cb64 = [], cexclude = [], cprops = []\<rparr>"

fun repo_classes :: "cls \<Rightarrow> cls classinfo" where
  "repo_classes BaseDataObject = basedataobject_info"
| "repo_classes FactionControl = fctcontrol_info"
| "repo_classes StarSystem = starsystem_info"
| "repo_classes StarMap = starmap_info"
| "repo_classes StarSystemConst = starsystemconst_info"
| "repo_classes StarMapConstants = starmapconstants_info"
| "repo_classes GlobalData = globaldata_info"

definition repo_rt :: "(cls pval \<Rightarrow> cls pval result) \<Rightarrow> (cls pval \<Rightarrow> cls pval result) \<Rightarrow> cls runtime" where
  "repo_rt enc dec = \<lparr>classes = repo_classes, b64_encode = enc, b64_decode = dec\<rparr>"

text \<open>A fresh instance: what \<^verbatim>\<open>C()\<close> returns.\<close>

definition new_obj :: "cls \<Rightarrow> cls pval" where
  "new_obj c = PObj c (cinit (repo_classes c))"

subsection \<open>Queries\<close>

text \<open>\<^verbatim>\<open>x.name\<close> on a value: instances have attributes, other values raise.\<close>

fun obj_attr :: "'c pval \<Rightarrow> string \<Rightarrow> 'c pval result" where
  "obj_attr (PObj c a) n = getattr a n"
| "obj_attr _ n = Inl AttributeError"

text \<open>\<^verbatim>\<open>StarMap.findSystemsByOwner\<close>.\<close>

definition find_systems_by_owner :: "cls runtime \<Rightarrow> cls attrs \<Rightarrow> cls pval \<Rightarrow> cls pval list result" where
  "find_systems_by_owner rt a owner =
     bindE (getattr a ''_systems'') (\<lambda>ss. bindE (py_iter ss) (\<lambda>sys.
       filterE (\<lambda>s. bindE (obj_attr s ''owner'') (\<lambda>ow. py_eq rt ow owner)) sys))"

text \<open>\<^verbatim>\<open>StarMapConstants.findSystem\<close>: the first constant whose name equals the
  argument, and \<^verbatim>\<open>None\<close> when the loop falls off the end.\<close>

definition find_system :: "cls runtime \<Rightarrow> cls attrs \<Rightarrow> cls pval \<Rightarrow> cls pval result" where
  "find_system rt a system =
     bindE (getattr a ''_consts'') (\<lambda>cs. bindE (py_iter cs) (\<lambda>xs.
       bindE (findE (\<lambda>c. bindE (obj_attr c ''name'') (\<lambda>n. py_eq rt system n)) xs) (\<lambda>r.
         Inr (case r of None \<Rightarrow> PNone | Some c \<Rightarrow> c))))"

subsection \<open>Example instances\<close>

text \<open>A map with one system held by \<^verbatim>\<open>Empire\<close> and one faction, as the server sends it.\<close>

definition example_faction :: "cls pval" where
  "example_faction = PObj FactionControl
     [(''Name'', PStr ''RedSunAlliance''), (''control'', PStr ''high''), (''ActivePlayers'', PInt 2)]"

definition example_system :: "cls pval" where
  "example_system = PObj StarSystem
     [(''Players'', PInt 3), (''_fctCtl'', PList [example_faction]), (''immuneFromWar'', PBool False),
      (''markerType'', PInt 0), (''name'', PStr ''Terra''), (''owner'', PStr ''Empire'')]"

definition example_map :: "cls pval" where
  "example_map = PObj StarMap [(''_systems'', PList [example_system])]"

definition rt_ex :: "cls runtime" where
  "rt_ex = repo_rt (\<lambda>_. Inl TypeError) (\<lambda>_. Inl ValueError)"

definition example_consts :: "cls pval" where
  "example_consts = PObj StarMapConstants [(''_consts'', PList
     [PObj StarSystemConst [(''name'', PStr ''A''), (''posx'', PInt 0), (''posy'', PInt 0),
        (''originalOwner'', PStr ''Empire''), (''_adjacent'', PList [])],
      PObj StarSystemConst [(''name'', PStr ''B''), (''posx'', PInt 3), (''posy'', PInt 4),
        (''originalOwner'', PStr ''Empire''), (''_adjacent'', PList [])]])]"

text \<open>Two class tables that differ from the repository's in one declaration: in \<open>rt_b64\<close>
  \<^verbatim>\<open>FactionControl\<close> marks \<^verbatim>\<open>ActivePlayers\<close> as base64 and the decoder rejects what
  it is given; in \<open>rt_single\<close> \<^verbatim>\<open>StarSystem\<close> holds one faction through a singleton
  mapping (\<^verbatim>\<open>bol_list=False\<close>).  A system holding the faction \<open>example_faction\<close>
  directly is what the singleton mapping stores.\<close>

definition rt_b64 :: "cls runtime" where
  "rt_b64 = \<lparr>classes = (\<lambda>c. if c = FactionControl then fctcontrol_info\<lparr>cb64 := [''ActivePlayers'']\<rparr>
                          else repo_classes c),
     b64_encode = (\<lambda>_. Inl TypeError), b64_decode = (\<lambda>_. Inl ValueError)\<rparr>"

definition rt_single :: "cls runtime" where
  "rt_single = \<lparr>classes = (\<lambda>c. if c = StarSystem
        then starsystem_info\<lparr>csubmap := [mk_submap json_tag FactionControl ''_fctCtl'' (Some ''factions'') False]\<rparr>
        else repo_classes c),
     b64_encode = (\<lambda>_. Inl TypeError), b64_decode = (\<lambda>_. Inl ValueError)\<rparr>"

definition example_single_system :: "cls pval" where
  "example_single_system = PObj StarSystem
     [(''Players'', PInt 3), (''_fctCtl'', example_faction), (''immuneFromWar'', PBool False),
      (''markerType'', PInt 0), (''name'', PStr ''Terra''), (''owner'', PStr ''Empire'')]"

subsection \<open>The class table\<close>

lemmas repo_info_defs = fctcontrol_info_def starsystem_info_def starmap_info_def starsystemconst_info_def
  starmapconstants_info_def globaldata_info_def basedataobject_info_def

lemma classes_repo_rt [simp]: "classes (repo_rt enc dec) = repo_classes"
  by (simp add: repo_rt_def)

text \<open>C2: every class of the repository meets the conditions of the round trip: its mappings
  are list mappings with private containers whose JSON keys are no member names, and the
  properties of a fresh instance do not raise.\<close>

theorem repo_class_ok: "class_ok (repo_rt enc dec) c"
  by (cases c) (simp_all add: class_ok_def repo_info_defs eval_props_def prop_pretty_name_def
      member_names_def public_member_def mk_submap_def)

theorem repo_class_ok_witness: "class_ok rt_ex StarMap"
  unfolding rt_ex_def by (rule repo_class_ok)

lemma wf_example_map: "wf_obj rt_ex example_map"
  by (simp add: wf_obj_PObj example_map_def example_system_def example_faction_def rt_ex_def
      class_ok_def member_names_def obj_ok_def repo_info_defs eval_props_def prop_pretty_name_def
      public_member_def mk_submap_def)

theorem to_json_from_json_witness:
  "wf_obj rt_ex example_map \<and>
   bindE (to_json rt_ex example_map) (from_json rt_ex StarMap (cinit (classes rt_ex StarMap))) =
     Inr (True, [(''_systems'', PList [example_system])])"
  using wf_example_map to_json_from_json [of rt_ex StarMap "[(''_systems'', PList [example_system])]"]
  by (simp add: example_map_def)

subsection \<open>\<^verbatim>\<open>fromJson\<close> on bad input\<close>

text \<open>C3: \<^verbatim>\<open>fromJson\<close> of text that parses to a number (or a boolean) does not
  return \<^verbatim>\<open>False\<close>: the membership test \<^verbatim>\<open>k in dct_json\<close> of \<^verbatim>\<open>_fromJson\<close>,
  outside its \<^verbatim>\<open>try\<close>, raises \<^verbatim>\<open>TypeError\<close> for every data class with a member or a
  mapping.\<close>

theorem from_json_top_number_raises:
  "c \<noteq> BaseDataObject \<Longrightarrow> loads s = Some v \<Longrightarrow> num_of v \<noteq> None \<Longrightarrow>
   from_json_top loads (repo_rt enc dec) c (cinit (repo_classes c)) (PStr s) = Inl TypeError"
  by (cases c; cases v) (simp_all add: from_json_top_def from_json_unfold get_members_def repo_info_defs
      eval_props_def prop_pretty_name_def public_member_def mk_submap_def sub_source_def from_json_sub_def)

theorem from_json_top_number_raises_witness:
  "from_json_top (\<lambda>_. Some (PInt 5)) rt_ex StarMap (cinit (repo_classes StarMap)) (PStr ''5'') = Inl TypeError"
  unfolding rt_ex_def by (rule from_json_top_number_raises) auto

text \<open>C4: \<^verbatim>\<open>fromJson\<close> of text that does not parse, or that parses to \<^verbatim>\<open>null\<close>,
  returns \<^verbatim>\<open>False\<close> and leaves the instance as it was.\<close>

theorem from_json_top_parse_error:
  "loads s = None \<or> loads s = Some PNone \<Longrightarrow> from_json_top loads rt c a (PStr s) = Inr (False, a)"
  by (auto simp: from_json_top_def)

theorem from_json_top_parse_error_witness:
  "from_json_top (\<lambda>_. None) rt_ex StarMap (cinit (repo_classes StarMap)) (PStr ''{'') =
     Inr (False, cinit (repo_classes StarMap))"
  by (rule from_json_top_parse_error) simp

subsection \<open>Queries\<close>

text \<open>C7: \<^verbatim>\<open>findSystemsByOwner\<close> returns exactly the systems whose owner equals the
  argument, in their order in the map.\<close>

theorem find_systems_by_owner_filter:
  assumes "map_of a ''_systems'' = Some (PList ss)"
    and "\<forall>s \<in> set ss. \<exists>x. obj_attr s ''owner'' = Inr (PStr x)"
  shows "find_systems_by_owner rt a (PStr ow) = Inr (filter (\<lambda>s. obj_attr s ''owner'' = Inr (PStr ow)) ss)"
  using assms unfolding find_systems_by_owner_def
  by (auto intro!: filterE_Inr_filter)

theorem find_systems_by_owner_witness:
  "find_systems_by_owner rt_ex [(''_systems'', PList [example_system])] (PStr ''Empire'') = Inr [example_system]"
proof -
  have "find_systems_by_owner rt_ex [(''_systems'', PList [example_system])] (PStr ''Empire'') =
      Inr (filter (\<lambda>s. obj_attr s ''owner'' = Inr (PStr ''Empire'')) [example_system])"
    by (rule find_systems_by_owner_filter) (simp_all add: example_system_def)
  then show ?thesis by (simp add: example_system_def)
qed

text \<open>C8: \<^verbatim>\<open>findSystem\<close> returns the first constant with the given name, and
  \<^verbatim>\<open>None\<close> when there is none.\<close>

theorem find_system_first:
  assumes "map_of a ''_consts'' = Some (PList cs)"
    and "\<forall>c \<in> set cs. \<exists>n. obj_attr c ''name'' = Inr (PStr n)"
  shows "find_system rt a (PStr x) =
           Inr (case find (\<lambda>c. obj_attr c ''name'' = Inr (PStr x)) cs of None \<Rightarrow> PNone | Some c \<Rightarrow> c)"
proof -
  have "findE (\<lambda>c. bindE (obj_attr c ''name'') (\<lambda>n. py_eq rt (PStr x) n)) cs =
        Inr (find (\<lambda>c. obj_attr c ''name'' = Inr (PStr x)) cs)"
    using assms(2) by (intro findE_Inr_find) auto
  with assms(1) show ?thesis by (simp add: find_system_def)
qed

theorem find_system_witness:
  "find_system rt_ex [(''_consts'', PList [PObj StarSystemConst [(''name'', PStr ''B'')]])] (PStr ''B'') =
     Inr (PObj StarSystemConst [(''name'', PStr ''B'')])"
proof -
  have "find_system rt_ex [(''_consts'', PList [PObj StarSystemConst [(''name'', PStr ''B'')]])] (PStr ''B'') =
      Inr (case find (\<lambda>c. obj_attr c ''name'' = Inr (PStr ''B'')) [PObj StarSystemConst [(''name'', PStr ''B'')]]
           of None \<Rightarrow> PNone | Some c \<Rightarrow> c)"
    by (rule find_system_first) simp_all
  then show ?thesis by simp
qed

subsection \<open>\<^verbatim>\<open>prettyName\<close>\<close>

text \<open>C9: \<^verbatim>\<open>prettyName\<close> only inserts spaces: with the spaces removed, it is the name.\<close>

theorem pretty_name_spaces: "filter (\<lambda>ch. ch \<noteq> CHR '' '') (pretty_name s) = filter (\<lambda>ch. ch \<noteq> CHR '' '') s"
  by (induction s rule: pretty_name.induct) (auto simp: is_upper_def)

lemma pretty_name_hd: "pretty_name (b # t) = b # tl (pretty_name (b # t))"
  by (cases t) simp_all

lemma lower_upper_free_not_lower: "\<not> is_lower b \<Longrightarrow> lower_upper_free (b # t) = lower_upper_free t"
  by (cases t) simp_all

lemma upper_not_lower: "is_upper b \<Longrightarrow> \<not> is_lower b"
  by (auto simp: is_lower_def is_upper_def less_eq_char_def)

lemma space_not_letter: "\<not> is_upper (CHR '' '') \<and> \<not> is_lower (CHR '' '')"
  by (simp add: is_upper_def is_lower_def)

lemma pretty_name_lower_upper_free: "lower_upper_free (pretty_name s)"
proof (induction s rule: pretty_name.induct)
  case (1 a b rest)
  show ?case
  proof (cases "is_lower a \<and> is_upper b")
    case True
    then show ?thesis
      using "1.IH"(1) space_not_letter upper_not_lower [of b] by (simp add: lower_upper_free_not_lower)
  next
    case False
    obtain t where t: "pretty_name (b # rest) = b # t" using pretty_name_hd by blast
    with False "1.IH"(2) show ?thesis by auto
  qed
qed simp_all

lemma pretty_name_free_id: "lower_upper_free s \<Longrightarrow> pretty_name s = s"
  by (induction s rule: pretty_name.induct) auto

text \<open>C10: after one pass of \<^verbatim>\<open>prettyName\<close> no lower-case letter is directly followed by
  an upper-case one, so a second pass changes nothing.\<close>

theorem pretty_name_idem:
  "lower_upper_free (pretty_name s) \<and> pretty_name (pretty_name s) = pretty_name s"
  using pretty_name_lower_upper_free pretty_name_free_id by blast

text \<open>The faction \<^verbatim>\<open>RedSunAlliance\<close> is shown as \<^verbatim>\<open>Red Sun Alliance\<close>.\<close>

theorem pretty_name_example:
  "prop_pretty_name [(''Name'', PStr ''RedSunAlliance''), (''control'', PStr ''''), (''ActivePlayers'', PInt 0)]
     = Inr (PStr ''Red Sun Alliance'')"
  by (simp add: prop_pretty_name_def is_lower_def is_upper_def)

subsection \<open>Behaviour outside the round trip\<close>

text \<open>A fresh \<^verbatim>\<open>StarSystem\<close> serializes its \<^verbatim>\<open>Players\<close> as the one-element
  sequence \<open>(0,)\<close>: the trailing comma of \<^verbatim>\<open>self.Players = 0,\<close> makes the default a
  tuple, where the comment and the other counters mean the number 0.\<close>

theorem starsystem_fresh_to_json:
  "to_json (repo_rt enc dec) (PObj StarSystem (cinit (repo_classes StarSystem))) =
     Inr (PDict [(''Players'', PTuple [PInt 0]), (''immuneFromWar'', PBool False), (''markerType'', PInt 0),
                 (''name'', PStr ''''), (''owner'', PStr ''''), (''factions'', PList [])])"
  by (simp add: to_json_PObj to_json_sub_def get_members_def repo_info_defs eval_props_def public_member_def
      mk_submap_def put_member_def)

theorem from_json_member_failure_witness:
  "from_json rt_b64 FactionControl (cinit fctcontrol_info)
     (PDict [(''ActivePlayers'', PStr ''!!''), (''Name'', PStr ''Red''), (''control'', PStr ''high'')]) =
   Inr (False, cinit fctcontrol_info)"
  by (rule from_json_member_failure [of rt_b64 FactionControl "cinit fctcontrol_info" "[]" "(''ActivePlayers'', PInt 0)"
      "[(''Name'', PStr []), (''control'', PStr [])]"])
    (simp_all add: rt_b64_def get_members_def fctcontrol_info_def eval_props_def prop_pretty_name_def
      public_member_def read_member_def)

text \<open>With a singleton mapping the round trip loses the child: \<^verbatim>\<open>_toJson\<close> stores the
  child's JSON under the container key, \<^verbatim>\<open>_fromJson\<close> looks for the child's type tag
  inside it, does not find it, and leaves a default-constructed child.\<close>

theorem singleton_mapping_loses_child:
  "bindE (to_json rt_single example_single_system) (from_json rt_single StarSystem (cinit starsystem_info)) =
     Inr (True, [(''Players'', PInt 3), (''_fctCtl'', PObj FactionControl (cinit fctcontrol_info)),
                 (''immuneFromWar'', PBool False), (''markerType'', PInt 0), (''name'', PStr ''Terra''),
                 (''owner'', PStr ''Empire'')])"
  by (simp add: rt_single_def example_single_system_def example_faction_def to_json_PObj to_json_sub_def
      from_json_unfold get_members_def repo_info_defs eval_props_def prop_pretty_name_def public_member_def
      mk_submap_def put_member_def sub_source_def from_json_sub_def load_child_def read_member_def setattr_def)

text \<open>C32: \<^verbatim>\<open>__eq__\<close> compares members only: two star maps are equal whatever systems
  they hold, as the specification notes for sub-objects.\<close>

theorem py_eq_ignores_sub_objects:
  "py_eq (repo_rt enc dec) (PObj StarMap [(''_systems'', PList xs)]) (PObj StarMap [(''_systems'', PList ys)]) =
     Inr True"
  by (simp add: get_members_def starmap_info_def eval_props_def public_member_def)

end
