(* ===== verification/Adjacency.thy ===== *)
theory Adjacency
  imports Entities
begin

text \<open>
  \<^verbatim>\<open>StarMapConstants.mapAdjacents\<close> (\<^verbatim>\<open>src/roguewarapi/data/starsystemconst.py\<close>,
  lines 45--57): for every constant \<^verbatim>\<open>const\<close> and every \<^verbatim>\<open>other\<close> of
  \<^verbatim>\<open>self._consts\<close> with a different name, a bounding-box test and then the Euclidean
  test \<^verbatim>\<open>sqrt(dx^2 + dy^2) <= maxDistance\<close>; a pair that passes appends
  \<^verbatim>\<open>other.name\<close> to \<^verbatim>\<open>const.adjacentSystems\<close>, the list \<^verbatim>\<open>const._adjacent\<close>.

  The constants are values of the instance dictionary, updated by position: the loop only
  writes \<^verbatim>\<open>_adjacent\<close> and only reads \<^verbatim>\<open>name\<close>, \<^verbatim>\<open>posx\<close>, \<^verbatim>\<open>posy\<close>,
  and every constant \<^verbatim>\<open>_fromJson\<close> builds is a distinct object with a list of its own,
  so no write is seen through an alias.  Coordinates are Python numbers read as reals
  (\<open>num_of\<close>); arithmetic on anything else raises \<^verbatim>\<open>TypeError\<close>.  The abstract
  specification \<open>map_adjacents_spec\<close> is the relation of the specification (different
  names, Euclidean distance at most \<^verbatim>\<open>maxDistance\<close>) on the views of the constants.
\<close>

subsection \<open>The operation\<close>

text \<open>A coordinate used in arithmetic: \<^verbatim>\<open>x.posx - d\<close> raises \<^verbatim>\<open>AttributeError\<close>
  on a missing attribute and \<^verbatim>\<open>TypeError\<close> on a value that is no number.\<close>

definition num_attr :: "cls pval \<Rightarrow> string \<Rightarrow> real result" where
  "num_attr v n = bindE (obj_attr v n) (\<lambda>x. case num_of x of Some r \<Rightarrow> Inr r | None \<Rightarrow> Inl TypeError)"

text \<open>Lines 54--56, in Python's order of evaluation: \<^verbatim>\<open>other.name != const.name\<close>,
  then the chained comparisons on the x axis, which stop at the first false one, then the
  y axis, then the distance.\<close>

definition adj_test :: "cls runtime \<Rightarrow> real \<Rightarrow> cls pval \<Rightarrow> cls pval \<Rightarrow> bool result" where
  "adj_test rt d const other =
     bindE (obj_attr other ''name'') (\<lambda>on. bindE (obj_attr const ''name'') (\<lambda>cn.
     bindE (py_eq rt on cn) (\<lambda>same. if same then Inr False else
     bindE (num_attr const ''posx'') (\<lambda>cx. bindE (num_attr other ''posx'') (\<lambda>ox.
     if \<not> (cx - d \<le> ox \<and> ox \<le> cx + d) then Inr False else
     bindE (num_attr const ''posy'') (\<lambda>cy. bindE (num_attr other ''posy'') (\<lambda>oy.
     if \<not> (cy - d \<le> oy \<and> oy \<le> cy + d) then Inr False else
     Inr (sqrt ((cx - ox)\<^sup>2 + (cy - oy)\<^sup>2) \<le> d))))))))"

text \<open>Line 57: \<^verbatim>\<open>const.adjacentSystems.append(n)\<close>; the property returns
  \<^verbatim>\<open>self._adjacent\<close> (line 22), and a value without \<^verbatim>\<open>append\<close> raises.\<close>

definition with_adjacent :: "cls pval \<Rightarrow> cls pval list \<Rightarrow> cls pval" where
  "with_adjacent v l = (case v of PObj c a \<Rightarrow> PObj c (setattr a ''_adjacent'' (PList l)) | _ \<Rightarrow> v)"

definition append_adjacent :: "cls pval \<Rightarrow> cls pval \<Rightarrow> cls pval result" where
  "append_adjacent const n = bindE (obj_attr const ''_adjacent'') (\<lambda>v.
     case v of PList l \<Rightarrow> Inr (with_adjacent const (l @ [n])) | _ \<Rightarrow> Inl AttributeError)"

text \<open>The inner loop (lines 53--57) over the list as it stands, for one \<^verbatim>\<open>const\<close>.\<close>

definition adj_inner :: "cls runtime \<Rightarrow> real \<Rightarrow> cls pval list \<Rightarrow> cls pval \<Rightarrow> cls pval result" where
  "adj_inner rt d os const = foldE (\<lambda>other c. bindE (adj_test rt d c other) (\<lambda>t.
     if t then bindE (obj_attr other ''name'') (append_adjacent c) else Inr c)) os const"

text \<open>The outer loop (line 51), by position.\<close>

definition adj_step :: "cls runtime \<Rightarrow> real \<Rightarrow> nat \<Rightarrow> cls pval list \<Rightarrow> cls pval list result" where
  "adj_step rt d i cs = bindE (adj_inner rt d cs (cs ! i)) (\<lambda>c'. Inr (cs[i := c']))"

definition adj_outer :: "cls runtime \<Rightarrow> real \<Rightarrow> cls pval list \<Rightarrow> cls pval list result" where
  "adj_outer rt d cs = foldE (adj_step rt d) [0..<length cs] cs"

text \<open>A list or tuple is iterated and keeps its kind; the strings a dict or a string
  yields have no \<^verbatim>\<open>name\<close>, so a non-empty one raises in the first test.\<close>

definition with_elems :: "'c pval \<Rightarrow> 'c pval list \<Rightarrow> 'c pval" where
  "with_elems v xs = (case v of PList _ \<Rightarrow> PList xs | PTuple _ \<Rightarrow> PTuple xs | _ \<Rightarrow> v)"

definition map_adjacents :: "cls runtime \<Rightarrow> real \<Rightarrow> cls attrs \<Rightarrow> cls attrs result" where
  "map_adjacents rt d a =
     bindE (getattr a ''_consts'') (\<lambda>v. bindE (py_iter v) (\<lambda>cs.
       bindE (adj_outer rt d cs) (\<lambda>cs'. Inr (setattr a ''_consts'' (with_elems v cs')))))"

subsection \<open>The specification\<close>

text \<open>The view of a well-formed constant: its name, position and adjacency list.\<close>

type_synonym pos = "string \<times> real \<times> real"

definition str_of :: "'c pval \<Rightarrow> string option" where
  "str_of v = (case v of PStr s \<Rightarrow> Some s | _ \<Rightarrow> None)"

definition list_of :: "'c pval \<Rightarrow> 'c pval list option" where
  "list_of v = (case v of PList l \<Rightarrow> Some l | _ \<Rightarrow> None)"

fun const_view :: "cls pval \<Rightarrow> (pos \<times> cls pval list) option" where
  "const_view (PObj c a) =
     Option.bind (Option.bind (map_of a ''name'') str_of) (\<lambda>n.
     Option.bind (Option.bind (map_of a ''posx'') num_of) (\<lambda>x.
     Option.bind (Option.bind (map_of a ''posy'') num_of) (\<lambda>y.
     Option.bind (Option.bind (map_of a ''_adjacent'') list_of) (\<lambda>l. Some ((n, x, y), l)))))"
| "const_view _ = None"

definition adjacent :: "real \<Rightarrow> pos \<Rightarrow> pos \<Rightarrow> bool" where
  "adjacent d p q \<longleftrightarrow> fst q \<noteq> fst p \<and>
     sqrt ((fst (snd p) - fst (snd q))\<^sup>2 + (snd (snd p) - snd (snd q))\<^sup>2) \<le> d"

definition adj_names :: "real \<Rightarrow> pos list \<Rightarrow> pos \<Rightarrow> string list" where
  "adj_names d ps p = map fst (filter (adjacent d p) ps)"

definition map_adjacents_spec :: "real \<Rightarrow> (pos \<times> cls pval list) list \<Rightarrow> (pos \<times> cls pval list) list" where
  "map_adjacents_spec d vs = map (\<lambda>(p, l). (p, l @ map PStr (adj_names d (map fst vs) p))) vs"

text \<open>The positions of a list of constants.\<close>

abbreviation pos_view :: "cls pval \<Rightarrow> pos option" where
  "pos_view v \<equiv> map_option fst (const_view v)"

subsection \<open>Examples\<close>

text \<open>The three systems of the specification: \<open>A\<close> at (0, 0), \<open>B\<close> at (3, 4), \<open>C\<close> at
  (100, 100), fresh from \<^verbatim>\<open>_fromJson\<close> (empty adjacency lists).\<close>

definition sys_const :: "string \<Rightarrow> int \<Rightarrow> int \<Rightarrow> cls pval" where
  "sys_const n x y = PObj StarSystemConst [(''name'', PStr n), (''posx'', PInt x), (''posy'', PInt y),
     (''originalOwner'', PStr ''''), (''_adjacent'', PList [])]"

definition abc_consts :: "cls pval list" where
  "abc_consts = [sys_const ''A'' 0 0, sys_const ''B'' 3 4, sys_const ''C'' 100 100]"

definition example_abc :: "cls attrs" where
  "example_abc = [(''_consts'', PList abc_consts)]"

subsection \<open>The test, one constant, the loop\<close>

lemma sqrt_le_iff_sq:
  assumes "0 \<le> s"
  shows "sqrt s \<le> d \<longleftrightarrow> 0 \<le> d \<and> s \<le> d\<^sup>2"
proof
  assume h: "sqrt s \<le> d"
  have "0 \<le> sqrt s" using assms by simp
  with h have "0 \<le> d" by linarith
  moreover from h have "s \<le> d\<^sup>2" by (rule sqrt_le_D)
  ultimately show "0 \<le> d \<and> s \<le> d\<^sup>2" by simp
next
  assume d: "0 \<le> d \<and> s \<le> d\<^sup>2"
  then have "sqrt s \<le> sqrt (d\<^sup>2)" using real_sqrt_le_mono by blast
  with d show "sqrt s \<le> d" by simp
qed

lemma adjacent_sq:
  "adjacent d p q \<longleftrightarrow> fst q \<noteq> fst p \<and> 0 \<le> d \<and>
     (fst (snd p) - fst (snd q))\<^sup>2 + (snd (snd p) - snd (snd q))\<^sup>2 \<le> d\<^sup>2"
  by (simp add: adjacent_def sqrt_le_iff_sq)

lemma str_of_Some [simp]: "str_of v = Some s \<longleftrightarrow> v = PStr s"
  by (cases v) (simp_all add: str_of_def)

lemma list_of_Some [simp]: "list_of v = Some l \<longleftrightarrow> v = PList l"
  by (cases v) (simp_all add: list_of_def)

lemma const_view_Some:
  "const_view v = Some ((n, x, y), l) \<longleftrightarrow>
     (\<exists>c a px py. v = PObj c a \<and> map_of a ''name'' = Some (PStr n) \<and>
        map_of a ''posx'' = Some px \<and> num_of px = Some x \<and>
        map_of a ''posy'' = Some py \<and> num_of py = Some y \<and> map_of a ''_adjacent'' = Some (PList l))"
  by (cases v) (auto simp: bind_eq_Some_conv)

lemma const_view_SomeD:
  assumes "const_view v = Some (p, l)"
  shows "obj_attr v ''name'' = Inr (PStr (fst p))" "num_attr v ''posx'' = Inr (fst (snd p))"
    "num_attr v ''posy'' = Inr (snd (snd p))" "obj_attr v ''_adjacent'' = Inr (PList l)"
  using assms by (cases p; auto simp: const_view_Some num_attr_def)+

lemma bbox_of_dist:
  assumes "sqrt ((cx - ox)\<^sup>2 + (cy - oy)\<^sup>2) \<le> d"
  shows "cx - d \<le> ox \<and> ox \<le> cx + d" "cy - d \<le> oy \<and> oy \<le> cy + d"
proof -
  have "\<bar>cx - ox\<bar> \<le> sqrt ((cx - ox)\<^sup>2 + (cy - oy)\<^sup>2)"
    using real_sqrt_sum_squares_ge1 [of "\<bar>cx - ox\<bar>" "cy - oy"] by simp
  with assms have "\<bar>cx - ox\<bar> \<le> d" by linarith
  then show "cx - d \<le> ox \<and> ox \<le> cx + d" by linarith
  have "\<bar>cy - oy\<bar> \<le> sqrt ((cx - ox)\<^sup>2 + (cy - oy)\<^sup>2)"
    using real_sqrt_sum_squares_ge2 [of "cx - ox" "\<bar>cy - oy\<bar>"] by simp
  with assms have "\<bar>cy - oy\<bar> \<le> d" by linarith
  then show "cy - d \<le> oy \<and> oy \<le> cy + d" by linarith
qed

lemma adj_test_view:
  assumes "const_view c = Some (p, l)" "const_view oth = Some (q, l')"
  shows "adj_test rt d c oth = Inr (adjacent d p q)"
proof (cases "sqrt ((fst (snd p) - fst (snd q))\<^sup>2 + (snd (snd p) - snd (snd q))\<^sup>2) \<le> d")
  case True
  with bbox_of_dist [OF True] show ?thesis
    by (simp add: adj_test_def const_view_SomeD [OF assms(1)] const_view_SomeD [OF assms(2)] adjacent_def)
next
  case False
  then show ?thesis
    by (simp add: adj_test_def const_view_SomeD [OF assms(1)] const_view_SomeD [OF assms(2)] adjacent_def)
qed

lemma const_view_with_adjacent:
  "const_view v = Some (p, l) \<Longrightarrow> const_view (with_adjacent v l') = Some (p, l')"
  by (cases v) (auto simp: with_adjacent_def map_of_setattr bind_eq_Some_conv)

lemma const_view_with_adjacent':
  "const_view v = Some pl \<Longrightarrow> const_view (with_adjacent v l') = Some (fst pl, l')"
  using const_view_with_adjacent [of v "fst pl" "snd pl"] by simp

lemma with_adjacent_twice: "with_adjacent (with_adjacent v l) l' = with_adjacent v l'"
  by (cases v) (simp_all add: with_adjacent_def setattr_def)

lemma append_adjacent_view:
  "const_view c = Some (p, l) \<Longrightarrow> append_adjacent c v = Inr (with_adjacent c (l @ [v]))"
  by (simp add: append_adjacent_def const_view_SomeD)

lemma with_adjacent_same: "const_view c = Some (p, l) \<Longrightarrow> with_adjacent c l = c"
  by (cases p) (auto simp: const_view_Some with_adjacent_def setattr_def update_triv)


lemma pos_view_with_adjacent:
  "const_view v = Some (p, l) \<Longrightarrow> pos_view (with_adjacent v l') = pos_view v"
  by (simp add: const_view_with_adjacent)

lemma adj_inner_correct:
  assumes "const_view c = Some (p, l)" and "map pos_view os = map Some ps"
  shows "adj_inner rt d os c = Inr (with_adjacent c (l @ map PStr (adj_names d ps p)))"
  using assms
proof (induction os arbitrary: ps c l)
  case Nil
  then show ?case by (simp add: adj_inner_def adj_names_def with_adjacent_same)
next
  case (Cons oth os)
  then obtain q ps' l' where ps: "ps = q # ps'" and q: "const_view oth = Some (q, l')"
    and os: "map pos_view os = map Some ps'" by auto
  note test = adj_test_view [OF Cons.prems(1) q]
  show ?case
  proof (cases "adjacent d p q")
    case True
    have c': "const_view (with_adjacent c (l @ [PStr (fst q)])) = Some (p, l @ [PStr (fst q)])"
      using Cons.prems(1) by (rule const_view_with_adjacent)
    show ?thesis
      using True Cons.IH [OF c' os]
      by (simp add: adj_inner_def test ps const_view_SomeD [OF q] append_adjacent_view [OF Cons.prems(1)]
          adj_names_def with_adjacent_twice)
  next
    case False
    then show ?thesis
      using Cons.IH [OF Cons.prems(1) os] by (simp add: adj_inner_def test ps adj_names_def)
  qed
qed

lemma length_map_adjacents_spec [simp]: "length (map_adjacents_spec d vs) = length vs"
  by (simp add: map_adjacents_spec_def)

lemma map_adjacents_spec_nth:
  "i < length vs \<Longrightarrow> map_adjacents_spec d vs ! i =
     (fst (vs ! i), snd (vs ! i) @ map PStr (adj_names d (map fst vs) (fst (vs ! i))))"
  by (simp add: map_adjacents_spec_def split: prod.split)

lemma const_view_nth:
  "map const_view cs = map Some vs \<Longrightarrow> i < length cs \<Longrightarrow> const_view (cs ! i) = Some (vs ! i)"
  by (metis length_map nth_map)

lemma adj_outer_prefix:
  assumes vs: "map const_view cs = map Some vs" and "k \<le> length cs"
  shows "foldE (adj_step rt d) [0..<k] cs =
    Inr (map (\<lambda>i. if i < k then with_adjacent (cs ! i) (snd (map_adjacents_spec d vs ! i)) else cs ! i)
           [0..<length cs])"
  using assms(2)
proof (induction k)
  case 0
  then show ?case by (simp add: map_nth)
next
  case (Suc k)
  let ?new = "\<lambda>i. with_adjacent (cs ! i) (snd (map_adjacents_spec d vs ! i))"
  let ?cs = "map (\<lambda>i. if i < k then ?new i else cs ! i) [0..<length cs]"
  have len: "length vs = length cs" using vs by (metis length_map)
  have k: "k < length cs" using Suc.prems by simp
  have view_k: "const_view (?cs ! k) = Some (vs ! k)" using k const_view_nth [OF vs] by simp
  have "map pos_view ?cs = map Some (map fst vs)"
  proof (rule nth_equalityI)
    fix i assume "i < length (map pos_view ?cs)"
    then have i: "i < length cs" by simp
    then have "const_view (cs ! i) = Some (vs ! i)" by (rule const_view_nth [OF vs])
    then have "pos_view (with_adjacent (cs ! i) l') = Some (fst (vs ! i))"
      and "pos_view (cs ! i) = Some (fst (vs ! i))" for l'
      by (simp_all add: const_view_with_adjacent')
    with i len show "map pos_view ?cs ! i = map Some (map fst vs) ! i" by simp
  qed (simp add: len)
  then have inner: "adj_inner rt d ?cs (?cs ! k) = Inr (?new k)"
    using adj_inner_correct [of "?cs ! k" "fst (vs ! k)" "snd (vs ! k)"] view_k k len
    by (simp add: map_adjacents_spec_nth)
  have "?cs[k := ?new k] = map (\<lambda>i. if i < Suc k then ?new i else cs ! i) [0..<length cs]"
    using k by (intro nth_equalityI) (auto simp: nth_list_update less_Suc_eq)
  then show ?case
    using Suc.IH k inner by (simp add: foldE_append adj_step_def)
qed

lemma adj_outer_correct:
  assumes "map const_view cs = map Some vs"
  shows "adj_outer rt d cs = Inr (map2 with_adjacent cs (map snd (map_adjacents_spec d vs)))"
proof -
  have len: "length vs = length cs" using assms by (metis length_map)
  have "map (\<lambda>i. if i < length cs then with_adjacent (cs ! i) (snd (map_adjacents_spec d vs ! i)) else cs ! i)
          [0..<length cs] = map2 with_adjacent cs (map snd (map_adjacents_spec d vs))"
    by (rule nth_equalityI) (simp_all add: len map_adjacents_spec_def)
  then show ?thesis using adj_outer_prefix [OF assms order_refl] by (simp add: adj_outer_def)
qed

lemma map_adjacents_views:
  assumes "map const_view cs = map Some vs"
  shows "map const_view (map2 with_adjacent cs (map snd (map_adjacents_spec d vs))) = map Some (map_adjacents_spec d vs)"
proof (rule nth_equalityI)
  have len: "length vs = length cs" using assms by (metis length_map)
  then show "length (map const_view (map2 with_adjacent cs (map snd (map_adjacents_spec d vs)))) =
      length (map Some (map_adjacents_spec d vs))" by (simp add: map_adjacents_spec_def)
  fix i assume "i < length (map const_view (map2 with_adjacent cs (map snd (map_adjacents_spec d vs))))"
  then have i: "i < length cs" by (simp add: len)
  with len const_view_nth [OF assms i] show "map const_view (map2 with_adjacent cs (map snd (map_adjacents_spec d vs))) ! i =
      map Some (map_adjacents_spec d vs) ! i"
    by (simp add: map_adjacents_spec_nth const_view_with_adjacent' del: map_map)
qed

lemma map_adjacents_correct:
  assumes "map_of a ''_consts'' = Some (PList cs)" and "map const_view cs = map Some vs"
  shows "map_adjacents rt d a =
           Inr (setattr a ''_consts'' (PList (map2 with_adjacent cs (map snd (map_adjacents_spec d vs)))))"
  using assms by (simp add: map_adjacents_def adj_outer_correct with_elems_def)

lemma map_fst_spec [simp]: "map fst (map_adjacents_spec d vs) = map fst vs"
  by (simp add: map_adjacents_spec_def case_prod_beta)

lemma spec_twice:
  "map_adjacents_spec d (map_adjacents_spec d vs) =
     map (\<lambda>(p, l). (p, l @ map PStr (adj_names d (map fst vs) p) @ map PStr (adj_names d (map fst vs) p))) vs"
proof -
  have "map_adjacents_spec d (map_adjacents_spec d vs) =
      map (\<lambda>(p, l). (p, l @ map PStr (adj_names d (map fst vs) p))) (map_adjacents_spec d vs)"
    by (simp only: map_adjacents_spec_def [of d "map_adjacents_spec d vs"] map_fst_spec)
  then show ?thesis by (simp add: map_adjacents_spec_def case_prod_beta)
qed

lemma adjacent_sym: "adjacent d p q \<longleftrightarrow> adjacent d q p"
proof -
  have "(fst (snd p) - fst (snd q))\<^sup>2 = (fst (snd q) - fst (snd p))\<^sup>2"
    "(snd (snd p) - snd (snd q))\<^sup>2 = (snd (snd q) - snd (snd p))\<^sup>2"
    by (simp_all add: power2_commute)
  then show ?thesis by (auto simp: adjacent_def)
qed

lemma mem_adj_names: "m \<in> set (adj_names d ps p) \<longleftrightarrow> (\<exists>q \<in> set ps. fst q = m \<and> adjacent d p q)"
  by (auto simp: adj_names_def)

lemma distinct_fst_nth:
  assumes "distinct (map fst ps)" "q \<in> set ps" "j < length ps" "fst q = fst (ps ! j)"
  shows "q = ps ! j"
proof -
  obtain k where k: "k < length ps" "q = ps ! k" using assms(2) by (auto simp: in_set_conv_nth)
  then have "map fst ps ! k = map fst ps ! j" using assms(3,4) by simp
  with assms(1,3) k(1) have "k = j" by (metis length_map nth_eq_iff_index_eq)
  with k(2) show ?thesis by simp
qed

lemma mem_adj_names_distinct:
  assumes "distinct (map fst ps)" "j < length ps"
  shows "fst (ps ! j) \<in> set (adj_names d ps p) \<longleftrightarrow> adjacent d p (ps ! j)"
proof
  assume "fst (ps ! j) \<in> set (adj_names d ps p)"
  then obtain q where q: "q \<in> set ps" "fst q = fst (ps ! j)" "adjacent d p q" by (auto simp: mem_adj_names)
  have "q = ps ! j" by (rule distinct_fst_nth [OF assms(1) q(1) assms(2) q(2)])
  with q(3) show "adjacent d p (ps ! j)" by simp
next
  assume "adjacent d p (ps ! j)"
  with assms(2) show "fst (ps ! j) \<in> set (adj_names d ps p)" by (auto simp: mem_adj_names)
qed

subsection \<open>Properties of \<^verbatim>\<open>mapAdjacents\<close>\<close>

text \<open>C11: \<^verbatim>\<open>mapAdjacents\<close> refines its specification: on constants with string
  names, numeric positions and list adjacency lists it does not raise, it replaces
  \<^verbatim>\<open>_consts\<close> by the same constants with only their adjacency lists changed, and the
  views of the result are \<open>map_adjacents_spec\<close> of the views: each list gets the names of
  all differently named constants within Euclidean distance \<^verbatim>\<open>maxDistance\<close>, in list order.\<close>

theorem map_adjacents_refines:
  assumes "map_of a ''_consts'' = Some (PList cs)" and "map const_view cs = map Some vs"
  shows "map_adjacents rt d a =
           Inr (setattr a ''_consts'' (PList (map2 with_adjacent cs (map snd (map_adjacents_spec d vs))))) \<and>
         map const_view (map2 with_adjacent cs (map snd (map_adjacents_spec d vs))) =
           map Some (map_adjacents_spec d vs)"
proof
  show "map_adjacents rt d a =
          Inr (setattr a ''_consts'' (PList (map2 with_adjacent cs (map snd (map_adjacents_spec d vs)))))"
    using assms by (rule map_adjacents_correct)
  show "map const_view (map2 with_adjacent cs (map snd (map_adjacents_spec d vs))) = map Some (map_adjacents_spec d vs)"
    using assms(2) by (rule map_adjacents_views)
qed

theorem map_adjacents_refines_witness:
  "map_adjacents rt_ex 5 example_abc =
     Inr (setattr example_abc ''_consts'' (PList (map2 with_adjacent abc_consts
       (map snd (map_adjacents_spec 5 [((''A'', 0, 0), []), ((''B'', 3, 4), []), ((''C'', 100, 100), [])]))))) \<and>
   map_adjacents_spec 5 [((''A'', 0, 0), []), ((''B'', 3, 4), []), ((''C'', 100, 100), [])] =
     [((''A'', 0, 0), [PStr ''B'']), ((''B'', 3, 4), [PStr ''A'']), ((''C'', 100, 100), [])]"
proof
  show "map_adjacents rt_ex 5 example_abc =
     Inr (setattr example_abc ''_consts'' (PList (map2 with_adjacent abc_consts
       (map snd (map_adjacents_spec 5 [((''A'', 0, 0), []), ((''B'', 3, 4), []), ((''C'', 100, 100), [])])))))"
    using map_adjacents_refines [of example_abc abc_consts "[((''A'', 0, 0), []), ((''B'', 3, 4), []), ((''C'', 100, 100), [])]" rt_ex 5]
    by (simp add: example_abc_def abc_consts_def sys_const_def str_of_def list_of_def)
  show "map_adjacents_spec 5 [((''A'', 0, 0), []), ((''B'', 3, 4), []), ((''C'', 100, 100), [])] =
     [((''A'', 0, 0), [PStr ''B'']), ((''B'', 3, 4), [PStr ''A'']), ((''C'', 100, 100), [])]"
    by (simp add: map_adjacents_spec_def adj_names_def adjacent_sq)
qed

text \<open>The example of the specification: with \<^verbatim>\<open>maxDistance = 5\<close>, \<open>A\<close> at (0, 0)
  and \<open>B\<close> at (3, 4) (distance exactly 5) become adjacent to each other and \<open>C\<close> at
  (100, 100) to neither.\<close>

theorem map_adjacents_example:
  "map_adjacents rt 5 example_abc = Inr
     [(''_consts'', PList [with_adjacent (sys_const ''A'' 0 0) [PStr ''B''],
        with_adjacent (sys_const ''B'' 3 4) [PStr ''A''], sys_const ''C'' 100 100])]"
  by (simp add: map_adjacents_def example_abc_def abc_consts_def adj_outer_def adj_step_def adj_inner_def
      adj_test_def sys_const_def num_attr_def append_adjacent_def with_adjacent_def setattr_def sqrt_le_iff_sq
      upt_rec with_elems_def)

text \<open>C12: the bounding-box prefilter of line 55 never changes the outcome: the code's test
  is exactly "different names and squared distance at most \<^verbatim>\<open>maxDistance\<close> squared".\<close>

theorem adj_test_squared:
  assumes "const_view c = Some (p, l)" "const_view oth = Some (q, l')"
  shows "adj_test rt d c oth = Inr (fst q \<noteq> fst p \<and> 0 \<le> d \<and>
           (fst (snd p) - fst (snd q))\<^sup>2 + (snd (snd p) - snd (snd q))\<^sup>2 \<le> d\<^sup>2)"
  using adj_test_view [OF assms] by (simp add: adjacent_sq)

theorem adj_test_squared_witness:
  "adj_test rt_ex 5 (sys_const ''A'' 0 0) (sys_const ''B'' 3 4) = Inr True"
  using adj_test_squared [of "sys_const ''A'' 0 0" "(''A'', 0, 0)" "[]" "sys_const ''B'' 3 4" "(''B'', 3, 4)" "[]" rt_ex 5]
  by (simp add: sys_const_def str_of_def list_of_def)

text \<open>C13: \<^verbatim>\<open>mapAdjacents\<close> does not clear the lists it appends to: a second call
  appends every adjacent name a second time, so the operation is not idempotent.\<close>

theorem map_adjacents_twice:
  assumes "map_of a ''_consts'' = Some (PList cs)" and "map const_view cs = map Some vs"
  shows "\<exists>a'' cs''. bindE (map_adjacents rt d a) (map_adjacents rt d) = Inr a'' \<and>
           map_of a'' ''_consts'' = Some (PList cs'') \<and>
           map const_view cs'' = map (\<lambda>(p, l). Some (p, l @ map PStr (adj_names d (map fst vs) p)
                                                      @ map PStr (adj_names d (map fst vs) p))) vs"
proof -
  let ?cs1 = "map2 with_adjacent cs (map snd (map_adjacents_spec d vs))"
  let ?vs1 = "map_adjacents_spec d vs"
  let ?cs2 = "map2 with_adjacent ?cs1 (map snd (map_adjacents_spec d ?vs1))"
  have v1: "map const_view ?cs1 = map Some ?vs1" using assms(2) by (rule map_adjacents_views)
  have "bindE (map_adjacents rt d a) (map_adjacents rt d) =
          Inr (setattr (setattr a ''_consts'' (PList ?cs1)) ''_consts'' (PList ?cs2))"
    using map_adjacents_correct [OF assms] map_adjacents_correct [OF _ v1, of "setattr a ''_consts'' (PList ?cs1)"]
    by (simp add: map_of_setattr)
  moreover have "map const_view ?cs2 = map Some (map_adjacents_spec d ?vs1)" using v1 by (rule map_adjacents_views)
  ultimately show ?thesis by (auto simp: map_of_setattr spec_twice case_prod_beta)
qed

theorem map_adjacents_twice_witness:
  "\<exists>a'' cs''. bindE (map_adjacents rt_ex 5 example_abc) (map_adjacents rt_ex 5) = Inr a'' \<and>
     map_of a'' ''_consts'' = Some (PList cs'') \<and>
     map const_view cs'' = [Some ((''A'', 0, 0), [PStr ''B'', PStr ''B'']),
       Some ((''B'', 3, 4), [PStr ''A'', PStr ''A'']), Some ((''C'', 100, 100), [])]"
  using map_adjacents_twice [of example_abc abc_consts "[((''A'', 0, 0), []), ((''B'', 3, 4), []), ((''C'', 100, 100), [])]" rt_ex 5]
  by (simp add: example_abc_def abc_consts_def sys_const_def str_of_def list_of_def adj_names_def adjacent_sq)

text \<open>C14: on fresh constants with distinct names the computed adjacency is symmetric:
  \<open>B\<close> is in the list of \<open>A\<close> exactly when \<open>A\<close> is in the list of \<open>B\<close>.\<close>

theorem map_adjacents_symmetric:
  assumes "map_of a ''_consts'' = Some (PList cs)" and "map const_view cs = map Some vs"
    and "\<forall>v \<in> set vs. snd v = []" and "distinct (map (fst \<circ> fst) vs)"
    and "map_adjacents rt d a = Inr a'" and "map_of a' ''_consts'' = Some (PList cs')"
    and "i < length cs" and "j < length cs"
  shows "\<exists>li lj. obj_attr (cs' ! i) ''_adjacent'' = Inr (PList li) \<and> obj_attr (cs' ! j) ''_adjacent'' = Inr (PList lj) \<and>
           (PStr (fst (fst (vs ! j))) \<in> set li \<longleftrightarrow> PStr (fst (fst (vs ! i))) \<in> set lj)"
proof -
  have len: "length vs = length cs" using assms(2) by (metis length_map)
  have cs': "cs' = map2 with_adjacent cs (map snd (map_adjacents_spec d vs))"
    using assms(5,6) map_adjacents_correct [OF assms(1,2)] by (auto simp: map_of_setattr)
  have views: "map const_view cs' = map Some (map_adjacents_spec d vs)"
    unfolding cs' using assms(2) by (rule map_adjacents_views)
  have view: "const_view (cs' ! k) =
      Some (fst (vs ! k), snd (vs ! k) @ map PStr (adj_names d (map fst vs) (fst (vs ! k))))"
    if "k < length cs" for k
    using const_view_nth [OF views, of k] that len by (simp add: cs' map_adjacents_spec_nth)
  have ds: "distinct (map fst (map fst vs))" using assms(4) by simp
  have fresh: "snd (vs ! k) = []" if "k < length cs" for k using assms(3) that len by simp
  let ?ps = "map fst vs"
  have mem: "PStr (fst (?ps ! k)) \<in> set (map PStr (adj_names d ?ps (?ps ! m))) \<longleftrightarrow> adjacent d (?ps ! m) (?ps ! k)"
    if "k < length cs" for k m
    using mem_adj_names_distinct [OF ds, of k d "?ps ! m"] that len by auto
  let ?li = "map PStr (adj_names d ?ps (fst (vs ! i)))"
  let ?lj = "map PStr (adj_names d ?ps (fst (vs ! j)))"
  have ai: "obj_attr (cs' ! i) ''_adjacent'' = Inr (PList ?li)"
    using const_view_SomeD(4) [OF view [OF assms(7)]] fresh [OF assms(7)] by simp
  have aj: "obj_attr (cs' ! j) ''_adjacent'' = Inr (PList ?lj)"
    using const_view_SomeD(4) [OF view [OF assms(8)]] fresh [OF assms(8)] by simp
  have "PStr (fst (fst (vs ! j))) \<in> set ?li \<longleftrightarrow> adjacent d (fst (vs ! i)) (fst (vs ! j))"
    using mem [OF assms(8), of i] assms(7,8) len by simp
  moreover have "PStr (fst (fst (vs ! i))) \<in> set ?lj \<longleftrightarrow> adjacent d (fst (vs ! j)) (fst (vs ! i))"
    using mem [OF assms(7), of j] assms(7,8) len by simp
  ultimately show ?thesis using ai aj adjacent_sym by blast
qed

theorem map_adjacents_symmetric_witness:
  "\<exists>li lj. obj_attr (with_adjacent (sys_const ''A'' 0 0) [PStr ''B'']) ''_adjacent'' = Inr (PList li) \<and>
     obj_attr (with_adjacent (sys_const ''B'' 3 4) [PStr ''A'']) ''_adjacent'' = Inr (PList lj) \<and>
     (PStr ''B'' \<in> set li \<longleftrightarrow> PStr ''A'' \<in> set lj)"
proof -
  let ?vs = "[((''A'', 0, 0), []), ((''B'', 3, 4), []), ((''C'', 100, 100), [])] :: (pos \<times> cls pval list) list"
  let ?cs' = "[with_adjacent (sys_const ''A'' 0 0) [PStr ''B''], with_adjacent (sys_const ''B'' 3 4) [PStr ''A''],
               sys_const ''C'' 100 100]"
  have run: "map_adjacents rt_ex 5 example_abc = Inr [(''_consts'', PList ?cs')]"
    by (simp add: map_adjacents_def example_abc_def abc_consts_def adj_outer_def adj_step_def adj_inner_def
        adj_test_def sys_const_def num_attr_def append_adjacent_def with_adjacent_def setattr_def sqrt_le_iff_sq
        upt_rec with_elems_def)
  show ?thesis
    using map_adjacents_symmetric [of example_abc abc_consts ?vs rt_ex 5 "[(''_consts'', PList ?cs')]" ?cs' 0 1] run
    by (simp add: example_abc_def abc_consts_def sys_const_def str_of_def list_of_def)
qed

text \<open>C15: a constant whose \<^verbatim>\<open>posx\<close> is no number makes \<^verbatim>\<open>mapAdjacents\<close> raise
  \<^verbatim>\<open>TypeError\<close> (from \<^verbatim>\<open>const.posx - maxDistance\<close>) as soon as it meets a
  differently named constant; constants with its own name are skipped before any
  arithmetic.\<close>

theorem map_adjacents_bad_coordinate:
  assumes "map_of a ''_consts'' = Some (PList (c # oth # rest))"
    and "obj_attr c ''name'' = Inr (PStr n)" and "num_attr c ''posx'' = Inl TypeError"
    and "const_view oth = Some (q, l)" and "fst q \<noteq> n"
  shows "map_adjacents rt d a = Inl TypeError"
  using assms
  by (simp add: map_adjacents_def adj_outer_def upt_conv_Cons adj_step_def adj_inner_def adj_test_def
      const_view_SomeD del: upt_Suc)

theorem map_adjacents_bad_coordinate_witness:
  "map_adjacents rt_ex 5 [(''_consts'', PList [PObj StarSystemConst [(''name'', PStr ''A''), (''posx'', PStr ''x'')],
     sys_const ''B'' 3 4])] = Inl TypeError"
  by (rule map_adjacents_bad_coordinate [of _ "PObj StarSystemConst [(''name'', PStr ''A''), (''posx'', PStr ''x'')]"
      "sys_const ''B'' 3 4" "[]" "''A''" "(''B'', 3, 4)" "[]"])
    (simp_all add: num_attr_def sys_const_def str_of_def list_of_def)

end
