(* ===== verification/Cache.thy ===== *)
theory Cache
  imports Prelude
begin

text \<open>
  The expiring cache of \<^verbatim>\<open>src/roguewarapi/data/objectcache.py\<close>: \<^verbatim>\<open>CacheManager.cache\<close>
  is a dict from keys to \<^verbatim>\<open>CacheObject\<close>s, each holding the data and an absolute expiry
  time \<^verbatim>\<open>time.time() + expiry\<close>.  The clock is explicit: every operation takes the value
  \<^verbatim>\<open>time.time()\<close> returns when it runs.  The stored value type is a parameter (the
  client stores \<^verbatim>\<open>StarMap\<close> instances).  A run of the cache is a list of timed
  operations executed in order, so that claims about interleavings of reads and writes are
  stated over such runs.
\<close>

record 'v cache_object =
  cdata :: 'v
  expire_time :: real

type_synonym 'v cache = "(string \<times> 'v cache_object) list"

text \<open>\<^verbatim>\<open>CacheObject(data, expiry)\<close> created at time \<open>now\<close>.\<close>

definition cache_object :: "'v \<Rightarrow> real \<Rightarrow> real \<Rightarrow> 'v cache_object" where
  "cache_object data expiry now = \<lparr>cdata = data, expire_time = now + expiry\<rparr>"

text \<open>\<^verbatim>\<open>CacheManager()\<close>.\<close>

definition new_cache :: "'v cache" where
  "new_cache = []"

text \<open>\<^verbatim>\<open>getCacheItem(key)\<close>: the data while the clock is strictly before the expiry time,
  \<^verbatim>\<open>None\<close> otherwise; an expired entry stays in the dict.\<close>

definition get_cache_item :: "real \<Rightarrow> string \<Rightarrow> 'v cache \<Rightarrow> 'v option" where
  "get_cache_item now key c =
     (case map_of c key of
        None \<Rightarrow> None
      | Some ob \<Rightarrow> if now < expire_time ob then Some (cdata ob) else None)"

text \<open>\<^verbatim>\<open>placeCacheItem(key, item, expire=60)\<close>: \<^verbatim>\<open>self.cache[key] = CacheObject(item, expire)\<close>.\<close>

definition place_cache_item :: "real \<Rightarrow> string \<Rightarrow> 'v \<Rightarrow> real \<Rightarrow> 'v cache \<Rightarrow> 'v cache" where
  "place_cache_item now key item expire c = AList.update key (cache_object item expire now) c"

definition default_expire :: real where
  "default_expire = 60"

subsection \<open>Runs\<close>

datatype 'v cache_op = GetItem string | PlaceItem string 'v real

text \<open>One call at time \<open>now\<close>: its return value (\<^verbatim>\<open>placeCacheItem\<close> returns \<^verbatim>\<open>None\<close>)
  and the new cache.\<close>

fun cache_exec :: "real \<Rightarrow> 'v cache_op \<Rightarrow> 'v cache \<Rightarrow> 'v option \<times> 'v cache" where
  "cache_exec now (GetItem k) c = (get_cache_item now k c, c)"
| "cache_exec now (PlaceItem k v e) c = (None, place_cache_item now k v e c)"

fun cache_run :: "(real \<times> 'v cache_op) list \<Rightarrow> 'v cache \<Rightarrow> 'v option list \<times> 'v cache" where
  "cache_run [] c = ([], c)"
| "cache_run ((t, op) # ops) c =
     (let (r, c') = cache_exec t op c; (rs, c'') = cache_run ops c' in (r # rs, c''))"

fun places_key :: "string \<Rightarrow> real \<times> 'v cache_op \<Rightarrow> bool" where
  "places_key k (t, PlaceItem k' v e) = (k' = k)"
| "places_key k (t, GetItem k') = False"

subsection \<open>Lemmas\<close>

lemma map_of_place:
  "map_of (place_cache_item now k v e c) = (map_of c)(k \<mapsto> cache_object v e now)"
  by (simp add: place_cache_item_def update_conv')

lemma get_place:
  "get_cache_item t k' (place_cache_item now k v e c) =
     (if k' = k then (if t < now + e then Some v else None) else get_cache_item t k' c)"
  by (simp add: get_cache_item_def map_of_place cache_object_def)

lemma place_place_same:
  "place_cache_item t2 k v2 e2 (place_cache_item t1 k v1 e1 c) = place_cache_item t2 k v2 e2 c"
  by (simp add: place_cache_item_def)

lemma keys_place: "fst ` set (place_cache_item now k v e c) = insert k (fst ` set c)"
  by (simp add: place_cache_item_def dom_update)

lemma cache_run_Cons:
  "cache_run (x # ops) c =
     (let s = cache_exec (fst x) (snd x) c in (fst s # fst (cache_run ops (snd s)), snd (cache_run ops (snd s))))"
  by (cases x) (simp add: split_beta Let_def)

lemma cache_run_append:
  "cache_run (xs @ ys) c =
     (fst (cache_run xs c) @ fst (cache_run ys (snd (cache_run xs c))), snd (cache_run ys (snd (cache_run xs c))))"
  by (induction xs arbitrary: c) (simp_all add: cache_run_Cons Let_def del: cache_run.simps(2))

lemma cache_exec_keys: "fst ` set c \<subseteq> fst ` set (snd (cache_exec t op c))"
  by (cases op) (simp_all add: keys_place subset_insertI)

lemma cache_exec_other_key:
  "\<not> places_key k (t, op) \<Longrightarrow> map_of (snd (cache_exec t op c)) k = map_of c k"
  by (cases op) (auto simp: map_of_place)

lemma cache_run_other_key:
  "\<not> list_ex (places_key k) ops \<Longrightarrow> map_of (snd (cache_run ops c)) k = map_of c k"
proof (induction ops arbitrary: c)
  case (Cons x ops)
  then show ?case
    using cache_exec_other_key [of k "fst x" "snd x" c]
    by (simp add: cache_run_Cons Let_def del: cache_run.simps(2))
qed simp

subsection \<open>Properties of the cache\<close>

text \<open>C16: an entry placed with a time-to-live of zero or less is absent when read at the
  time it was placed (the specification's test with \<^verbatim>\<open>ttl = 0\<close> and \<^verbatim>\<open>ttl = -1\<close>),
  and an entry read before its expiry is the placed value.\<close>

theorem cache_ttl:
  "get_cache_item t k (place_cache_item now k v e c) = (if t < now + e then Some v else None) \<and>
   (e \<le> 0 \<longrightarrow> get_cache_item now k (place_cache_item now k v e c) = None)"
  by (simp add: get_place)

theorem cache_ttl_witness:
  "get_cache_item 100 ''k'' (place_cache_item 100 ''k'' (1::int) (-1) new_cache) = None \<and>
   get_cache_item 100 ''k'' (place_cache_item 100 ''k'' (1::int) 0 new_cache) = None \<and>
   get_cache_item 159 ''k'' (place_cache_item 100 ''k'' (1::int) default_expire new_cache) = Some 1"
  using cache_ttl [of 100 "''k''" 100 "1::int" "-1" new_cache] cache_ttl [of 100 "''k''" 100 "1::int" 0 new_cache]
    cache_ttl [of 159 "''k''" 100 "1::int" default_expire new_cache]
  by (simp add: default_expire_def)

text \<open>C17: in any run, a read of a key returns the value of the latest place of that key
  before it when the read happens before that place's expiry, and \<^verbatim>\<open>None\<close> after it,
  whatever reads and places of other keys come in between.\<close>

theorem cache_run_latest_place:
  assumes "\<not> list_ex (places_key k) mid"
  shows "last (fst (cache_run (pre @ [(t, PlaceItem k v e)] @ mid @ [(t', GetItem k)]) c)) =
           (if t' < t + e then Some v else None)"
proof -
  let ?c1 = "snd (cache_run pre c)"
  let ?c2 = "place_cache_item t k v e ?c1"
  have "map_of (snd (cache_run mid ?c2)) k = Some (cache_object v e t)"
    using cache_run_other_key [OF assms] by (simp add: map_of_place)
  then show ?thesis
    by (simp add: cache_run_append get_cache_item_def cache_object_def split_beta)
qed

theorem cache_run_latest_place_witness:
  "last (fst (cache_run ([(0, PlaceItem ''k'' (1::int) 60)] @ [(10, PlaceItem ''k'' 2 5)] @
       [(11, PlaceItem ''j'' 3 60), (12, GetItem ''j'')] @ [(14, GetItem ''k'')]) new_cache)) = Some 2"
  using cache_run_latest_place [of "''k''" "[(11, PlaceItem ''j'' (3::int) 60), (12, GetItem ''j'')]"
      "[(0, PlaceItem ''k'' 1 60)]" 10 2 5 14 new_cache]
  by simp

text \<open>C18: the cache never evicts: every key present before a run is present after it,
  expired or not (the unbounded growth the specification notes).\<close>

theorem cache_never_evicts:
  "fst ` set c \<subseteq> fst ` set (snd (cache_run ops c))"
proof (induction ops arbitrary: c)
  case (Cons x ops)
  have "fst ` set c \<subseteq> fst ` set (snd (cache_exec (fst x) (snd x) c))" by (rule cache_exec_keys)
  also have "\<dots> \<subseteq> fst ` set (snd (cache_run ops (snd (cache_exec (fst x) (snd x) c))))" by (rule Cons.IH)
  finally show ?case by (simp add: cache_run_Cons Let_def del: cache_run.simps(2))
qed simp

text \<open>C19: expiry is final: an entry that reads as absent at some time reads as absent at
  every later time, as long as it is not placed again.\<close>

theorem cache_expired_stays:
  "t \<le> t' \<Longrightarrow> get_cache_item t k c = None \<Longrightarrow> get_cache_item t' k c = None"
  by (auto simp: get_cache_item_def split: option.splits if_splits)

theorem cache_expired_stays_witness:
  "get_cache_item 200 ''k'' (place_cache_item 100 ''k'' (1::int) default_expire new_cache) = None"
proof -
  have "get_cache_item 160 ''k'' (place_cache_item 100 ''k'' (1::int) default_expire new_cache) = None"
    by (simp add: get_place default_expire_def)
  then show ?thesis by (rule cache_expired_stays [rotated]) simp
qed

text \<open>C20: every entry expires: whatever the cache holds, each key has
  a time from which its reads return \<^verbatim>\<open>None\<close> for ever (while it is not placed again),
  although the entry itself is never removed.\<close>

theorem cache_entries_expire: "\<exists>T. \<forall>t \<ge> T. get_cache_item t k c = None"
proof (cases "map_of c k")
  case None
  then show ?thesis by (simp add: get_cache_item_def)
next
  case (Some ob)
  then show ?thesis by (intro exI [of _ "expire_time ob"]) (simp add: get_cache_item_def)
qed

theorem cache_entries_expire_witness:
  "\<exists>T. \<forall>t \<ge> T. get_cache_item t ''k'' (place_cache_item 0 ''k'' (1::int) default_expire new_cache) = None"
  by (rule cache_entries_expire)

end
