(* ===== verification/Client.thy ===== *)
theory Client
  imports Adjacency Cache
begin

text \<open>
  The API client \<^verbatim>\<open>RogueWarApi\<close> of \<^verbatim>\<open>src/roguewarapi/roguewarapi.py\<close>.  The client's
  attributes are a record; the network is part of the state: the requests the client has
  sent, in order, and the responses the server will give, consumed one per request (a
  request with no response left is a transport failure, which \<^verbatim>\<open>requests\<close> raises).
  A response is its status code and its body decoded by \<^verbatim>\<open>result.json()\<close> (\<open>None\<close>
  when the body is no JSON and \<^verbatim>\<open>json()\<close> raises).  A request body is the JSON document
  the code serialises with \<^verbatim>\<open>json.dumps\<close>, and the \<^verbatim>\<open>Authorization\<close> header the token
  value it formats into \<^verbatim>\<open>Bearer {token}\<close>.  Logging is not modelled.  The public calls
  return a value or the exception that escapes them, together with the new state.
\<close>

datatype http_method = GET | POST

datatype header_value = HStr string | HBearer "cls pval"

record request =
  req_method :: http_method
  req_url :: string
  req_headers :: "(string \<times> header_value) list"
  req_body :: "cls pval option"

datatype response = Response int "cls pval option" | TransportError

text \<open>The only callback the client passes is \<^verbatim>\<open>_authCallback\<close>.\<close>

datatype callback = AuthCallback

record client =
  app_name :: string
  app_secret :: string
  base_uri :: string
  app_token :: "cls pval"
  last_result :: "cls pval"
  star_cache :: "cls pval cache"
  star_map_constants :: "cls pval"
  net_sent :: "request list"
  net_responses :: "response list"

definition user_agent :: string where
  "user_agent = ''RogueWarApi/0.0.X''"

definition default_uri :: string where
  "default_uri = ''http://roguewar.org''"

definition star_map_cache_key :: string where
  "star_map_cache_key = ''kStarMap''"

text \<open>\<^verbatim>\<open>RogueWarApi(appName, appSecret, url=None)\<close>, facing a server that will answer
  with \<open>rs\<close>.\<close>

definition new_client :: "string \<Rightarrow> string \<Rightarrow> string option \<Rightarrow> response list \<Rightarrow> client" where
  "new_client name secret url rs = \<lparr>app_name = name, app_secret = secret,
     base_uri = (case url of None \<Rightarrow> default_uri | Some u \<Rightarrow> u) @ ''/api/'',
     app_token = PStr '''', last_result = PNone, star_cache = new_cache, star_map_constants = PNone,
     net_sent = [], net_responses = rs\<rparr>"

text \<open>\<^verbatim>\<open>_getHeaders(cHeaders)\<close>: the \<^verbatim>\<open>Authorization\<close> header is dropped while the
  token is the empty string; a caller's header overrides a default one and an empty value
  deletes it.\<close>

definition get_headers :: "cls pval \<Rightarrow> (string \<times> string) list option \<Rightarrow> (string \<times> header_value) list" where
  "get_headers tok ch =
     (let h0 = [(''User-Agent'', HStr user_agent), (''content-type'', HStr ''application/json''),
                (''Authorization'', HBearer tok)];
          h1 = (if tok = PStr '''' then AList.delete ''Authorization'' h0 else h0)
      in case ch of
           None \<Rightarrow> h1
         | Some hs \<Rightarrow> fold (\<lambda>(k, v) h. if v = '''' then AList.delete k (AList.update k (HStr v) h)
                                       else AList.update k (HStr v) h) hs h1)"

text \<open>The query string the request functions append for their keyword arguments.\<close>

fun query :: "bool \<Rightarrow> (string \<times> string) list \<Rightarrow> string" where
  "query first [] = []"
| "query first ((k, v) # kvs) = (if first then CHR ''?'' else CHR ''&'') # k @ ''='' @ v @ query False kvs"

definition build_url :: "string \<Rightarrow> string \<Rightarrow> (string \<times> string) list \<Rightarrow> string" where
  "build_url base uri kw = base @ uri @ query True kw"

text \<open>\<^verbatim>\<open>requests.get\<close> / \<^verbatim>\<open>requests.post\<close>: the request is sent and the next
  response taken.\<close>

definition http_exchange :: "request \<Rightarrow> client \<Rightarrow> response \<times> client" where
  "http_exchange r st = (case net_responses st of
       [] \<Rightarrow> (TransportError, st\<lparr>net_sent := net_sent st @ [r]\<rparr>)
     | x # xs \<Rightarrow> (x, st\<lparr>net_sent := net_sent st @ [r], net_responses := xs\<rparr>))"

text \<open>\<^verbatim>\<open>_authCallback(jData)\<close>: \<^verbatim>\<open>self.appToken = jData['access_token']\<close>.\<close>

definition auth_callback :: "cls pval \<Rightarrow> client \<Rightarrow> client result" where
  "auth_callback j st = bindE (py_getitem j ''access_token'') (\<lambda>tok. Inr (st\<lparr>app_token := tok\<rparr>))"

text \<open>What a successful request does with the decoded body: the callback, or
  \<^verbatim>\<open>self.lastResult = result.json()\<close>.\<close>

definition run_callback :: "callback option \<Rightarrow> cls pval \<Rightarrow> client \<Rightarrow> client result" where
  "run_callback cb j st = (case cb of
       None \<Rightarrow> Inr (st\<lparr>last_result := j\<rparr>)
     | Some AuthCallback \<Rightarrow> auth_callback j st)"

text \<open>The body \<^verbatim>\<open>_getAuthToken\<close> sends: \<^verbatim>\<open>{"botName": ..., "botSecret": ...}\<close>.\<close>

definition auth_body :: "client \<Rightarrow> cls pval" where
  "auth_body st = PDict [(''botName'', PStr (app_name st)), (''botSecret'', PStr (app_secret st))]"

definition mk_request :: "http_method \<Rightarrow> client \<Rightarrow> string \<Rightarrow> cls pval option \<Rightarrow> (string \<times> string) list option
    \<Rightarrow> (string \<times> string) list \<Rightarrow> request" where
  "mk_request m st uri body hs kw = \<lparr>req_method = m, req_url = build_url (base_uri st) uri kw,
     req_headers = get_headers (app_token st) hs, req_body = body\<rparr>"

text \<open>The status test of \<^verbatim>\<open>result.ok\<close> in \<^verbatim>\<open>requests\<close>: false exactly when
  \<^verbatim>\<open>raise_for_status\<close> would raise, for the client and server errors 400--599.\<close>

definition status_ok :: "int \<Rightarrow> bool" where
  "status_ok code \<longleftrightarrow> \<not> (400 \<le> code \<and> code < 600)"

text \<open>Lines 77--82 (and 110--115): \<^verbatim>\<open>result.json()\<close> raising, or the callback
  raising, is caught and gives \<^verbatim>\<open>False\<close>.\<close>

definition on_success :: "callback option \<Rightarrow> cls pval option \<Rightarrow> client \<Rightarrow> bool \<times> client" where
  "on_success cb js st1 = (case js of
       None \<Rightarrow> (False, st1)
     | Some j \<Rightarrow> (case run_callback cb j st1 of Inl _ \<Rightarrow> (False, st1) | Inr st2 \<Rightarrow> (True, st2)))"

text \<open>\<^verbatim>\<open>_sendPostRequest(uri, callback, jData, headers, reauth, **kwargs)\<close>.  Every
  exception inside the \<^verbatim>\<open>try\<close> (a transport failure, a body that is no JSON, a callback
  that raises) makes it return \<^verbatim>\<open>False\<close>.  On status 401 with \<open>reauth\<close> it calls
  \<^verbatim>\<open>_getAuthToken\<close>, itself this function with \<open>reauth = False\<close>, and on success
  retries once with \<open>reauth = False\<close>.\<close>

function send_post :: "client \<Rightarrow> string \<Rightarrow> callback option \<Rightarrow> cls pval option \<Rightarrow> (string \<times> string) list option
    \<Rightarrow> bool \<Rightarrow> (string \<times> string) list \<Rightarrow> bool \<times> client" where
  "send_post st uri cb body hs reauth kw =
     (case http_exchange (mk_request POST st uri body hs kw) st of
        (TransportError, st1) \<Rightarrow> (False, st1)
      | (Response code js, st1) \<Rightarrow>
          (if status_ok code then on_success cb js st1
           else if code = 401 \<and> reauth then
             (case send_post st1 ''botauth'' (Some AuthCallback) (Some (auth_body st1)) None False [] of
                (True, st2) \<Rightarrow> send_post st2 uri cb body hs False kw
              | (False, st2) \<Rightarrow> (False, st2))
           else (False, st1)))"
  by pat_completeness auto
termination
  by (relation "measure (\<lambda>(st, uri, cb, body, hs, reauth, kw). if reauth then 1 else 0)") auto

declare send_post.simps [simp del]

text \<open>\<^verbatim>\<open>_getAuthToken()\<close>.\<close>

definition get_auth_token :: "client \<Rightarrow> bool \<times> client" where
  "get_auth_token st = send_post st ''botauth'' (Some AuthCallback) (Some (auth_body st)) None False []"

text \<open>\<^verbatim>\<open>_sendGetRequest(uri, callback, headers, reauth, **kwargs)\<close>, the same protocol
  with a GET request.\<close>

function send_get :: "client \<Rightarrow> string \<Rightarrow> callback option \<Rightarrow> (string \<times> string) list option
    \<Rightarrow> bool \<Rightarrow> (string \<times> string) list \<Rightarrow> bool \<times> client" where
  "send_get st uri cb hs reauth kw =
     (case http_exchange (mk_request GET st uri None hs kw) st of
        (TransportError, st1) \<Rightarrow> (False, st1)
      | (Response code js, st1) \<Rightarrow>
          (if status_ok code then on_success cb js st1
           else if code = 401 \<and> reauth then
             (case get_auth_token st1 of
                (True, st2) \<Rightarrow> send_get st2 uri cb hs False kw
              | (False, st2) \<Rightarrow> (False, st2))
           else (False, st1)))"
  by pat_completeness auto
termination
  by (relation "measure (\<lambda>(st, uri, cb, hs, reauth, kw). if reauth then 1 else 0)") auto

declare send_get.simps [simp del]

text \<open>Python's truth value; \<^verbatim>\<open>BaseDataObject\<close> defines neither \<^verbatim>\<open>__bool__\<close> nor
  \<^verbatim>\<open>__len__\<close>, so every instance is true.\<close>

fun py_truthy :: "'c pval \<Rightarrow> bool" where
  "py_truthy PNone = False"
| "py_truthy (PBool b) = b"
| "py_truthy (PInt i) = (i \<noteq> 0)"
| "py_truthy (PFloat r) = (r \<noteq> 0)"
| "py_truthy (PStr s) = (s \<noteq> [])"
| "py_truthy (PList xs) = (xs \<noteq> [])"
| "py_truthy (PTuple xs) = (xs \<noteq> [])"
| "py_truthy (PDict kvs) = (kvs \<noteq> [])"
| "py_truthy (PObj c a) = True"

text \<open>Lines 148--153 of \<^verbatim>\<open>getStarMap\<close>: fetch, fill a fresh \<^verbatim>\<open>StarMap\<close> with
  \<^verbatim>\<open>fromJson\<close> (whose result is not looked at; an exception escapes), cache it for the
  default 60 seconds at the clock value \<open>t1\<close> and return it.\<close>

definition fetch_star_map :: "(string \<Rightarrow> cls pval option) \<Rightarrow> cls runtime \<Rightarrow> real \<Rightarrow> client
    \<Rightarrow> cls pval option result \<times> client" where
  "fetch_star_map loads rt t1 st =
     (case send_get st ''getmap'' None None True [] of
        (False, st1) \<Rightarrow> (Inr None, st1)
      | (True, st1) \<Rightarrow>
          (case from_json_top loads rt StarMap (cinit (classes rt StarMap)) (last_result st1) of
             Inl e \<Rightarrow> (Inl e, st1)
           | Inr (_, a) \<Rightarrow> (Inr (Some (PObj StarMap a)),
               st1\<lparr>star_cache := place_cache_item t1 star_map_cache_key (PObj StarMap a) default_expire
                                   (star_cache st1)\<rparr>)))"

text \<open>\<^verbatim>\<open>getStarMap()\<close>: a true cached value read at clock value \<open>t0\<close> is returned
  without a request.\<close>

definition get_star_map :: "(string \<Rightarrow> cls pval option) \<Rightarrow> cls runtime \<Rightarrow> real \<Rightarrow> real \<Rightarrow> client
    \<Rightarrow> cls pval option result \<times> client" where
  "get_star_map loads rt t0 t1 st =
     (case get_cache_item t0 star_map_cache_key (star_cache st) of
        Some v \<Rightarrow> if py_truthy v then (Inr (Some v), st) else fetch_star_map loads rt t1 st
      | None \<Rightarrow> fetch_star_map loads rt t1 st)"

text \<open>\<^verbatim>\<open>getSystemConstants(bForce)\<close>: fetch when forced or when nothing is held, fill
  a fresh \<^verbatim>\<open>StarMapConstants\<close>, run \<^verbatim>\<open>mapAdjacents(50)\<close>, keep and return it; a
  failed request returns what is held.\<close>

definition get_system_constants :: "(string \<Rightarrow> cls pval option) \<Rightarrow> cls runtime \<Rightarrow> bool \<Rightarrow> client
    \<Rightarrow> cls pval result \<times> client" where
  "get_system_constants loads rt force st =
     (if force \<or> star_map_constants st = PNone then
        (case send_get st ''getsystemstatic'' None None True [] of
           (False, st1) \<Rightarrow> (Inr (star_map_constants st1), st1)
         | (True, st1) \<Rightarrow>
             (case from_json_top loads rt StarMapConstants (cinit (classes rt StarMapConstants)) (last_result st1) of
                Inl e \<Rightarrow> (Inl e, st1)
              | Inr (_, a) \<Rightarrow>
                  (case map_adjacents rt 50 a of
                     Inl e \<Rightarrow> (Inl e, st1)
                   | Inr a' \<Rightarrow> (Inr (PObj StarMapConstants a'), st1\<lparr>star_map_constants := PObj StarMapConstants a'\<rparr>))))
      else (Inr (star_map_constants st), st))"

text \<open>The request functions change only the token, the last result and the network.\<close>

definition client_frame :: "client \<Rightarrow> client \<Rightarrow> bool" where
  "client_frame st st' \<longleftrightarrow> app_name st' = app_name st \<and> app_secret st' = app_secret st \<and>
     base_uri st' = base_uri st \<and> star_cache st' = star_cache st \<and> star_map_constants st' = star_map_constants st"

subsection \<open>Examples\<close>

text \<open>A client \<^verbatim>\<open>RogueWarApi('bot', 'pw')\<close> facing given answers, a token answer, a
  map with no systems, and system constants \<open>A\<close> at (0, 0) and \<open>B\<close> at (30, 40).\<close>

definition example_client :: "response list \<Rightarrow> client" where
  "example_client rs = new_client ''bot'' ''pw'' None rs"

definition token_reply :: "cls pval" where
  "token_reply = PDict [(''access_token'', PStr ''T'')]"

definition empty_map_reply :: "cls pval" where
  "empty_map_reply = PDict [(''starsystems'', PList [])]"

definition coords_json :: "cls pval" where
  "coords_json = PDict [(''Coordinates'', PList
     [PDict [(''name'', PStr ''A''), (''posx'', PInt 0), (''posy'', PInt 0), (''originalOwner'', PStr ''E'')],
      PDict [(''name'', PStr ''B''), (''posx'', PInt 30), (''posy'', PInt 40), (''originalOwner'', PStr ''E'')]])]"

subsection \<open>Lemmas\<close>

lemma http_exchange_Cons:
  "net_responses st = x # xs \<Longrightarrow>
     http_exchange r st = (x, st\<lparr>net_sent := net_sent st @ [r], net_responses := xs\<rparr>)"
  by (simp add: http_exchange_def)

lemma http_exchange_sent: "http_exchange r st = (resp, st1) \<Longrightarrow> net_sent st1 = net_sent st @ [r]"
  by (auto simp: http_exchange_def split: list.splits)

lemma on_success_sent: "net_sent (snd (on_success cb js st)) = net_sent st"
  by (auto simp: on_success_def run_callback_def auth_callback_def bindE_def
      split: option.splits callback.splits sum.splits)

lemma send_post_False:
  "send_post st uri cb body hs False kw =
     (case http_exchange (mk_request POST st uri body hs kw) st of
        (TransportError, st1) \<Rightarrow> (False, st1)
      | (Response code js, st1) \<Rightarrow> if status_ok code then on_success cb js st1 else (False, st1))"
  by (subst send_post.simps) (simp split: prod.split response.split)

lemma send_get_False:
  "send_get st uri cb hs False kw =
     (case http_exchange (mk_request GET st uri None hs kw) st of
        (TransportError, st1) \<Rightarrow> (False, st1)
      | (Response code js, st1) \<Rightarrow> if status_ok code then on_success cb js st1 else (False, st1))"
  by (subst send_get.simps) (simp split: prod.split response.split)

lemma send_post_once:
  "net_sent (snd (send_post st uri cb body hs False kw)) = net_sent st @ [mk_request POST st uri body hs kw]"
proof -
  obtain resp st1 where ex: "http_exchange (mk_request POST st uri body hs kw) st = (resp, st1)" by fastforce
  then show ?thesis
    using http_exchange_sent [OF ex] by (cases resp) (simp_all add: send_post_False on_success_sent)
qed

lemma send_get_once:
  "net_sent (snd (send_get st uri cb hs False kw)) = net_sent st @ [mk_request GET st uri None hs kw]"
proof -
  obtain resp st1 where ex: "http_exchange (mk_request GET st uri None hs kw) st = (resp, st1)" by fastforce
  then show ?thesis
    using http_exchange_sent [OF ex] by (cases resp) (simp_all add: send_get_False on_success_sent)
qed

lemma send_get_ok:
  "http_exchange (mk_request GET st uri None hs kw) st = (Response c js, st1) \<Longrightarrow> status_ok c \<Longrightarrow>
     send_get st uri cb hs reauth kw = on_success cb js st1"
  by (subst send_get.simps) simp

lemma send_get_401:
  "http_exchange (mk_request GET st uri None hs kw) st = (Response 401 js, st1) \<Longrightarrow>
     send_get st uri cb hs True kw =
       (case get_auth_token st1 of (True, st2) \<Rightarrow> send_get st2 uri cb hs False kw | (False, st2) \<Rightarrow> (False, st2))"
  by (subst send_get.simps) (simp add: status_ok_def)

lemma send_get_fail:
  "http_exchange (mk_request GET st uri None hs kw) st = (resp, st1) \<Longrightarrow>
     (\<forall>c js. resp = Response c js \<longrightarrow> \<not> status_ok c \<and> (c \<noteq> 401 \<or> \<not> reauth)) \<Longrightarrow>
     send_get st uri cb hs reauth kw = (False, st1)"
  by (subst send_get.simps) (cases resp; auto)

lemma send_post_ok:
  "http_exchange (mk_request POST st uri body hs kw) st = (Response c js, st1) \<Longrightarrow> status_ok c \<Longrightarrow>
     send_post st uri cb body hs False kw = on_success cb js st1"
  by (simp add: send_post_False)

lemma client_frame_refl [simp]: "client_frame st st"
  by (simp add: client_frame_def)

lemma client_frame_trans: "client_frame st st1 \<Longrightarrow> client_frame st1 st2 \<Longrightarrow> client_frame st st2"
  by (simp add: client_frame_def)

lemma http_exchange_frame: "http_exchange r st = (resp, st1) \<Longrightarrow> client_frame st st1"
  by (auto simp: http_exchange_def client_frame_def split: list.splits)

lemma on_success_frame: "client_frame st (snd (on_success cb js st))"
  by (auto simp: on_success_def run_callback_def auth_callback_def bindE_def client_frame_def
      split: option.splits callback.splits sum.splits)

lemma send_post_frame_False: "client_frame st (snd (send_post st uri cb body hs False kw))"
proof -
  obtain resp st1 where ex: "http_exchange (mk_request POST st uri body hs kw) st = (resp, st1)" by fastforce
  have f1: "client_frame st st1" by (rule http_exchange_frame [OF ex])
  show ?thesis
  proof (cases resp)
    case (Response c js)
    then show ?thesis using ex f1 client_frame_trans [OF f1 on_success_frame]
      by (simp add: send_post_False)
  qed (use ex f1 in \<open>simp add: send_post_False\<close>)
qed

lemma send_get_frame_False: "client_frame st (snd (send_get st uri cb hs False kw))"
proof -
  obtain resp st1 where ex: "http_exchange (mk_request GET st uri None hs kw) st = (resp, st1)" by fastforce
  have f1: "client_frame st st1" by (rule http_exchange_frame [OF ex])
  show ?thesis
  proof (cases resp)
    case (Response c js)
    then show ?thesis using ex f1 client_frame_trans [OF f1 on_success_frame]
      by (simp add: send_get_False)
  qed (use ex f1 in \<open>simp add: send_get_False\<close>)
qed

lemma send_get_frame: "client_frame st (snd (send_get st uri cb hs reauth kw))"
proof (cases reauth)
  case True
  obtain resp st1 where ex: "http_exchange (mk_request GET st uri None hs kw) st = (resp, st1)" by fastforce
  have f1: "client_frame st st1" by (rule http_exchange_frame [OF ex])
  obtain b st2 where auth: "get_auth_token st1 = (b, st2)" by fastforce
  have f2: "client_frame st st2"
    using client_frame_trans [OF f1 send_post_frame_False [of st1 "''botauth''" "Some AuthCallback"
        "Some (auth_body st1)" None "[]"]] auth by (simp add: get_auth_token_def)
  show ?thesis
  proof (cases "\<exists>js. resp = Response 401 js")
    case True
    then obtain js where r: "resp = Response 401 js" by blast
    show ?thesis
      using ex auth f2 client_frame_trans [OF f2 send_get_frame_False] True
      by (cases b) (simp_all add: send_get_401 [OF ex [unfolded r]] \<open>reauth\<close>)
  next
    case False
    show ?thesis
    proof (cases "\<exists>c js. resp = Response c js \<and> status_ok c")
      case True
      then obtain c js where "resp = Response c js" "status_ok c" by blast
      with ex f1 client_frame_trans [OF f1 on_success_frame] show ?thesis by (simp add: send_get_ok)
    next
      case nok: False
      have "send_get st uri cb hs reauth kw = (False, st1)"
        by (rule send_get_fail [OF ex]) (use False nok in auto)
      with f1 show ?thesis by simp
    qed
  qed
qed (simp add: send_get_frame_False)

lemma send_get_not_401:
  "\<forall>js. fst (http_exchange (mk_request GET st uri None hs kw) st) \<noteq> Response 401 js \<Longrightarrow>
     send_get st uri cb hs reauth kw = send_get st uri cb hs False kw"
  apply (simp only: send_get_False)
  apply (subst send_get.simps)
  apply (auto split: prod.split response.split)
  done

lemma send_post_sent_snd:
  "get_auth_token st1 = (b, st2) \<Longrightarrow> net_sent st2 = net_sent st1 @ [mk_request POST st1 ''botauth'' (Some (auth_body st1)) None []]"
  using send_post_once [of st1 "''botauth''" "Some AuthCallback" "Some (auth_body st1)" None "[]"]
  by (simp add: get_auth_token_def)

lemma on_success_None_cb:
  "on_success None (Some j) st1 = (True, st1\<lparr>last_result := j\<rparr>)"
  by (simp add: on_success_def run_callback_def)

lemma send_get_first_ok:
  "net_responses st = Response c (Some j) # rs \<Longrightarrow> status_ok c \<Longrightarrow>
     send_get st uri None hs reauth kw =
       (True, st\<lparr>net_sent := net_sent st @ [mk_request GET st uri None hs kw], net_responses := rs, last_result := j\<rparr>)"
  by (simp add: send_get_ok [OF http_exchange_Cons] on_success_None_cb)

subsection \<open>Properties of the client\<close>

text \<open>C21: whatever the server answers, \<^verbatim>\<open>_sendGetRequest\<close> first sends its own request
  and then at most two more (the token request and one retry) when it may re-authenticate,
  and nothing more when it may not: exactly one request then, at most three in all, never a
  third attempt.\<close>

theorem send_get_requests_bound:
  "\<exists>rs. net_sent (snd (send_get st uri cb hs reauth kw)) = net_sent st @ mk_request GET st uri None hs kw # rs \<and>
     length rs \<le> (if reauth then 2 else 0)"
proof -
  obtain resp st1 where ex: "http_exchange (mk_request GET st uri None hs kw) st = (resp, st1)" by fastforce
  have s1: "net_sent st1 = net_sent st @ [mk_request GET st uri None hs kw]" by (rule http_exchange_sent [OF ex])
  show ?thesis
  proof (cases "reauth \<and> (\<exists>js. resp = Response 401 js)")
    case True
    then obtain js where r: "resp = Response 401 js" and reauth by blast
    obtain b st2 where auth: "get_auth_token st1 = (b, st2)" by fastforce
    have s2: "net_sent st2 = net_sent st1 @ [mk_request POST st1 ''botauth'' (Some (auth_body st1)) None []]"
      by (rule send_post_sent_snd [OF auth])
    show ?thesis
      using send_get_once [of st2 uri cb hs kw] s1 s2 auth \<open>reauth\<close>
      by (cases b) (auto simp: send_get_401 [OF ex [unfolded r]])
  next
    case False
    then have "send_get st uri cb hs reauth kw = send_get st uri cb hs False kw"
      using ex by (cases reauth) (auto intro!: send_get_not_401 [rule_format])
    then show ?thesis using send_get_once [of st uri cb hs kw] by auto
  qed
qed

text \<open>C22: on a 401 answer followed by a successful token request, \<^verbatim>\<open>_sendGetRequest\<close>
  stores the new token and is exactly the same call again with re-authentication switched
  off, sent with the new token; so a second 401 is final.\<close>

theorem send_get_reauth_once:
  assumes "net_responses st = Response 401 b # Response c (Some j) # rs" and "status_ok c"
    and "py_getitem j ''access_token'' = Inr tok"
  shows "send_get st uri cb hs True kw =
           send_get (st\<lparr>net_sent := net_sent st @ [mk_request GET st uri None hs kw,
                                                mk_request POST st ''botauth'' (Some (auth_body st)) None []],
                        net_responses := rs, app_token := tok\<rparr>) uri cb hs False kw"
proof -
  let ?st1 = "st\<lparr>net_sent := net_sent st @ [mk_request GET st uri None hs kw], net_responses := Response c (Some j) # rs\<rparr>"
  have ex: "http_exchange (mk_request GET st uri None hs kw) st = (Response 401 b, ?st1)"
    using assms(1) by (rule http_exchange_Cons)
  have "get_auth_token ?st1 = (True, st\<lparr>net_sent := net_sent st @ [mk_request GET st uri None hs kw,
          mk_request POST st ''botauth'' (Some (auth_body st)) None []], net_responses := rs, app_token := tok\<rparr>)"
    using assms(2,3)
    by (simp add: get_auth_token_def send_post_False http_exchange_def on_success_def run_callback_def
        auth_callback_def mk_request_def auth_body_def)
  then show ?thesis by (simp add: send_get_401 [OF ex])
qed

theorem send_get_reauth_once_witness:
  "send_get (example_client [Response 401 None, Response 200 (Some token_reply), Response 401 None])
     ''getmap'' None None True [] =
   (False, (example_client [])\<lparr>app_token := PStr ''T'', net_sent :=
      [mk_request GET (example_client []) ''getmap'' None None [],
       mk_request POST (example_client []) ''botauth'' (Some (auth_body (example_client []))) None [],
       mk_request GET ((example_client [])\<lparr>app_token := PStr ''T''\<rparr>) ''getmap'' None None []]\<rparr>)"
  using send_get_reauth_once [of "example_client [Response 401 None, Response 200 (Some token_reply), Response 401 None]"
      None 200 token_reply "[Response 401 None]" "PStr ''T''" "''getmap''" None None "[]"]
  by (simp add: example_client_def new_client_def token_reply_def status_ok_def send_get_False http_exchange_def
      mk_request_def auth_body_def)

text \<open>Without caller headers, \<^verbatim>\<open>_getHeaders\<close> sends the user agent and the content
  type, and the \<^verbatim>\<open>Authorization\<close> header exactly when a token is held.\<close>

theorem get_headers_authorization:
  "get_headers tok None =
     [(''User-Agent'', HStr user_agent), (''content-type'', HStr ''application/json'')] @
     (if tok = PStr '''' then [] else [(''Authorization'', HBearer tok)])"
  by (simp add: get_headers_def)

text \<open>\<^verbatim>\<open>getStarMap\<close> returns a star map read from the cache without sending any
  request and without changing the client.\<close>

theorem get_star_map_cached:
  "get_cache_item t0 star_map_cache_key (star_cache st) = Some (PObj c a) \<Longrightarrow>
     get_star_map loads rt t0 t1 st = (Inr (Some (PObj c a)), st)"
  by (simp add: get_star_map_def)

theorem get_star_map_cached_witness:
  "get_star_map (\<lambda>_. None) rt_ex 10 11
     ((example_client [])\<lparr>star_cache := place_cache_item 0 star_map_cache_key example_map default_expire new_cache\<rparr>) =
   (Inr (Some example_map),
     (example_client [])\<lparr>star_cache := place_cache_item 0 star_map_cache_key example_map default_expire new_cache\<rparr>)"
  unfolding example_map_def
  by (rule get_star_map_cached) (simp add: get_place default_expire_def)

text \<open>C23: after a \<^verbatim>\<open>getStarMap\<close> that fetched a map, every call within the 60 seconds
  of the cache entry returns the same map and sends no request.\<close>

theorem get_star_map_caches:
  assumes "get_cache_item t0 star_map_cache_key (star_cache st) = None"
    and "get_star_map loads rt t0 t1 st = (Inr (Some m), st')" and "t0' < t1 + default_expire"
  shows "get_star_map loads rt t0' t1' st' = (Inr (Some m), st')"
  using assms
  by (auto simp: get_star_map_def fetch_star_map_def get_place split: prod.splits bool.splits sum.splits)

theorem get_star_map_caches_witness:
  "get_star_map (\<lambda>_. None) rt_ex 30 31
     (snd (get_star_map (\<lambda>_. None) rt_ex 0 1 (example_client [Response 200 (Some empty_map_reply)]))) =
   (Inr (Some (PObj StarMap [(''_systems'', PList [])])),
    snd (get_star_map (\<lambda>_. None) rt_ex 0 1 (example_client [Response 200 (Some empty_map_reply)])))"
proof -
  have first: "get_star_map (\<lambda>_. None) rt_ex 0 1 (example_client [Response 200 (Some empty_map_reply)]) =
      (Inr (Some (PObj StarMap [(''_systems'', PList [])])),
       snd (get_star_map (\<lambda>_. None) rt_ex 0 1 (example_client [Response 200 (Some empty_map_reply)])))"
    by (simp add: get_star_map_def fetch_star_map_def example_client_def new_client_def new_cache_def
        get_cache_item_def send_get_first_ok status_ok_def empty_map_reply_def from_json_top_def from_json_unfold
        rt_ex_def repo_info_defs get_members_def eval_props_def public_member_def mk_submap_def sub_source_def
        from_json_sub_def setattr_def)
  show ?thesis
    by (rule get_star_map_caches [OF _ first])
      (simp_all add: example_client_def new_client_def new_cache_def get_cache_item_def default_expire_def)
qed

text \<open>C24: when the server answers \<^verbatim>\<open>getmap\<close> with JSON that is neither an object nor a
  string (an array, a number, a boolean or \<^verbatim>\<open>null\<close>), \<^verbatim>\<open>fromJson\<close> returns
  \<^verbatim>\<open>False\<close> and \<^verbatim>\<open>getStarMap\<close> ignores it: it returns an empty \<^verbatim>\<open>StarMap\<close> and
  caches it for 60 seconds.  (A string is parsed again by \<^verbatim>\<open>json.loads\<close>.)\<close>

theorem get_star_map_non_dict:
  assumes "get_cache_item t0 star_map_cache_key (star_cache st) = None"
    and "net_responses st = Response c (Some v) # rs" and "status_ok c"
    and "\<forall>d. v \<noteq> PDict d" and "\<forall>s. v \<noteq> PStr s"
  shows "fst (get_star_map loads rt t0 t1 st) = Inr (Some (PObj StarMap (cinit (classes rt StarMap)))) \<and>
         get_cache_item t1 star_map_cache_key (star_cache (snd (get_star_map loads rt t0 t1 st))) =
           Some (PObj StarMap (cinit (classes rt StarMap)))"
proof -
  from assms(4,5) have "from_json_top loads rt StarMap a v = Inr (False, a)" for a
    by (cases v) (simp_all add: from_json_top_def)
  then show ?thesis
    using assms(1-3)
    by (simp add: get_star_map_def fetch_star_map_def send_get_first_ok get_place default_expire_def)
qed

theorem get_star_map_non_dict_witness:
  "fst (get_star_map (\<lambda>_. None) rt_ex 0 1 (example_client [Response 200 (Some (PList []))])) =
     Inr (Some (PObj StarMap [(''_systems'', PList [])])) \<and>
   get_cache_item 1 star_map_cache_key
     (star_cache (snd (get_star_map (\<lambda>_. None) rt_ex 0 1 (example_client [Response 200 (Some (PList []))])))) =
     Some (PObj StarMap [(''_systems'', PList [])])"
  using get_star_map_non_dict [of 0 "example_client [Response 200 (Some (PList []))]" 200 "PList []" "[]" "\<lambda>_. None" rt_ex 1]
  by (simp add: example_client_def new_client_def new_cache_def get_cache_item_def status_ok_def rt_ex_def
      repo_info_defs)

text \<open>C25: an exception of \<^verbatim>\<open>fromJson\<close> on the server's answer escapes
  \<^verbatim>\<open>getStarMap\<close>: nothing is cached and the caller sees the exception.\<close>

theorem get_star_map_raises:
  assumes "get_cache_item t0 star_map_cache_key (star_cache st) = None"
    and "net_responses st = Response c (Some j) # rs" and "status_ok c"
    and "from_json_top loads rt StarMap (cinit (classes rt StarMap)) j = Inl e"
  shows "get_star_map loads rt t0 t1 st =
           (Inl e, st\<lparr>net_sent := net_sent st @ [mk_request GET st ''getmap'' None None []], net_responses := rs,
                      last_result := j\<rparr>)"
  using assms by (simp add: get_star_map_def fetch_star_map_def send_get_first_ok)

theorem get_star_map_raises_witness:
  "fst (get_star_map (\<lambda>_. Some (PInt 5)) rt_ex 0 1 (example_client [Response 200 (Some (PStr ''5''))])) = Inl TypeError"
  using get_star_map_raises [of 0 "example_client [Response 200 (Some (PStr ''5''))]" 200 "PStr ''5''" "[]"
      "\<lambda>_. Some (PInt 5)" rt_ex TypeError 1]
  by (simp add: example_client_def new_client_def new_cache_def get_cache_item_def status_ok_def rt_ex_def
      from_json_top_def from_json_unfold get_members_def repo_info_defs eval_props_def public_member_def
      mk_submap_def sub_source_def from_json_sub_def)

text \<open>C26: \<^verbatim>\<open>getSystemConstants\<close> returns the constants it holds without a request when
  not forced and something is held, and returns what it holds (possibly \<^verbatim>\<open>None\<close>) when
  its request fails.\<close>

theorem get_system_constants_held:
  "(\<not> force \<and> star_map_constants st \<noteq> PNone \<longrightarrow>
      get_system_constants loads rt force st = (Inr (star_map_constants st), st)) \<and>
   (\<not> fst (send_get st ''getsystemstatic'' None None True []) \<longrightarrow>
      fst (get_system_constants loads rt force st) = Inr (star_map_constants st))"
  using send_get_frame [of st "''getsystemstatic''" None None True "[]"]
  by (auto simp: get_system_constants_def client_frame_def split: prod.splits bool.splits)

theorem get_system_constants_held_witness:
  "get_system_constants (\<lambda>_. None) rt_ex False ((example_client [])\<lparr>star_map_constants := example_consts\<rparr>) =
     (Inr example_consts, (example_client [])\<lparr>star_map_constants := example_consts\<rparr>) \<and>
   fst (get_system_constants (\<lambda>_. None) rt_ex True ((example_client [])\<lparr>star_map_constants := example_consts\<rparr>)) =
     Inr example_consts"
  using get_system_constants_held [of False "(example_client [])\<lparr>star_map_constants := example_consts\<rparr>" "\<lambda>_. None" rt_ex]
    get_system_constants_held [of True "(example_client [])\<lparr>star_map_constants := example_consts\<rparr>" "\<lambda>_. None" rt_ex]
  by (simp add: example_client_def new_client_def example_consts_def send_get.simps http_exchange_def)

text \<open>End to end: a client whose server answers \<^verbatim>\<open>getsystemstatic\<close> with systems
  \<open>A\<close> at (0, 0) and \<open>B\<close> at (30, 40) returns constants in which each is adjacent to
  the other (distance exactly the radius 50).\<close>

theorem get_system_constants_example:
  "fst (get_system_constants (\<lambda>_. None) rt_ex False (new_client ''bot'' ''pw'' None [Response 200 (Some coords_json)])) =
     Inr (PObj StarMapConstants [(''_consts'', PList
       [PObj StarSystemConst [(''name'', PStr ''A''), (''posx'', PInt 0), (''posy'', PInt 0),
          (''originalOwner'', PStr ''E''), (''_adjacent'', PList [PStr ''B''])],
        PObj StarSystemConst [(''name'', PStr ''B''), (''posx'', PInt 30), (''posy'', PInt 40),
          (''originalOwner'', PStr ''E''), (''_adjacent'', PList [PStr ''A''])]])])"
  by (simp add: get_system_constants_def new_client_def send_get_first_ok status_ok_def coords_json_def
      from_json_top_def from_json_unfold rt_ex_def repo_info_defs get_members_def eval_props_def
      public_member_def mk_submap_def sub_source_def from_json_sub_def load_child_def read_member_def setattr_def
      map_adjacents_def adj_outer_def adj_step_def adj_inner_def adj_test_def num_attr_def
      append_adjacent_def with_adjacent_def with_elems_def sqrt_le_iff_sq upt_rec)

end
