(* ===== verification/BaseEnum.thy ===== *)
theory BaseEnum
  imports BaseJson
begin

text \<open>
  \<^verbatim>\<open>BaseEnum\<close> of \<^verbatim>\<open>src/roguewarapi/data/baseenum.py\<close>: an enumeration is a subclass whose
  class attributes are its items.  A subclass is modelled by the data attributes it declares
  (name and value); \<open>enum_class_attrs\<close> is what \<^verbatim>\<open>inspect.getmembers(cls)\<close> sees of it:
  those attributes over the methods \<^verbatim>\<open>BaseEnum\<close> defines (the dunder attributes of
  \<^verbatim>\<open>object\<close> are left out: every check of the code discards them first), in order of name.
  Item values are compared with Python's \<^verbatim>\<open>==\<close> (\<open>py_eq\<close>).
\<close>

datatype 'c enum_attr = EData "'c pval" | EMethod

definition base_enum_attrs :: "(string \<times> 'c enum_attr) list" where
  "base_enum_attrs = [(''_docMember'', EMethod), (''_getMembers'', EMethod), (''_getMembersSorted'', EMethod),
     (''_sortKey'', EMethod), (''findByName'', EMethod), (''getItemName'', EMethod), (''isAnItem'', EMethod),
     (''listItemNames'', EMethod)]"

text \<open>The class dictionary along the method resolution order: a subclass attribute hides a
  \<^verbatim>\<open>BaseEnum\<close> one of the same name.\<close>

definition enum_class_attrs :: "(string \<times> 'c pval) list \<Rightarrow> (string \<times> 'c enum_attr) list" where
  "enum_class_attrs decl = AList.merge base_enum_attrs (map (\<lambda>(n, v). (n, EData v)) decl)"

text \<open>The filter loop of \<^verbatim>\<open>_getMembers\<close> (lines 10--19): names starting with an underscore
  and callables are dropped.\<close>

fun public_data :: "(string \<times> 'c enum_attr) list \<Rightarrow> (string \<times> 'c pval) list" where
  "public_data [] = []"
| "public_data ((n, EData v) # xs) = (if is_private n then public_data xs else (n, v) # public_data xs)"
| "public_data ((n, EMethod) # xs) = public_data xs"

definition enum_get_members :: "(string \<times> 'c pval) list \<Rightarrow> (string \<times> 'c pval) list" where
  "enum_get_members decl = public_data (sort_key fst (enum_class_attrs decl))"

text \<open>\<^verbatim>\<open>findByName(item)\<close>: the value of the first item with that name, \<^verbatim>\<open>-1\<close> if
  there is none.\<close>

definition enum_find_by_name :: "'c runtime \<Rightarrow> (string \<times> 'c pval) list \<Rightarrow> 'c pval \<Rightarrow> 'c pval result" where
  "enum_find_by_name rt decl item =
     bindE (findE (\<lambda>m. py_eq rt (PStr (fst m)) item) (enum_get_members decl)) (\<lambda>r.
       Inr (case r of Some m \<Rightarrow> snd m | None \<Rightarrow> PInt (-1)))"

text \<open>\<^verbatim>\<open>isAnItem(item)\<close>.\<close>

definition enum_is_an_item :: "'c runtime \<Rightarrow> (string \<times> 'c pval) list \<Rightarrow> 'c pval \<Rightarrow> bool result" where
  "enum_is_an_item rt decl item =
     bindE (findE (\<lambda>m. py_eq rt (snd m) item) (enum_get_members decl)) (\<lambda>r. Inr (r \<noteq> None))"

text \<open>\<^verbatim>\<open>getItemName(item)\<close>: the name of the first item with that value, the empty string if
  there is none.\<close>

definition enum_get_item_name :: "'c runtime \<Rightarrow> (string \<times> 'c pval) list \<Rightarrow> 'c pval \<Rightarrow> 'c pval result" where
  "enum_get_item_name rt decl item =
     bindE (findE (\<lambda>m. py_eq rt (snd m) item) (enum_get_members decl)) (\<lambda>r.
       Inr (case r of Some m \<Rightarrow> PStr (fst m) | None \<Rightarrow> PStr ''''))"

text \<open>\<^verbatim>\<open>listItemNames()\<close>.\<close>

definition enum_list_item_names :: "(string \<times> 'c pval) list \<Rightarrow> 'c pval list" where
  "enum_list_item_names decl = map (\<lambda>m. PStr (fst m)) (enum_get_members decl)"

text \<open>\<^verbatim>\<open>_sortKey\<close> (lines 102--104): an item's value.\<close>

definition enum_sort_key :: "string \<times> 'c pval \<Rightarrow> 'c pval" where
  "enum_sort_key m = snd m"

text \<open>\<^verbatim>\<open>_getMembersSorted()\<close> (lines 86--100) passes \<^verbatim>\<open>key=cls._sort_key\<close>, a name the
  class does not define (the method is \<^verbatim>\<open>_sortKey\<close>): reading it raises
  \<^verbatim>\<open>AttributeError\<close>.  A subclass data attribute of that name is no callable, so
  \<^verbatim>\<open>sorted\<close> raises \<^verbatim>\<open>TypeError\<close> as soon as it has an item to sort.\<close>

definition enum_get_members_sorted :: "(string \<times> 'c pval) list \<Rightarrow> (string \<times> 'c pval) list result" where
  "enum_get_members_sorted decl =
     (case map_of (enum_class_attrs decl) ''_sort_key'' of
        None \<Rightarrow> Inl AttributeError
      | Some _ \<Rightarrow> if enum_get_members decl = [] then Inr [] else Inl TypeError)"

text \<open>\<^verbatim>\<open>_docMember(lst_member)\<close> (lines 106--108): the pair as a two-element list of
  the name and \<^verbatim>\<open>str()\<close> of the value, \<^verbatim>\<open>str()\<close> a parameter.\<close>

definition enum_doc_member :: "('c pval \<Rightarrow> string) \<Rightarrow> string \<times> 'c pval \<Rightarrow> 'c pval" where
  "enum_doc_member str_of lst_member = PList [PStr (fst lst_member), PStr (str_of (snd lst_member))]"

subsection \<open>Example\<close>

text \<open>An enumeration in the style of the factions: \<open>Neutral = -1\<close>, \<open>Empire = 1\<close>,
  \<open>Pirates = 2\<close> and a private \<open>_hidden = 3\<close>.\<close>

definition enum_rt :: "unit runtime" where
  "enum_rt = \<lparr>classes = (\<lambda>_. \<lparr>json_type = '''', cinit = [], csubmap = [], cb64 = [], cexclude = [], cprops = []\<rparr>),
     b64_encode = (\<lambda>_. Inl ValueError), b64_decode = (\<lambda>_. Inl ValueError)\<rparr>"

definition example_enum :: "(string \<times> 'c pval) list" where
  "example_enum = [(''Neutral'', PInt (-1)), (''Empire'', PInt 1), (''Pirates'', PInt 2), (''_hidden'', PInt 3)]"

subsection \<open>Lemmas\<close>

lemma public_data_filter:
  "public_data xs = map (\<lambda>(n, a). (n, case a of EData v \<Rightarrow> v | EMethod \<Rightarrow> PNone))
     (filter (\<lambda>(n, a). \<not> is_private n \<and> a \<noteq> EMethod) xs)"
  by (induction xs rule: public_data.induct) auto

lemma set_public_data: "set (public_data xs) = {(n, v). (n, EData v) \<in> set xs \<and> \<not> is_private n}"
  by (induction xs rule: public_data.induct) auto

lemma distinct_fst_sort_key: "distinct (map fst (sort_key fst xs)) \<longleftrightarrow> distinct (map fst xs)"
proof -
  have "length (map fst (sort_key fst xs)) = length (map fst xs)" by simp
  moreover have "set (map fst (sort_key fst xs)) = set (map fst xs)" by simp
  ultimately show ?thesis by (metis card_distinct distinct_card)
qed

lemma distinct_enum_class_attrs: "distinct (map fst (enum_class_attrs decl))"
  by (simp add: enum_class_attrs_def distinct_merge base_enum_attrs_def)

lemma enum_members_names:
  "sorted (map fst (enum_get_members decl)) \<and> distinct (map fst (enum_get_members decl))"
proof -
  let ?xs = "sort_key fst (enum_class_attrs decl)"
  let ?P = "\<lambda>(n, a). \<not> is_private n \<and> a \<noteq> EMethod"
  have "map fst (enum_get_members decl) = map fst (filter ?P ?xs)"
    by (simp add: enum_get_members_def public_data_filter case_prod_beta)
  moreover have "sorted (map fst (filter ?P ?xs))" by (rule sorted_filter) simp
  moreover have "distinct (map fst (filter ?P ?xs))"
    using distinct_enum_class_attrs [of decl] by (simp add: distinct_map_filter distinct_fst_sort_key)
  ultimately show ?thesis by simp
qed

lemma set_enum_members:
  "set (enum_get_members decl) = {(n, v). map_of (enum_class_attrs decl) n = Some (EData v) \<and> \<not> is_private n}"
  using distinct_enum_class_attrs [of decl]
  by (auto simp: enum_get_members_def set_public_data)

lemma map_of_enum_class_attrs:
  "map_of (enum_class_attrs decl) n =
     (case map_of decl n of Some v \<Rightarrow> Some (EData v) | None \<Rightarrow> map_of base_enum_attrs n)"
  by (auto simp: enum_class_attrs_def merge_conv' map_add_def map_of_map case_prod_beta split: option.splits)

lemma names_enum_members: "fst ` set (enum_get_members decl) = {n \<in> fst ` set decl. \<not> is_private n}"
proof -
  have "map_of (base_enum_attrs :: (string \<times> 'a enum_attr) list) n \<noteq> Some (EData v)" for n and v :: "'a pval"
    by (simp add: base_enum_attrs_def)
  then show ?thesis
    by (auto simp: set_enum_members map_of_enum_class_attrs image_iff split: option.splits
        dest: map_of_SomeD weak_map_of_SomeI) (force dest: map_of_SomeD)
qed

lemma find_distinct_fst:
  "distinct (map fst ms) \<Longrightarrow> (n, v) \<in> set ms \<Longrightarrow> find (\<lambda>m. fst m = n) ms = Some (n, v)"
  by (induction ms) (auto simp: rev_image_eqI)

lemma find_distinct_snd:
  "distinct (map snd ms) \<Longrightarrow> (n, v) \<in> set ms \<Longrightarrow> find (\<lambda>m. snd m = v) ms = Some (n, v)"
  by (induction ms) (auto simp: rev_image_eqI)

subsection \<open>Properties of \<^verbatim>\<open>BaseEnum\<close>\<close>

text \<open>C27: \<^verbatim>\<open>_getMembersSorted\<close> always raises \<^verbatim>\<open>AttributeError\<close> on an enumeration
  that does not itself define \<^verbatim>\<open>_sort_key\<close>: the method it means is named \<^verbatim>\<open>_sortKey\<close>.\<close>

theorem enum_members_sorted_raises:
  "map_of decl ''_sort_key'' = None \<Longrightarrow> enum_get_members_sorted decl = Inl AttributeError"
  by (simp add: enum_get_members_sorted_def map_of_enum_class_attrs base_enum_attrs_def)

theorem enum_members_sorted_raises_witness:
  "enum_get_members_sorted (example_enum :: (string \<times> unit pval) list) = Inl AttributeError"
  by (rule enum_members_sorted_raises) (simp add: example_enum_def)

text \<open>C28: for an enumeration whose items have distinct integer values, \<^verbatim>\<open>getItemName\<close>
  of \<^verbatim>\<open>findByName(n)\<close> is \<open>n\<close> for every item name \<open>n\<close>.\<close>

theorem enum_name_roundtrip:
  assumes "(n, v) \<in> set (enum_get_members decl)" and "distinct (map snd (enum_get_members decl))"
    and "\<forall>m \<in> set (enum_get_members decl). \<exists>i. snd m = PInt i"
  shows "bindE (enum_find_by_name rt decl (PStr n)) (enum_get_item_name rt decl) = Inr (PStr n)"
proof -
  let ?ms = "enum_get_members decl"
  obtain i where v: "v = PInt i" using assms(1,3) by fastforce
  have "findE (\<lambda>m. py_eq rt (PStr (fst m)) (PStr n)) ?ms = Inr (find (\<lambda>m. fst m = n) ?ms)"
    by (rule findE_Inr_find) simp
  also have "\<dots> = Inr (Some (n, v))"
    using enum_members_names [of decl] assms(1) by (simp add: find_distinct_fst)
  finally have f: "enum_find_by_name rt decl (PStr n) = Inr v" by (simp add: enum_find_by_name_def)
  have "findE (\<lambda>m. py_eq rt (snd m) v) ?ms = Inr (find (\<lambda>m. snd m = v) ?ms)"
    using assms(3) v by (intro findE_Inr_find) auto
  also have "\<dots> = Inr (Some (n, v))" using assms(1,2) by (simp add: find_distinct_snd)
  finally show ?thesis using f by (simp add: enum_get_item_name_def)
qed

theorem enum_name_roundtrip_witness:
  "bindE (enum_find_by_name enum_rt example_enum (PStr ''Empire'')) (enum_get_item_name enum_rt example_enum) = Inr (PStr ''Empire'')"
  by (rule enum_name_roundtrip [where v = "PInt 1"])
    (simp_all add: example_enum_def enum_get_members_def enum_class_attrs_def base_enum_attrs_def)

text \<open>C29: on integer items, \<^verbatim>\<open>isAnItem(j)\<close> holds exactly when some public item has the
  value \<open>j\<close>.\<close>

theorem enum_is_an_item_iff:
  assumes "\<forall>m \<in> set (enum_get_members decl). \<exists>i. snd m = PInt i"
  shows "enum_is_an_item rt decl (PInt j) = Inr (PInt j \<in> snd ` set (enum_get_members decl))"
proof -
  have "findE (\<lambda>m. py_eq rt (snd m) (PInt j)) (enum_get_members decl) =
        Inr (find (\<lambda>m. snd m = PInt j) (enum_get_members decl))"
    using assms by (intro findE_Inr_find) auto
  moreover have "(find (\<lambda>m. snd m = PInt j) (enum_get_members decl) \<noteq> None) =
      (PInt j \<in> snd ` set (enum_get_members decl))"
    by (auto simp: find_None_iff intro: rev_image_eqI)
  ultimately show ?thesis by (simp add: enum_is_an_item_def)
qed

theorem enum_is_an_item_iff_witness:
  "enum_is_an_item enum_rt example_enum (PInt 2) = Inr True \<and> enum_is_an_item enum_rt example_enum (PInt 3) = Inr False"
proof -
  have ints: "\<forall>m \<in> set (enum_get_members (example_enum :: (string \<times> unit pval) list)). \<exists>i. snd m = PInt i"
    by (simp add: example_enum_def enum_get_members_def enum_class_attrs_def base_enum_attrs_def)
  show ?thesis
    using enum_is_an_item_iff [OF ints, of enum_rt 2] enum_is_an_item_iff [OF ints, of enum_rt 3]
    by (simp add: example_enum_def enum_get_members_def enum_class_attrs_def base_enum_attrs_def)
qed

text \<open>C30: \<^verbatim>\<open>listItemNames\<close> returns the names of the public items the subclass declares,
  sorted and without repetition; names starting with an underscore are left out.\<close>

theorem enum_list_item_names_spec:
  "\<exists>ns. enum_list_item_names decl = map PStr ns \<and> sorted ns \<and> distinct ns \<and>
     set ns = {n \<in> fst ` set decl. \<not> is_private n}"
  using enum_members_names [of decl] names_enum_members [of decl]
  by (intro exI [of _ "map fst (enum_get_members decl)"]) (simp add: enum_list_item_names_def)

text \<open>\<^verbatim>\<open>findByName\<close> answers \<^verbatim>\<open>-1\<close> both for an item whose value is \<^verbatim>\<open>-1\<close>
  and for a name that is no item: the sentinel is ambiguous.\<close>

theorem enum_find_by_name_ambiguous:
  "enum_find_by_name rt example_enum (PStr ''Neutral'') = Inr (PInt (-1)) \<and>
   enum_find_by_name rt example_enum (PStr ''Unknown'') = Inr (PInt (-1))"
  by (simp add: enum_find_by_name_def enum_get_members_def enum_class_attrs_def base_enum_attrs_def example_enum_def)

end
