(* ===== verification/FileIO.thy ===== *)
theory FileIO
  imports Entities
begin

text \<open>
  Text and file output of \<^verbatim>\<open>BaseDataObject\<close> (\<^verbatim>\<open>src/roguewarapi/data/basejsonobject.py\<close>):
  \<^verbatim>\<open>toJson\<close>, \<^verbatim>\<open>toRawJson\<close>, \<^verbatim>\<open>toFile\<close>, \<^verbatim>\<open>fromFile\<close> and the
  printing methods \<^verbatim>\<open>__str__\<close> and \<^verbatim>\<open>__unicode__\<close>.  The file system is an
  association list from path names to byte strings (\<open>8 word list\<close>).  \<^verbatim>\<open>json.dumps\<close>
  and \<^verbatim>\<open>json.loads\<close> are parameters (the library the code calls), and so is the text
  decoder \<^verbatim>\<open>bytes.decode\<close> for the three codecs \<^verbatim>\<open>_getUtfEncoding\<close> can choose.  The
  UTF-8 encoder \<^verbatim>\<open>str.encode('utf-8')\<close> that \<^verbatim>\<open>toFile\<close> applies is written out on bytes,
  with a UTF-8 decoder that inverts it.  Characters are Isabelle's 8-bit \<open>char\<close>, so the
  model's text holds the code points U+0000 to U+00FF: one or two bytes each in UTF-8.
\<close>

unbundle bit_operations_syntax

type_synonym bytes = "8 word list"
type_synonym file_store = "(string \<times> bytes) list"

text \<open>\<^verbatim>\<open>json.dumps(data, indent=i, ensure_ascii=b)\<close>: \<open>None\<close> is no \<^verbatim>\<open>indent\<close>
  argument; it raises \<^verbatim>\<open>TypeError\<close> on a value it cannot serialize.\<close>

type_synonym 'c dumps_fn = "nat option \<Rightarrow> bool \<Rightarrow> 'c pval \<Rightarrow> string result"

subsection \<open>\<^verbatim>\<open>toJson\<close> and \<^verbatim>\<open>toRawJson\<close>\<close>

definition to_json_text :: "'c dumps_fn \<Rightarrow> 'c runtime \<Rightarrow> 'c pval \<Rightarrow> bool \<Rightarrow> bool \<Rightarrow> string result" where
  "to_json_text dumps rt obj bol_pretty bAscii =
     bindE (to_json rt obj) (\<lambda>data.
       if bol_pretty then dumps (Some 4) bAscii data else dumps None bAscii data)"

definition to_raw_json :: "'c runtime \<Rightarrow> 'c pval \<Rightarrow> 'c pval result" where
  "to_raw_json rt obj = to_json rt obj"

subsection \<open>UTF-8 on bytes\<close>

text \<open>\<^verbatim>\<open>str.encode('utf-8')\<close> on one character: below U+0080 the byte itself, otherwise a
  lead byte \<open>110xxxxx\<close> with the top bits and a continuation byte \<open>10xxxxxx\<close> with the
  low six bits.\<close>

definition utf8_char :: "char \<Rightarrow> bytes" where
  "utf8_char ch = (let n = (word_of_nat (of_char ch) :: 8 word) in
     if n < 0x80 then [n] else [0xC0 OR drop_bit 6 n, 0x80 OR (n AND 0x3F)])"

definition utf8_encode :: "string \<Rightarrow> bytes" where
  "utf8_encode s = concat (map utf8_char s)"

text \<open>\<^verbatim>\<open>bytes.decode('utf-8')\<close> for text in the model's range: an ASCII byte, or a lead
  byte \<open>0xC2\<close>/\<open>0xC3\<close> and a continuation byte.  \<open>None\<close> is a \<^verbatim>\<open>UnicodeDecodeError\<close>
  (a stray continuation byte, a missing one, the overlong leads \<open>0xC0\<close>/\<open>0xC1\<close>) or a
  character above U+00FF.\<close>

definition utf8_two :: "8 word \<Rightarrow> 8 word \<Rightarrow> char" where
  "utf8_two b b2 = char_of (unat (push_bit 6 (b AND 0x1F) OR (b2 AND 0x3F)))"

fun utf8_decode :: "bytes \<Rightarrow> string option" where
  "utf8_decode [] = Some []"
| "utf8_decode [b] = (if b < 0x80 then Some [char_of (unat b)] else None)"
| "utf8_decode (b # b2 # bs) =
     (if b < 0x80 then map_option (Cons (char_of (unat b))) (utf8_decode (b2 # bs))
      else if 0xC2 \<le> b \<and> b \<le> 0xC3 \<and> b2 AND 0xC0 = 0x80
      then map_option (Cons (utf8_two b b2)) (utf8_decode bs)
      else None)"

subsection \<open>\<^verbatim>\<open>toFile\<close> and \<^verbatim>\<open>fromFile\<close>\<close>

text \<open>\<^verbatim>\<open>toFile(str_name)\<close>: \<^verbatim>\<open>toJson(True, False)\<close> (indent 4, non-ASCII characters
  kept), encoded as UTF-8 and written to the file, which is created or overwritten.  An
  exception of \<^verbatim>\<open>toJson\<close> is raised before the file is opened.\<close>

definition to_file :: "'c dumps_fn \<Rightarrow> 'c runtime \<Rightarrow> 'c pval \<Rightarrow> string \<Rightarrow> file_store \<Rightarrow> file_store result" where
  "to_file dumps rt obj str_name fs =
     bindE (to_json_text dumps rt obj True False) (\<lambda>str_data.
       Inr (AList.update str_name (utf8_encode str_data) fs))"

text \<open>\<^verbatim>\<open>fromFile(str_name)\<close> on an instance of class \<open>c\<close> with attributes \<open>a\<close>: a missing
  file raises \<^verbatim>\<open>OSError\<close>; the bytes are decoded with the codec
  \<^verbatim>\<open>_getUtfEncoding\<close> picks, a failure raising \<^verbatim>\<open>UnicodeDecodeError\<close>; then
  \<^verbatim>\<open>fromJson\<close> runs on the text and its result is dropped: \<^verbatim>\<open>fromFile\<close> returns
  \<^verbatim>\<open>None\<close>, and the model returns the instance's attributes afterwards.\<close>

definition from_file :: "(utf_codec \<Rightarrow> bytes \<Rightarrow> string option) \<Rightarrow> (string \<Rightarrow> 'c pval option) \<Rightarrow>
    'c runtime \<Rightarrow> 'c \<Rightarrow> 'c attrs \<Rightarrow> file_store \<Rightarrow> string \<Rightarrow> 'c attrs result" where
  "from_file decode loads rt c a fs str_name =
     (case map_of fs str_name of
        None \<Rightarrow> Inl OSError
      | Some data \<Rightarrow> (case decode (get_utf_encoding data) data of
          None \<Rightarrow> Inl UnicodeDecodeError
        | Some text \<Rightarrow> bindE (from_json_top loads rt c a (PStr text)) (\<lambda>r. Inr (snd r))))"


subsection \<open>Printing: \<^verbatim>\<open>__str__\<close> and \<^verbatim>\<open>__unicode__\<close>\<close>

text \<open>Both list the members \<^verbatim>\<open>_get_members\<close> returns (properties left out, since
  \<^verbatim>\<open>_StrShowProps\<close> is \<^verbatim>\<open>False\<close> in every class), one line \<open>name : value\<close>
  each, a \<^verbatim>\<open>None\<close> value printed as nothing.  \<^verbatim>\<open>str()\<close> of a value is a parameter.
  \<^verbatim>\<open>__unicode__\<close> appends a string value itself: its \<^verbatim>\<open>isinstance\<close> test looks up
  a class attribute of the member's name first, and no class declares one.\<close>

definition str_line :: "('c pval \<Rightarrow> string) \<Rightarrow> string \<times> 'c pval \<Rightarrow> string" where
  "str_line str_of member =
     (if snd member = PNone then fst member @ '' : '' @ [CHR 0x0A]
      else fst member @ '' : '' @ str_of (snd member) @ [CHR 0x0A])"

definition obj_str :: "('c pval \<Rightarrow> string) \<Rightarrow> 'c runtime \<Rightarrow> 'c \<Rightarrow> 'c attrs \<Rightarrow> string result" where
  "obj_str str_of rt c a = bindE (get_members rt c a) (\<lambda>lst_members.
     Inr (foldl (\<lambda>str_to_return member. str_to_return @ str_line str_of member) [] lst_members))"

definition unicode_line :: "('c pval \<Rightarrow> string) \<Rightarrow> string \<times> 'c pval \<Rightarrow> string" where
  "unicode_line str_of member =
     (if snd member = PNone then fst member @ '' : '' @ [CHR 0x0A]
      else (case snd member of
        PStr s \<Rightarrow> fst member @ '' : '' @ s @ [CHR 0x0A]
      | v \<Rightarrow> fst member @ '' : '' @ str_of v @ [CHR 0x0A]))"

definition obj_unicode :: "('c pval \<Rightarrow> string) \<Rightarrow> 'c runtime \<Rightarrow> 'c \<Rightarrow> 'c attrs \<Rightarrow> string result" where
  "obj_unicode str_of rt c a = bindE (get_members rt c a) (\<lambda>lst_members.
     Inr (foldl (\<lambda>str_to_return member. str_to_return @ unicode_line str_of member) [] lst_members))"

subsection \<open>What JSON text keeps of a value\<close>

text \<open>\<^verbatim>\<open>json.loads(json.dumps(v))\<close> is not \<open>v\<close>: JSON has arrays and no tuples, so a
  tuple comes back as a list, and an object is read into a \<^verbatim>\<open>dict\<close>, where a repeated key
  keeps the position of its first occurrence and the value of its last.  \<open>json_norm\<close> is that
  normal form; the file claims assume of the library only that \<^verbatim>\<open>loads\<close> returns it.\<close>

definition py_dict :: "(string \<times> 'c pval) list \<Rightarrow> (string \<times> 'c pval) list" where
  "py_dict kvs = foldl (\<lambda>d kv. AList.update (fst kv) (snd kv) d) [] kvs"

fun json_norm :: "'c pval \<Rightarrow> 'c pval" where
  "json_norm (PList xs) = PList (map json_norm xs)"
| "json_norm (PTuple xs) = PList (map json_norm xs)"
| "json_norm (PDict kvs) = PDict (py_dict (map (\<lambda>kv. (fst kv, json_norm (snd kv))) kvs))"
| "json_norm v = v"

text \<open>Two star systems for the examples: a fresh one, whose \<^verbatim>\<open>Players\<close> is the tuple
  \<open>(0,)\<close>, and one with the number 0, with the trees \<^verbatim>\<open>_toJson\<close> gives for them.\<close>

definition fresh_system_json :: "cls pval" where
  "fresh_system_json = PDict [(''Players'', PTuple [PInt 0]), (''immuneFromWar'', PBool False), (''markerType'', PInt 0),
     (''name'', PStr ''''), (''owner'', PStr ''''), (''factions'', PList [])]"

definition system0 :: "cls attrs" where
  "system0 = [(''Players'', PInt 0), (''_fctCtl'', PList []), (''immuneFromWar'', PBool False),
     (''markerType'', PInt 0), (''name'', PStr ''Sol''), (''owner'', PStr '''')]"

definition system0_json :: "cls pval" where
  "system0_json = PDict [(''Players'', PInt 0), (''immuneFromWar'', PBool False), (''markerType'', PInt 0),
     (''name'', PStr ''Sol''), (''owner'', PStr ''''), (''factions'', PList [])]"

subsection \<open>Lemmas on the UTF-8 bytes\<close>

lemma below_8_cases: "(i :: nat) < 8 \<Longrightarrow> i = 0 \<or> i = 1 \<or> i = 2 \<or> i = 3 \<or> i = 4 \<or> i = 5 \<or> i = 6 \<or> i = 7"
  by auto

lemma char_of_utf8_byte: "char_of (unat (word_of_nat (of_char c) :: 8 word)) = c"
  by (simp add: unat_of_nat of_char_mod_256)

lemma utf8_lead_bits: "0x80 \<le> (n :: 8 word) \<Longrightarrow> drop_bit 6 n = 2 \<or> drop_bit 6 n = 3"
proof -
  assume "0x80 \<le> n"
  then have "128 \<le> unat n" by (simp add: word_le_nat_alt)
  moreover have "unat n < 256" using unsigned_less [of n] by simp
  ultimately have "unat (drop_bit 6 n) = 2 \<or> unat (drop_bit 6 n) = 3"
    unfolding unat_drop_bit_eq by (simp add: drop_bit_eq_div) linarith
  then show ?thesis by (simp add: word_unat_eq_iff)
qed

lemma utf8_cont_tag: "(0x80 OR (n AND 0x3F)) AND 0xC0 = (0x80 :: 8 word)"
  by (rule bit_word_eqI) (auto simp: bit_simps dest!: below_8_cases)

lemma utf8_two_char: "utf8_two (0xC0 OR drop_bit 6 n) (0x80 OR (n AND 0x3F)) = char_of (unat n)"
proof -
  have "push_bit 6 ((0xC0 OR drop_bit 6 n) AND 0x1F) OR ((0x80 OR (n AND 0x3F)) AND 0x3F) = (n :: 8 word)"
    by (rule bit_word_eqI) (auto simp: bit_simps dest!: below_8_cases)
  then show ?thesis by (simp only: utf8_two_def)
qed

lemma utf8_decode_char: "utf8_decode (utf8_char c @ bs) = map_option (Cons c) (utf8_decode bs)"
proof (cases "(word_of_nat (of_char c) :: 8 word) < 0x80")
  case True
  then show ?thesis
    by (cases bs) (simp_all add: utf8_char_def char_of_utf8_byte)
next
  case False
  let ?n = "word_of_nat (of_char c) :: 8 word"
  from False have "0x80 \<le> ?n" by simp
  then have "drop_bit 6 ?n = 2 \<or> drop_bit 6 ?n = 3" by (rule utf8_lead_bits)
  then have "0xC2 \<le> 0xC0 OR drop_bit 6 ?n \<and> 0xC0 OR drop_bit 6 ?n \<le> (0xC3 :: 8 word) \<and>
             \<not> 0xC0 OR drop_bit 6 ?n < (0x80 :: 8 word)"
    by auto
  with False show ?thesis
    by (simp add: utf8_char_def Let_def utf8_cont_tag utf8_two_char char_of_utf8_byte)
qed

lemma utf8_decode_encode: "utf8_decode (utf8_encode s) = Some s"
  by (induction s) (simp_all add: utf8_encode_def utf8_decode_char)

lemma utf8_byte_char: "unat b < 256 \<Longrightarrow> (word_of_nat (of_char (char_of (unat b))) :: 8 word) = b"
  by (simp add: of_char_of)

lemma utf8_lead_cases: "0xC2 \<le> b \<Longrightarrow> b \<le> (0xC3 :: 8 word) \<Longrightarrow> b = 0xC2 \<or> b = 0xC3"
proof -
  assume "0xC2 \<le> b" "b \<le> 0xC3"
  then have "194 \<le> unat b" "unat b \<le> 195" by (simp_all add: word_le_nat_alt)
  then have "unat b = 194 \<or> unat b = 195" by linarith
  then show ?thesis by (simp add: word_unat_eq_iff)
qed

lemma utf8_cont_bits: "b2 AND 0xC0 = (0x80 :: 8 word) \<Longrightarrow> bit b2 7 \<and> \<not> bit b2 6"
proof -
  assume h: "b2 AND 0xC0 = 0x80"
  have "bit (b2 AND 0xC0) 7 = bit (0x80 :: 8 word) 7" "bit (b2 AND 0xC0) 6 = bit (0x80 :: 8 word) 6"
    by (simp_all only: h)
  then show ?thesis by (simp add: bit_simps)
qed

lemma bit7_not_ascii: "bit (w :: 8 word) 7 \<Longrightarrow> \<not> w < 0x80"
proof
  assume "bit w 7" "w < 0x80"
  from \<open>bit w 7\<close> have "bit (unat w) 7" by (simp add: bit_unsigned_iff)
  then have "odd (unat w div 2 ^ 7)" by (simp add: bit_nat_def)
  moreover from \<open>w < 0x80\<close> have "unat w < 128" by (simp add: word_less_nat_alt)
  ultimately show False by simp
qed

lemma utf8_two_encode:
  assumes "0xC2 \<le> b" "b \<le> 0xC3" "b2 AND 0xC0 = 0x80"
  shows "utf8_char (utf8_two b b2) = [b, b2]"
proof -
  let ?n = "push_bit 6 (b AND 0x1F) OR (b2 AND 0x3F) :: 8 word"
  from assms(3) have c: "bit b2 7" "\<not> bit b2 6" by (simp_all add: utf8_cont_bits)
  have lo: "0x80 OR (?n AND 0x3F) = b2"
    by (rule bit_word_eqI) (use c in \<open>auto simp: bit_simps dest!: below_8_cases\<close>)
  from assms(1,2) have "b = 0xC2 \<or> b = 0xC3" by (rule utf8_lead_cases)
  then have hi: "0xC0 OR drop_bit 6 ?n = b \<and> \<not> ?n < 0x80"
  proof
    assume "b = 0xC2"
    moreover have "drop_bit 6 (push_bit 6 (0xC2 AND 0x1F) OR (b2 AND 0x3F)) = (2 :: 8 word)"
      by (rule bit_word_eqI) (auto simp: bit_simps dest!: below_8_cases)
    moreover have "bit (push_bit 6 (0xC2 AND 0x1F) OR (b2 AND 0x3F) :: 8 word) 7"
      by (simp add: bit_simps)
    ultimately show ?thesis by (auto dest: bit7_not_ascii)
  next
    assume "b = 0xC3"
    moreover have "drop_bit 6 (push_bit 6 (0xC3 AND 0x1F) OR (b2 AND 0x3F)) = (3 :: 8 word)"
      by (rule bit_word_eqI) (auto simp: bit_simps dest!: below_8_cases)
    moreover have "bit (push_bit 6 (0xC3 AND 0x1F) OR (b2 AND 0x3F) :: 8 word) 7"
      by (simp add: bit_simps)
    ultimately show ?thesis by (auto dest: bit7_not_ascii)
  qed
  have "unat ?n < 256" using unsigned_less [of ?n] by simp
  then show ?thesis
    using lo hi by (simp add: utf8_char_def utf8_two_def utf8_byte_char)
qed

lemma utf8_ascii_encode: "b < 0x80 \<Longrightarrow> utf8_char (char_of (unat b)) = [b]"
proof -
  assume "b < 0x80"
  moreover have "unat b < 256" using unsigned_less [of b] by simp
  ultimately show ?thesis by (simp add: utf8_char_def utf8_byte_char)
qed

lemma utf8_decode_Some: "utf8_decode bs = Some s \<Longrightarrow> bs = utf8_encode s"
proof (induction bs arbitrary: s rule: utf8_decode.induct)
  case 1
  then show ?case by (simp add: utf8_encode_def)
next
  case (2 b)
  then show ?case by (auto simp: utf8_encode_def utf8_ascii_encode split: if_splits)
next
  case (3 b b2 bs)
  then show ?case
    by (auto simp: utf8_encode_def utf8_ascii_encode utf8_two_encode split: if_splits)
qed

lemma utf8_char_bytes:
  "0xFE \<notin> set (utf8_char c) \<and> 0xFF \<notin> set (utf8_char c) \<and> 1 \<le> length (utf8_char c) \<and> length (utf8_char c) \<le> 2"
proof (cases "(word_of_nat (of_char c) :: 8 word) < 0x80")
  case True
  then show ?thesis by (auto simp: utf8_char_def)
next
  case False
  let ?n = "word_of_nat (of_char c) :: 8 word"
  from False have "drop_bit 6 ?n = 2 \<or> drop_bit 6 ?n = 3" by (simp add: utf8_lead_bits)
  moreover have "0x80 OR (?n AND 0x3F) \<noteq> 0xFE" "0x80 OR (?n AND 0x3F) \<noteq> 0xFF"
    using utf8_cont_tag [of ?n] by auto
  ultimately show ?thesis using False by (auto simp: utf8_char_def)
qed

lemma utf8_encode_bytes:
  "0xFE \<notin> set (utf8_encode s) \<and> 0xFF \<notin> set (utf8_encode s) \<and>
   length s \<le> length (utf8_encode s) \<and> length (utf8_encode s) \<le> 2 * length s"
proof (induction s)
  case (Cons ch s)
  then show ?case using utf8_char_bytes [of ch] by (simp add: utf8_encode_def)
qed (simp add: utf8_encode_def)

lemma get_utf_encoding_no_FE: "0xFE \<notin> set bs \<Longrightarrow> get_utf_encoding bs = UTF8"
  by (auto simp: get_utf_encoding_def BOM_UTF32_BE_def BOM_UTF32_LE_def BOM_UTF16_BE_def
      BOM_UTF16_LE_def dest!: set_mono_prefix)

lemma get_utf_encoding_utf8_encode: "get_utf_encoding (utf8_encode s) = UTF8"
  using utf8_encode_bytes [of s] by (simp add: get_utf_encoding_no_FE)

subsection \<open>Lemmas on the file operations\<close>

lemma to_json_PObj_dict: "to_json rt (PObj c a) = Inr j \<Longrightarrow> \<exists>d. j = PDict d"
  by (auto simp: bindE_eq_Inr)

lemma to_file_Inr:
  "to_file dumps rt obj p fs = Inr fs' \<longleftrightarrow>
   (\<exists>data t. to_json rt obj = Inr data \<and> dumps (Some 4) False data = Inr t \<and>
      fs' = AList.update p (utf8_encode t) fs)"
  by (auto simp: to_file_def to_json_text_def bindE_eq_Inr)

lemma from_file_text:
  "map_of fs p = Some (utf8_encode t) \<Longrightarrow> decode UTF8 (utf8_encode t) = Some t \<Longrightarrow>
   from_file decode loads rt c a fs p = bindE (from_json_top loads rt c a (PStr t)) (\<lambda>r. Inr (snd r))"
  by (simp add: from_file_def get_utf_encoding_utf8_encode)

lemma from_file_to_file:
  assumes "\<forall>v s. dumps (Some 4) False v = Inr s \<longrightarrow> loads s = Some (json_norm v)"
    and "\<forall>s. decode UTF8 (utf8_encode s) = Some s"
    and "to_json rt (PObj c a) = Inr data"
    and "to_file dumps rt (PObj c a) path fs = Inr fs'"
  shows "from_file decode loads rt c a0 fs' path = bindE (from_json rt c a0 (json_norm data)) (\<lambda>r. Inr (snd r))"
proof -
  from assms(3,4) obtain t where dt: "dumps (Some 4) False data = Inr t"
      and fs': "fs' = AList.update path (utf8_encode t) fs"
    by (auto simp: to_file_Inr)
  from assms(3) obtain d where "data = PDict d" by (blast dest: to_json_PObj_dict)
  moreover from assms(1) dt have "loads t = Some (json_norm data)" by blast
  ultimately show ?thesis
    using assms(2) by (simp add: fs' from_file_text update_conv' from_json_top_def)
qed

lemma fresh_system_to_json:
  "to_json rt_ex (PObj StarSystem (cinit starsystem_info)) = Inr fresh_system_json"
  by (simp add: rt_ex_def repo_rt_def fresh_system_json_def to_json_PObj to_json_sub_def get_members_def
      repo_info_defs eval_props_def public_member_def mk_submap_def put_member_def)

lemma system0_to_json: "to_json rt_ex (PObj StarSystem system0) = Inr system0_json"
  by (simp add: rt_ex_def repo_rt_def system0_def system0_json_def to_json_PObj to_json_sub_def get_members_def
      repo_info_defs eval_props_def public_member_def mk_submap_def put_member_def)

lemma wf_system0: "wf_obj rt_ex (PObj StarSystem system0)"
  by (simp add: wf_obj_PObj system0_def rt_ex_def class_ok_def member_names_def obj_ok_def repo_info_defs
      eval_props_def prop_pretty_name_def public_member_def mk_submap_def)

lemma system0_json_norm: "json_norm system0_json = system0_json"
  by (simp add: system0_json_def py_dict_def)

subsection \<open>Lemmas on printing\<close>

lemma unicode_line_str_line:
  "\<forall>s. str_of (PStr s) = s \<Longrightarrow> unicode_line str_of m = str_line str_of m"
  by (auto simp: unicode_line_def str_line_def split: pval.split)

lemma obj_unicode_eq_str:
  "\<forall>s. str_of (PStr s) = s \<Longrightarrow> obj_unicode str_of rt c a = obj_str str_of rt c a"
proof -
  assume "\<forall>s. str_of (PStr s) = s"
  then have "unicode_line str_of = str_line str_of" by (intro ext unicode_line_str_line)
  then show ?thesis unfolding obj_unicode_def obj_str_def by (rule arg_cong)
qed

subsection \<open>Properties of text and file output\<close>

text \<open>The UTF-8 decoder and encoder are inverse: a byte string decodes to a
  text exactly when it is that text's encoding, so \<^verbatim>\<open>toFile\<close>'s bytes read back as the
  text written and no other byte string reads as that text.\<close>

theorem utf8_roundtrip: "utf8_decode bs = Some s \<longleftrightarrow> bs = utf8_encode s"
  using utf8_decode_Some utf8_decode_encode by blast

text \<open>C5: \<^verbatim>\<open>fromFile\<close> on a fresh instance of the class, reading the file
  \<^verbatim>\<open>toFile\<close> wrote for an instance, amounts to \<^verbatim>\<open>_fromJson\<close> of the tree
  \<^verbatim>\<open>_toJson\<close> gave, in the normal form JSON text keeps of it (tuples become lists);
  for a well-formed instance whose tree is already in normal form it rebuilds the instance
  exactly.  The library is assumed to read back that normal form, and the UTF-8 decoder to
  invert the encoder.  A fresh \<^verbatim>\<open>StarSystem\<close> does not survive: its \<^verbatim>\<open>Players\<close>
  tuple \<open>(0,)\<close> comes back as the list \<open>[0]\<close>.\<close>

theorem to_file_from_file:
  assumes "\<forall>v s. dumps (Some 4) False v = Inr s \<longrightarrow> loads s = Some (json_norm v)"
    and "\<forall>s. decode UTF8 (utf8_encode s) = Some s"
    and "to_json rt (PObj c a) = Inr data"
    and "to_file dumps rt (PObj c a) path fs = Inr fs'"
  shows "from_file decode loads rt c (cinit (classes rt c)) fs' path =
           bindE (from_json rt c (cinit (classes rt c)) (json_norm data)) (\<lambda>r. Inr (snd r)) \<and>
         (wf_obj rt (PObj c a) \<and> json_norm data = data \<longrightarrow>
           from_file decode loads rt c (cinit (classes rt c)) fs' path = Inr a)"
proof -
  have ff: "from_file decode loads rt c (cinit (classes rt c)) fs' path =
           bindE (from_json rt c (cinit (classes rt c)) (json_norm data)) (\<lambda>r. Inr (snd r))"
    using assms by (rule from_file_to_file)
  moreover have "from_file decode loads rt c (cinit (classes rt c)) fs' path = Inr a"
    if "wf_obj rt (PObj c a)" "json_norm data = data"
    using ff that assms(3) by (auto dest!: wf_obj_roundtrip)
  ultimately show ?thesis by blast
qed

theorem to_file_from_file_witness:
  "to_file (\<lambda>i b v. if v = fresh_system_json then Inr ''{}'' else Inl TypeError) rt_ex
      (PObj StarSystem (cinit starsystem_info)) ''s.json'' [] = Inr [(''s.json'', utf8_encode ''{}'')] \<and>
   from_file (\<lambda>_ bs. utf8_decode bs) (\<lambda>s. if s = ''{}'' then Some (json_norm fresh_system_json) else None)
      rt_ex StarSystem (cinit (classes rt_ex StarSystem)) [(''s.json'', utf8_encode ''{}'')] ''s.json'' =
     Inr [(''Players'', PList [PInt 0]), (''_fctCtl'', PList []), (''immuneFromWar'', PBool False),
          (''markerType'', PInt 0), (''name'', PStr ''''), (''owner'', PStr '''')] \<and>
   from_file (\<lambda>_ bs. utf8_decode bs) (\<lambda>s. if s = ''{}'' then Some system0_json else None)
      rt_ex StarSystem (cinit (classes rt_ex StarSystem)) [(''t.json'', utf8_encode ''{}'')] ''t.json'' =
     Inr system0"
proof -
  have tf: "to_file (\<lambda>i b v. if v = fresh_system_json then Inr ''{}'' else Inl TypeError) rt_ex
      (PObj StarSystem (cinit starsystem_info)) ''s.json'' [] = Inr [(''s.json'', utf8_encode ''{}'')]"
    unfolding to_file_def to_json_text_def fresh_system_to_json by simp
  have "from_file (\<lambda>_ bs. utf8_decode bs) (\<lambda>s. if s = ''{}'' then Some (json_norm fresh_system_json) else None)
      rt_ex StarSystem (cinit (classes rt_ex StarSystem)) [(''s.json'', utf8_encode ''{}'')] ''s.json'' =
      bindE (from_json rt_ex StarSystem (cinit (classes rt_ex StarSystem)) (json_norm fresh_system_json))
        (\<lambda>r. Inr (snd r))"
    using to_file_from_file [of "\<lambda>i b v. if v = fresh_system_json then Inr ''{}'' else Inl TypeError"
        "\<lambda>s. if s = ''{}'' then Some (json_norm fresh_system_json) else None" "\<lambda>_ bs. utf8_decode bs"
        rt_ex StarSystem "cinit starsystem_info" fresh_system_json "''s.json''" "[]"
        "[(''s.json'', utf8_encode ''{}'')]"]
      fresh_system_to_json tf utf8_decode_encode
    by (simp add: rt_ex_def repo_rt_def repo_info_defs)
  also have "\<dots> = Inr [(''Players'', PList [PInt 0]), (''_fctCtl'', PList []), (''immuneFromWar'', PBool False),
          (''markerType'', PInt 0), (''name'', PStr ''''), (''owner'', PStr '''')]"
    by (simp add: rt_ex_def repo_rt_def fresh_system_json_def py_dict_def from_json_unfold get_members_def
        repo_info_defs eval_props_def public_member_def mk_submap_def sub_source_def from_json_sub_def
        load_child_def read_member_def setattr_def)
  finally have fresh: "from_file (\<lambda>_ bs. utf8_decode bs)
      (\<lambda>s. if s = ''{}'' then Some (json_norm fresh_system_json) else None)
      rt_ex StarSystem (cinit (classes rt_ex StarSystem)) [(''s.json'', utf8_encode ''{}'')] ''s.json'' =
     Inr [(''Players'', PList [PInt 0]), (''_fctCtl'', PList []), (''immuneFromWar'', PBool False),
          (''markerType'', PInt 0), (''name'', PStr ''''), (''owner'', PStr '''')]" .
  have tf0: "to_file (\<lambda>i b v. if v = system0_json then Inr ''{}'' else Inl TypeError) rt_ex
      (PObj StarSystem system0) ''t.json'' [] = Inr [(''t.json'', utf8_encode ''{}'')]"
    unfolding to_file_def to_json_text_def system0_to_json by simp
  have "from_file (\<lambda>_ bs. utf8_decode bs) (\<lambda>s. if s = ''{}'' then Some system0_json else None)
      rt_ex StarSystem (cinit (classes rt_ex StarSystem)) [(''t.json'', utf8_encode ''{}'')] ''t.json'' =
     Inr system0"
  proof -
    have c0: "\<forall>v s. (if v = system0_json then Inr ''{}'' else Inl TypeError) = Inr s \<longrightarrow>
        (if s = ''{}'' then Some system0_json else None) = Some (json_norm v)"
      using system0_json_norm by auto
    have d0: "\<forall>s. utf8_decode (utf8_encode s) = Some s" by (simp add: utf8_decode_encode)
    show ?thesis
      using to_file_from_file [OF c0 d0 system0_to_json tf0] wf_system0 system0_json_norm by blast
  qed
  with tf fresh show ?thesis by blast
qed


text \<open>C6: \<^verbatim>\<open>fromFile\<close> raises \<^verbatim>\<open>OSError\<close> for a missing file and
  \<^verbatim>\<open>UnicodeDecodeError\<close> for bytes the chosen codec rejects, but returns normally, with the
  instance unchanged, when the text does not parse: the \<^verbatim>\<open>False\<close> of \<^verbatim>\<open>fromJson\<close> is
  dropped, so the caller cannot tell a failed load from a successful one.\<close>

theorem from_file_outcomes:
  "(map_of fs p = None \<longrightarrow> from_file decode loads rt c a fs p = Inl OSError) \<and>
   (map_of fs p = Some bs \<and> decode (get_utf_encoding bs) bs = None \<longrightarrow>
      from_file decode loads rt c a fs p = Inl UnicodeDecodeError) \<and>
   (map_of fs p = Some bs \<and> decode (get_utf_encoding bs) bs = Some t \<and> loads t = None \<longrightarrow>
      from_file decode loads rt c a fs p = Inr a)"
  by (simp add: from_file_def from_json_top_def)

theorem from_file_outcomes_witness:
  "from_file (\<lambda>_ bs. utf8_decode bs) (\<lambda>_. None) rt_ex StarMap [] [(''a.json'', [0xFF])] ''b.json'' = Inl OSError \<and>
   from_file (\<lambda>_ bs. utf8_decode bs) (\<lambda>_. None) rt_ex StarMap [] [(''a.json'', [0xFF])] ''a.json'' =
     Inl UnicodeDecodeError \<and>
   from_file (\<lambda>_ bs. utf8_decode bs) (\<lambda>_. None :: cls pval option) rt_ex StarMap [] [(''a.json'', [0x7B])] ''a.json'' = Inr []"
  using from_file_outcomes [of "[(''a.json'', [0xFF])]" "''b.json''" "\<lambda>_ bs. utf8_decode bs" "\<lambda>_. None" rt_ex StarMap "[]"]
    from_file_outcomes [of "[(''a.json'', [0xFF])]" "''a.json''" "\<lambda>_ bs. utf8_decode bs" "\<lambda>_. None" rt_ex StarMap "[]" "[0xFF]"]
    from_file_outcomes [of "[(''a.json'', [0x7B])]" "''a.json''" "\<lambda>_ bs. utf8_decode bs" "\<lambda>_. None" rt_ex StarMap "[]" "[0x7B]" "[char_of (123::nat)]"]
  by (simp_all add: get_utf_encoding_def BOM_UTF32_BE_def BOM_UTF32_LE_def BOM_UTF16_BE_def BOM_UTF16_LE_def)

text \<open>C33: a faction-control record whose JSON gives a \<^verbatim>\<open>Name\<close> that is not a string
  (\<^verbatim>\<open>null\<close>, a number, a list, ...) loads: \<^verbatim>\<open>_fromJson\<close> assigns it and returns
  \<^verbatim>\<open>True\<close>.  But no record whose \<^verbatim>\<open>Name\<close> is such a value can be serialized or
  printed: \<^verbatim>\<open>inspect.getmembers\<close> evaluates the \<^verbatim>\<open>prettyName\<close> property, whose
  \<^verbatim>\<open>re.sub\<close> raises \<^verbatim>\<open>TypeError\<close>, so \<^verbatim>\<open>_toJson\<close> and \<^verbatim>\<open>__str__\<close> raise.\<close>

theorem faction_null_name_breaks_output:
  assumes "\<forall>s. v \<noteq> PStr s"
  shows "from_json (repo_rt enc dec) FactionControl (cinit fctcontrol_info) (PDict [(''Name'', v)]) =
       Inr (True, [(''Name'', v), (''control'', PStr ''''), (''ActivePlayers'', PInt 0)]) \<and>
     (\<forall>a. map_of a ''Name'' = Some v \<longrightarrow>
        to_json (repo_rt enc dec) (PObj FactionControl a) = Inl TypeError \<and>
        obj_str str_of (repo_rt enc dec) FactionControl a = Inl TypeError)"
proof -
  have "from_json (repo_rt enc dec) FactionControl (cinit fctcontrol_info) (PDict [(''Name'', v)]) =
       Inr (True, [(''Name'', v), (''control'', PStr ''''), (''ActivePlayers'', PInt 0)])"
    by (simp add: repo_rt_def from_json_unfold get_members_def repo_info_defs eval_props_def
        prop_pretty_name_def public_member_def read_member_def setattr_def)
  moreover have "get_members (repo_rt enc dec) FactionControl a = Inl TypeError"
    if "map_of a ''Name'' = Some v" for a
    using that assms by (cases v) (simp_all add: repo_rt_def get_members_def repo_info_defs
        eval_props_def prop_pretty_name_def getattr_def)
  ultimately show ?thesis by (simp add: obj_str_def)
qed

theorem faction_null_name_breaks_output_witness:
  "from_json (repo_rt (\<lambda>_. Inl ValueError) (\<lambda>_. Inl ValueError)) FactionControl (cinit fctcontrol_info)
       (PDict [(''Name'', PNone)]) =
     Inr (True, [(''Name'', PNone), (''control'', PStr ''''), (''ActivePlayers'', PInt 0)]) \<and>
   to_json (repo_rt (\<lambda>_. Inl ValueError) (\<lambda>_. Inl ValueError))
     (PObj FactionControl [(''Name'', PNone), (''control'', PStr ''''), (''ActivePlayers'', PInt 0)]) = Inl TypeError \<and>
   obj_str (\<lambda>_. []) (repo_rt (\<lambda>_. Inl ValueError) (\<lambda>_. Inl ValueError)) FactionControl
     [(''Name'', PNone), (''control'', PStr ''''), (''ActivePlayers'', PInt 0)] = Inl TypeError"
  using faction_null_name_breaks_output [of PNone "\<lambda>_. Inl ValueError" "\<lambda>_. Inl ValueError" "\<lambda>_. []"]
  by simp

end
