(* ===== verification/Spec2Isabelle.thy ===== *)
theory Spec2Isabelle
  imports Client BaseEnum FileIO
begin

text \<open>
  \<^bold>\<open>A verification model of roguewarapi.\<close>

  The library is a Python client for the RogueWar game service.  It has four parts that
  interact: a generic JSON (de)serializer (\<^verbatim>\<open>src/roguewarapi/data/basejsonobject.py\<close>)
  that every data class inherits; the data classes themselves (\<^verbatim>\<open>factioncontrol.py\<close>,
  \<^verbatim>\<open>starsystem.py\<close>, \<^verbatim>\<open>starmap.py\<close>, \<^verbatim>\<open>starsystemconst.py\<close>,
  \<^verbatim>\<open>globaldata.py\<close>), among them \<^verbatim>\<open>StarMapConstants\<close> with its adjacency computation
  \<^verbatim>\<open>mapAdjacents\<close>; an expiring cache (\<^verbatim>\<open>objectcache.py\<close>); and the API client
  \<^verbatim>\<open>RogueWarApi\<close> (\<^verbatim>\<open>src/roguewarapi/roguewarapi.py\<close>), which fetches JSON over HTTP,
  re-authenticates once on a 401, fills data objects with \<^verbatim>\<open>fromJson\<close>, keeps the star
  map in the cache and the system constants in an attribute.

  \<^bold>\<open>Theories.\<close>
  \<^item> \<open>Prelude\<close>: the exception type \<open>pyexn\<close> and the result type \<open>pyexn + 'a\<close>; the loop
    combinators \<open>bindE\<close>, \<open>mapE\<close>, \<open>foldE\<close>, \<open>allE\<close>, \<open>filterE\<close>, \<open>findE\<close> (a Python
    \<^verbatim>\<open>for\<close> loop that stops at the first exception) with their congruence and evaluation
    lemmas; association lists as Python dicts (\<open>AList.update\<close> is \<^verbatim>\<open>d[k] = v\<close>).
  \<^item> \<open>PyValue\<close>: the Python values the code handles (\<open>pval\<close>: JSON values, tuples and
    instances \<open>PObj class attrs\<close>, the class a type parameter) and the operators applied to
    them: \<^verbatim>\<open>in\<close> (\<open>py_in\<close>), subscription (\<open>py_getitem\<close>), iteration (\<open>py_iter\<close>),
    \<open>getattr\<close>/\<open>setattr\<close>, each with the exception CPython raises.
  \<^item> \<open>BaseJson\<close>: \<^verbatim>\<open>BaseDataObject\<close> over a class table (\<open>classinfo\<close>, \<open>runtime\<close>):
    \<open>get_members\<close> (\<^verbatim>\<open>_get_members\<close>), \<open>to_json\<close> (\<^verbatim>\<open>_toJson\<close>), \<open>from_json\<close>
    (\<^verbatim>\<open>_fromJson\<close>), \<open>from_json_top\<close> (\<^verbatim>\<open>fromJson\<close>, with \<^verbatim>\<open>json.loads\<close> a
    parameter), \<open>py_eq\<close> (\<^verbatim>\<open>__eq__\<close>/\<^verbatim>\<open>__ne__\<close> and Python \<^verbatim>\<open>==\<close>),
    \<open>is_of_type\<close>, \<open>get_utf_encoding\<close> (\<^verbatim>\<open>_getUtfEncoding\<close> on \<open>8 word\<close> bytes) and
    \<open>mk_submap\<close> (\<^verbatim>\<open>SubObjectMap\<close>).  \<open>to_json\<close>, \<open>from_json\<close> and \<open>py_eq\<close> recurse
    into nested instances; they are total (\<^theory_text>\<open>function\<close> with a \<open>size\<close> measure).
  \<^item> \<open>RoundTrip\<close>: the well-formedness of instances (\<open>class_ok\<close>, \<open>obj_ok\<close>, the
    inductive \<open>wf_obj\<close>) and the round trip of the serializer, proved by rule induction.
  \<^item> \<open>Entities\<close>: the data classes as class-table entries (\<open>repo_classes\<close>),
    \<^verbatim>\<open>prettyName\<close> (\<open>pretty_name\<close>, the \<^verbatim>\<open>re.sub\<close> scan), \<^verbatim>\<open>findSystemsByOwner\<close>
    and \<^verbatim>\<open>findSystem\<close>.
  \<^item> \<open>Adjacency\<close>: \<^verbatim>\<open>mapAdjacents\<close> as nested loops over the constants by position
    (\<open>adj_outer\<close>, \<open>adj_inner\<close>, \<open>adj_test\<close> in Python's order of evaluation), its
    specification \<open>map_adjacents_spec\<close> over the views \<open>const_view\<close>, and the refinement.
  \<^item> \<open>Cache\<close>: \<^verbatim>\<open>CacheManager\<close> with an explicit clock (\<open>get_cache_item\<close>,
    \<open>place_cache_item\<close>) and runs of timed operations (\<open>cache_run\<close>).
  \<^item> \<open>Client\<close>: the \<^verbatim>\<open>RogueWarApi\<close> attributes as a record that also holds the network
    (requests sent, responses to come); \<open>get_headers\<close>, \<open>send_post\<close>, \<open>send_get\<close>,
    \<open>get_auth_token\<close>, \<open>get_star_map\<close>, \<open>get_system_constants\<close>.
  \<^item> \<open>FileIO\<close>: \<^verbatim>\<open>__str__\<close> and \<^verbatim>\<open>__unicode__\<close> (\<open>obj_str\<close>,
    \<open>obj_unicode\<close>, \<^verbatim>\<open>str()\<close> a parameter), \<^verbatim>\<open>toJson\<close> (\<open>to_json_text\<close>, \<^verbatim>\<open>json.dumps\<close> a parameter),
    \<^verbatim>\<open>toRawJson\<close>, \<^verbatim>\<open>toFile\<close> (\<open>to_file\<close>) and \<^verbatim>\<open>fromFile\<close> (\<open>from_file\<close>) over a file
    store mapping paths to byte strings, with the UTF-8 encoder \<^verbatim>\<open>str.encode('utf-8')\<close>
    written out on \<open>8 word\<close> bytes (\<open>utf8_char\<close>, \<open>utf8_encode\<close>) and its decoder
    (\<open>utf8_decode\<close>); the decoders of the three codecs \<^verbatim>\<open>_getUtfEncoding\<close> chooses
    between are a parameter of \<open>from_file\<close>; \<open>json_norm\<close> is the normal form a value
    takes through \<^verbatim>\<open>json.dumps\<close> and \<^verbatim>\<open>json.loads\<close>.
  \<^item> \<open>BaseEnum\<close>: \<^verbatim>\<open>baseenum.py\<close>, an enumeration as the data attributes a subclass
    declares over \<^verbatim>\<open>BaseEnum\<close>'s methods (\<open>enum_class_attrs\<close>, in the order
    \<^verbatim>\<open>inspect.getmembers\<close> gives), with \<open>enum_get_members\<close>, \<open>enum_find_by_name\<close>,
    \<open>enum_is_an_item\<close>, \<open>enum_get_item_name\<close>, \<open>enum_list_item_names\<close> and
    \<open>enum_get_members_sorted\<close> and \<open>enum_doc_member\<close>.

  \<^bold>\<open>What is proved.\<close>  The serializer's round trip for every well-formed instance and
  that every repository class is well formed (C1, C2); \<^verbatim>\<open>fromJson\<close>'s error behaviour (C3,
  C4); the file round trip \<^verbatim>\<open>toFile\<close>/\<^verbatim>\<open>fromFile\<close>, which is \<^verbatim>\<open>_fromJson\<close> of
  the tree in the normal form JSON text keeps (\<open>json_norm\<close>: tuples become lists), exact
  when that form changes nothing, and \<^verbatim>\<open>fromFile\<close>'s outcomes, where it drops
  \<^verbatim>\<open>fromJson\<close>'s result (C5, C6); the queries (C7, C8); \<^verbatim>\<open>prettyName\<close> only
  inserting spaces and leaving no lower-case letter before an upper-case one (C9, C10); the
  refinement of \<^verbatim>\<open>mapAdjacents\<close> to its specification, the redundancy of its bounding-box
  prefilter, its non-idempotence, symmetry and error path (C11--C15); the cache's expiry,
  latest-write-wins over any interleaving, absence of eviction, finality of expiry and that
  every entry eventually expires (C16--C20); the client's requests (its own first, at most two
  more, exactly one without re-authentication), its single re-authentication, the caching and
  error behaviour of \<^verbatim>\<open>getStarMap\<close> and \<^verbatim>\<open>getSystemConstants\<close> (C21--C26); for
  \<^verbatim>\<open>BaseEnum\<close>, that \<^verbatim>\<open>_getMembersSorted\<close> always raises, that names and values
  translate back and forth, membership and the item list (C27--C30); and behaviour outside the
  round trip: a member that fails to decode stops \<^verbatim>\<open>_fromJson\<close> at once,
  \<^verbatim>\<open>__eq__\<close> ignores sub-objects, and a faction whose name was loaded as anything but a
  string can no longer be serialized or printed (C31--C33).  Further lemmas, not among the
  claims, evaluate the specification's examples (\<^verbatim>\<open>RedSunAlliance\<close>, the A/B/C
  adjacency), an end-to-end \<^verbatim>\<open>getSystemConstants\<close>, the \<^verbatim>\<open>Players\<close> tuple of a fresh
  \<^verbatim>\<open>StarSystem\<close>, the loss of a child under a singleton mapping, the ambiguity of
  \<^verbatim>\<open>findByName\<close>'s sentinel and the order of the byte-order-mark tests; they show that
  the UTF-8 codec is a bijection between texts and their encodings and that
  \<^verbatim>\<open>__unicode__\<close> prints as \<^verbatim>\<open>__str__\<close>.

  \<^bold>\<open>Bounds and termination.\<close>  No definition needs fuel: the serializer recurses on
  strictly smaller values, \<^verbatim>\<open>mapAdjacents\<close> is two bounded loops, and the request
  functions recurse only from \<open>reauth = True\<close> to \<open>reauth = False\<close> (measure on the
  flag), which is also why at most three requests are sent; the UTF-8 decoder consumes one or
  two bytes per step.  Cache expiry is a liveness property over the explicit clock: each key
  has a time after which it reads as absent (C20).  Bytes are \<open>8 word\<close>, so the
  encoder's bit operations are those of a byte.  Integers are unbounded as in
  Python; coordinates and times are reals, so float rounding is not modelled.

  \<^bold>\<open>Not modelled.\<close>  \<^verbatim>\<open>str()\<close> of arbitrary Python values (the
  \<^verbatim>\<open>repr\<close> of floats and nested containers, which the model's real numbers cannot render
  faithfully) is a parameter of the printing methods and of \<^verbatim>\<open>BaseEnum._docMember\<close>.
  The JSON text layer (\<^verbatim>\<open>json.dumps\<close>, \<^verbatim>\<open>json.loads\<close>) and
  \<^verbatim>\<open>bytes.decode\<close> are library code the sources only call:
  they are parameters, and the claims that need them state what they assume of them.  Text
  is over Isabelle's 8-bit characters, so code points above U+00FF are outside the model (the
  UTF-8 decoder rejects them).  A failing \<^verbatim>\<open>io.open\<close> when writing, logging, the HTTP
  transport (a response stream stands for the server), and the enumeration
  \<^verbatim>\<open>kfactions\<close>, which \<^verbatim>\<open>data/__init__.py\<close> imports but which is not among the
  sources, are not modelled.
\<close>

end
